theory Spec2Isabelle
  imports Complex_Main
begin

section \<open>Data model\<close>

text \<open>
  The two game services (\<^verbatim>\<open>dicebotService.js\<close>, \<^verbatim>\<open>lowcardService.js\<close>) keep their
  state in Redis keys and in the \<^verbatim>\<open>users\<close> table. The model holds that state in one
  record, \<open>world\<close>, which every operation takes and returns. JavaScript numbers that hold
  coin amounts are integers here (\<open>int\<close>), and the two fees, whose computation rounds, are
  computed as Numbers; \<^verbatim>\<open>Date.now()\<close> is an argument of the operation
  that reads it; the outcome of \<^verbatim>\<open>Math.random()\<close> (dice, shuffled decks) is an argument
  as well. Key expiry (\<^verbatim>\<open>EX\<close>), logging through \<^verbatim>\<open>logger\<close>, the \<^verbatim>\<open>lowcard_games\<close> and
  \<^verbatim>\<open>lowcard_history\<close> audit tables and I/O exceptions are outside the model. User-visible
  message strings are represented by the constructor that selects them.
\<close>

type_synonym uid = nat
type_synonym room = nat
type_synonym millis = int

datatype status = waiting | playing | finished

record player =
  userId :: uid
  username :: string
  isEliminated :: bool

record dice_player = player +
  hasRolled :: bool
  die1 :: "nat option"
  die2 :: "nat option"
  total' :: "nat option"
  isIn :: "bool option"
  hasImmunity :: bool
  earnedImmunity :: bool

datatype suit = suit_h | suit_d | suit_c | suit_s

record card =
  value' :: nat
  suit :: suit

record lowcard_player = player +
  hasDrawn :: bool
  currentCard :: "card option"

record 'p session =
  gameId :: millis
  roomId :: room
  status :: status
  entryAmount :: int
  pot :: int
  currentRound :: nat
  players :: "'p list"
  startedBy :: uid
  startedByUsername :: string
  createdAt :: millis
  joinDeadline :: millis

datatype bot_target = BotTarget (target_die1: nat) (target_die2: nat) (target_total: nat)

record dice_game = "dice_player session" +
  botTarget :: "bot_target option"
  winnerId :: "uid option"
  winnerUsername :: "string option"
  winnings :: "int option"
  houseFee :: "int option"
  finishedAt :: "millis option"

record lowcard_game = "lowcard_player session" +
  countdownEndsAt :: "millis option"
  roundDeadline :: "millis option"
  previousTiedLosers :: "uid list option"

datatype txn_type = game_bet | game_win | game_refund

text \<open>
  The description column of a \<^verbatim>\<open>credit_logs\<close> row: the reason alone, the reason with
  \<^verbatim>\<open>(Tagged Credits)\<close>, or the reason with the split \<^verbatim>\<open>(n tagged + m regular)\<close>.
\<close>

datatype bot = DiceBot | LowCard

datatype reason =
    BetStartGame bot
  | BetJoinGame bot
  | RefundBotRemoved bot
  | RefundNotEnoughPlayers bot
  | RefundCancelled bot string
  | RefundGameStopped bot
  | Win bot int

datatype description = Plain reason | TaggedCredits reason | Split reason int int

record credit_log =
  from_user_id :: uid
  from_username :: string
  amount :: int
  transaction_type :: txn_type
  description :: description

record world =
  credits_cache :: "uid \<rightharpoonup> int"
  users_credits :: "uid \<rightharpoonup> int"
  tagged :: "uid \<Rightarrow> int"
  credit_logs :: "credit_log list"
  dicebot_bot :: "room \<Rightarrow> bool"
  dicebot_game :: "room \<rightharpoonup> dice_game"
  dicebot_lock :: "room \<Rightarrow> bool"
  lowcard_bot :: "room \<Rightarrow> bool"
  lowcard_game :: "room \<rightharpoonup> lowcard_game"
  lowcard_lock :: "room \<Rightarrow> bool"
  lowcard_deck :: "room \<rightharpoonup> card list"
  big_game :: "room \<Rightarrow> bool"
  activeGameType :: "room \<rightharpoonup> string"

datatype failure =
    ActionInProgress
  | GameInProgress
  | BelowMinimum int
  | AboveMaximum int
  | NotEnoughCredits int
  | NoActiveGame
  | GameAlreadyInProgress
  | JoinPeriodEnded
  | AlreadyJoined
  | NoBotInRoom
  | NotInRollingPhase
  | RoundNotStarted
  | NotInGameOrEliminated
  | AlreadyRolled
  | AlreadyDrawn
  | GameNotInProgress
  | WaitForCountdown
  | AlreadyFinished
  | CannotStopStarted

section \<open>Numbers\<close>

text \<open>
  Amounts are JavaScript Numbers, that is IEEE 754 binary64 values. Sums, differences and
  comparisons of integers below \<open>2\<^sup>5\<^sup>3\<close> are exact, and are modelled on \<open>int\<close>. The two fee
  computations multiply and divide and therefore round: \<open>nearest_double a b\<close> is the Number
  nearest to the fraction \<open>a / b\<close>, with a significand of 53 bits and ties to even;
  \<open>binade a b\<close> gives the shifts \<open>(u, d)\<close> for which \<open>a * 2 ^ u / (b * 2 ^ d)\<close> lies between
  \<open>2\<^sup>5\<^sup>2\<close> and \<open>2\<^sup>5\<^sup>3\<close>. The range of the exponent is not modelled: the values here are far
  from overflow and underflow. \<open>double_of\<close> extends \<open>nearest_double\<close> to negative numerators.
\<close>

fun bit_length :: "nat \<Rightarrow> nat" where
  "bit_length n = (if n = 0 then 0 else 1 + bit_length (n div 2))"

declare bit_length.simps [simp del]

definition round_half_even :: "nat \<Rightarrow> nat \<Rightarrow> nat" where
  "round_half_even a b =
     (let q = a div b; r = a mod b
      in if 2 * r < b then q else if b < 2 * r then q + 1 else if even q then q else q + 1)"

definition significand :: "nat \<Rightarrow> nat \<Rightarrow> nat \<Rightarrow> nat \<Rightarrow> rat" where
  "significand a b u d = of_nat (round_half_even (a * 2 ^ u) (b * 2 ^ d)) * 2 ^ d / 2 ^ u"

definition binade :: "nat \<Rightarrow> nat \<Rightarrow> nat \<times> nat" where
  "binade a b =
     (let u0 = (52 + bit_length b) - bit_length a;
          d0 = bit_length a - (52 + bit_length b)
      in if a * 2 ^ u0 < 2 ^ 52 * (b * 2 ^ d0)
         then (if d0 = 0 then (u0 + 1, 0) else (u0, d0 - 1))
         else (u0, d0))"

definition nearest_double :: "nat \<Rightarrow> nat \<Rightarrow> rat" where
  "nearest_double a b =
     (if a = 0 then 0 else significand a b (fst (binade a b)) (snd (binade a b)))"

definition double_of :: "int \<Rightarrow> nat \<Rightarrow> rat" where
  "double_of a b =
     (if a < 0 then - nearest_double (nat (- a)) b else nearest_double (nat a) b)"

section \<open>Wager ledger\<close>

definition JOIN_TIMEOUT :: int where "JOIN_TIMEOUT = 30000"
definition DRAW_TIMEOUT :: int where "DRAW_TIMEOUT = 20000"
definition COUNTDOWN_DELAY :: int where "COUNTDOWN_DELAY = 3000"
definition MIN_ENTRY :: int where "MIN_ENTRY = 1"
definition MAX_ENTRY :: int where "MAX_ENTRY = 999999999"
definition MIN_ENTRY_BIG_GAME :: int where "MIN_ENTRY_BIG_GAME = 50"
definition HOUSE_FEE_PERCENT :: int where "HOUSE_FEE_PERCENT = 10"

text \<open>
  \<^verbatim>\<open>getUserCredits\<close>: the cached balance when there is one, otherwise the \<^verbatim>\<open>users\<close> row
  (0 when the row is missing), which is then cached.
\<close>

definition getUserCredits :: "uid \<Rightarrow> world \<Rightarrow> int \<times> world" where
  "getUserCredits u w =
     (case credits_cache w u of
        Some cached \<Rightarrow> (cached, w)
      | None \<Rightarrow>
          (let balance = (case users_credits w u of Some cr \<Rightarrow> cr | None \<Rightarrow> 0)
           in (balance, w\<lparr>credits_cache := (credits_cache w)(u \<mapsto> balance)\<rparr>)))"

definition logGameTransaction ::
    "uid \<Rightarrow> string \<Rightarrow> int \<Rightarrow> txn_type \<Rightarrow> description \<Rightarrow> world \<Rightarrow> world" where
  "logGameTransaction u name amt ty desc w =
     w\<lparr>credit_logs := credit_logs w @
        [\<lparr>from_user_id = u, from_username = name, amount = amt,
          transaction_type = ty, description = desc\<rparr>]\<rparr>"

text \<open>
  Modelled from the spec: \<^verbatim>\<open>merchantTagService\<close> is not among the sources. The spec's
  wager ledger says that a pre-deduction stage may consume from a separate tagged
  sub-balance (promotional credits usable only for wagering) before the main balance is
  touched. \<open>getTaggedBalance\<close> reads that sub-balance; \<open>consumeForGame\<close> takes as much of
  the amount as the sub-balance covers and reports what is left for the main balance.
\<close>

record consume_result =
  consume_success :: bool
  consume_usedTaggedCredits :: int
  consume_remainingAmount :: int

definition getTaggedBalance :: "uid \<Rightarrow> world \<Rightarrow> int" where
  "getTaggedBalance u w = tagged w u"

definition consumeForGame :: "uid \<Rightarrow> int \<Rightarrow> world \<Rightarrow> consume_result \<times> world" where
  "consumeForGame u amt w =
     (let used = min (tagged w u) amt
      in (\<lparr>consume_success = True, consume_usedTaggedCredits = used,
           consume_remainingAmount = amt - used\<rparr>,
          w\<lparr>tagged := (tagged w)(u := tagged w u - used)\<rparr>))"

datatype deduct_result = DeductOk int int | DeductFailed int

fun deduct_success :: "deduct_result \<Rightarrow> bool" where
  "deduct_success (DeductOk _ _) = True"
| "deduct_success (DeductFailed _) = False"

fun deduct_balance :: "deduct_result \<Rightarrow> int" where
  "deduct_balance (DeductOk b _) = b"
| "deduct_balance (DeductFailed b) = b"

text \<open>
  \<^verbatim>\<open>deductCredits\<close> is the same function in both services (they differ in the game-type
  tag passed to the tag service and in the logger's labels). The pre-deduction stage runs
  first; the main balance is then checked against the cache and debited by the
  conditional \<^verbatim>\<open>UPDATE ... WHERE credits >= $1\<close>.
\<close>

definition tagged_stage :: "uid \<Rightarrow> int \<Rightarrow> world \<Rightarrow> (int \<times> int) \<times> world" where
  "tagged_stage u amt w =
     (if getTaggedBalance u w > 0 then
        (case consumeForGame u amt w of
           (cr, w') \<Rightarrow>
             if consume_success cr
             then ((consume_usedTaggedCredits cr, consume_remainingAmount cr), w')
             else ((0, amt), w'))
      else ((0, amt), w))"

definition deductCredits ::
    "uid \<Rightarrow> int \<Rightarrow> string \<Rightarrow> reason \<Rightarrow> world \<Rightarrow> deduct_result \<times> world" where
  "deductCredits u amt name rsn w =
     (case tagged_stage u amt w of
        ((usedTaggedCredits, remainingAmount), w1) \<Rightarrow>
          (case getUserCredits u w1 of
             (current, w2) \<Rightarrow>
               if remainingAmount \<le> 0 then
                 (DeductOk current usedTaggedCredits,
                  if name \<noteq> [] then logGameTransaction u name (- amt) game_bet (TaggedCredits rsn) w2
                  else w2)
               else if current < remainingAmount then (DeductFailed current, w2)
               else
                 (case users_credits w2 u of
                    None \<Rightarrow> (DeductFailed current, w2)
                  | Some cr \<Rightarrow>
                      if cr \<ge> remainingAmount then
                        (let newBalance = cr - remainingAmount;
                             w3 = w2\<lparr>users_credits := (users_credits w2)(u \<mapsto> newBalance),
                                     credits_cache := (credits_cache w2)(u \<mapsto> newBalance)\<rparr>;
                             desc = (if usedTaggedCredits > 0
                                     then Split rsn usedTaggedCredits remainingAmount
                                     else Plain rsn)
                         in (DeductOk newBalance usedTaggedCredits,
                             if name \<noteq> [] then logGameTransaction u name (- amt) game_bet desc w3
                             else w3))
                      else (DeductFailed current, w2))))"

text \<open>
  \<^verbatim>\<open>reason.includes('Refund')\<close> on the reason strings the services pass: the bet and
  win reasons do not contain the word, the refund reasons do.
\<close>

fun reason_includes_Refund :: "reason \<Rightarrow> bool" where
  "reason_includes_Refund (RefundBotRemoved _) = True"
| "reason_includes_Refund (RefundNotEnoughPlayers _) = True"
| "reason_includes_Refund (RefundCancelled _ _) = True"
| "reason_includes_Refund (RefundGameStopped _) = True"
| "reason_includes_Refund _ = False"

datatype credit_result = CreditOk int | CreditFailed

fun credit_balance :: "credit_result \<Rightarrow> int" where
  "credit_balance (CreditOk b) = b"
| "credit_balance CreditFailed = 0"

definition addCredits ::
    "uid \<Rightarrow> int \<Rightarrow> string \<Rightarrow> reason \<Rightarrow> world \<Rightarrow> credit_result \<times> world" where
  "addCredits u amt name rsn w =
     (case users_credits w u of
        None \<Rightarrow> (CreditFailed, w)
      | Some cr \<Rightarrow>
          (let newBalance = cr + amt;
               w1 = w\<lparr>users_credits := (users_credits w)(u \<mapsto> newBalance),
                      credits_cache := (credits_cache w)(u \<mapsto> newBalance)\<rparr>
           in (CreditOk newBalance,
               if name \<noteq> [] then
                 logGameTransaction u name amt
                   (if reason_includes_Refund rsn then game_refund else game_win) (Plain rsn) w1
               else w1)))"


text \<open>The refund loops: \<^verbatim>\<open>for (const player of ...) await addCredits(...)\<close>.\<close>

fun refund_each :: "reason \<Rightarrow> int \<Rightarrow> 'a player_scheme list \<Rightarrow> world \<Rightarrow> world" where
  "refund_each rsn amt [] w = w"
| "refund_each rsn amt (p # ps) w =
     refund_each rsn amt ps (snd (addCredits (userId p) amt (username p) rsn w))"

text \<open>
  \<^verbatim>\<open>parseInt(amount) || dflt\<close>: the argument is what \<^verbatim>\<open>parseInt\<close> returns, \<open>None\<close> for
  \<^verbatim>\<open>NaN\<close>; \<^verbatim>\<open>NaN\<close> and 0 are falsy.
\<close>

definition parseInt_or :: "int option \<Rightarrow> int \<Rightarrow> int" where
  "parseInt_or amt dflt =
     (case amt of None \<Rightarrow> dflt | Some a \<Rightarrow> if a = 0 then dflt else a)"

text \<open>
  An array element mutated through the reference that \<^verbatim>\<open>find\<close> or \<^verbatim>\<open>findIndex\<close>
  returned: the first element that satisfies the predicate.
\<close>

fun update_first :: "('a \<Rightarrow> bool) \<Rightarrow> ('a \<Rightarrow> 'a) \<Rightarrow> 'a list \<Rightarrow> 'a list" where
  "update_first P f [] = []"
| "update_first P f (x # xs) = (if P x then f x # xs else x # update_first P f xs)"

datatype start_ok = StartOk (start_gameId: millis) (start_newBalance: int)

datatype join_ok = JoinOk (join_playerCount: nat) (join_pot: int) (join_newBalance: int)

datatype begin_result = BeginNull | BeginCancelled | BeginStarted nat int

section \<open>Dice variant\<close>

text \<open>
  \<^verbatim>\<open>rollDice\<close>: the arguments are the two values of
  \<^verbatim>\<open>Math.floor(Math.random() * 6) + 1\<close>, each between 1 and 6.
\<close>

definition rollDice :: "nat \<Rightarrow> nat \<Rightarrow> nat \<times> nat \<times> nat" where
  "rollDice a b = (a, b, a + b)"

definition isDoubleSix :: "nat \<Rightarrow> nat \<Rightarrow> bool" where
  "isDoubleSix a b = (a = 6 \<and> b = 6)"

definition new_dice_player :: "uid \<Rightarrow> string \<Rightarrow> dice_player" where
  "new_dice_player u name =
     \<lparr>userId = u, username = name, isEliminated = False, hasRolled = False,
      die1 = None, die2 = None, total' = None, isIn = None,
      hasImmunity = False, earnedImmunity = False\<rparr>"

definition dice_game_running :: "room \<Rightarrow> world \<Rightarrow> bool" where
  "dice_game_running r w =
     (case dicebot_game w r of
        None \<Rightarrow> False
      | Some game \<Rightarrow> status game = waiting \<or> status game = playing)"

definition dice_startGame_locked ::
    "millis \<Rightarrow> room \<Rightarrow> uid \<Rightarrow> string \<Rightarrow> int option \<Rightarrow> world \<Rightarrow> (failure + start_ok) \<times> world" where
  "dice_startGame_locked now r u name amt w =
     (if dice_game_running r w then (Inl GameInProgress, w)
      else
        (let requestedAmount = parseInt_or amt MIN_ENTRY in
         if requestedAmount < MIN_ENTRY then (Inl (BelowMinimum MIN_ENTRY), w)
         else
           (let entry = min MAX_ENTRY requestedAmount in
            (case deductCredits u entry name (BetStartGame DiceBot) w of
               (deductResult, w1) \<Rightarrow>
                 if \<not> deduct_success deductResult then (Inl (NotEnoughCredits entry), w1)
                 else
                   (let game =
                      \<lparr>gameId = now, roomId = r, status = waiting, entryAmount = entry,
                       pot = entry, currentRound = 0, players = [new_dice_player u name],
                       startedBy = u, startedByUsername = name, createdAt = now,
                       joinDeadline = now + JOIN_TIMEOUT,
                       botTarget = None, winnerId = None, winnerUsername = None,
                       winnings = None, houseFee = None, finishedAt = None\<rparr>
                    in (Inr (StartOk now (deduct_balance deductResult)),
                        w1\<lparr>dicebot_game := (dicebot_game w1)(r \<mapsto> game)\<rparr>))))))"

text \<open>
  \<^verbatim>\<open>startGame\<close> takes the room's lock (\<^verbatim>\<open>SET lockKey 1 EX 5 NX\<close>), runs the body and
  releases the lock in \<^verbatim>\<open>finally\<close>.
\<close>

definition dice_startGame ::
    "millis \<Rightarrow> room \<Rightarrow> uid \<Rightarrow> string \<Rightarrow> int option \<Rightarrow> world \<Rightarrow> (failure + start_ok) \<times> world" where
  "dice_startGame now r u name amt w =
     (if dicebot_lock w r then (Inl ActionInProgress, w)
      else
        (case dice_startGame_locked now r u name amt
                (w\<lparr>dicebot_lock := (dicebot_lock w)(r := True)\<rparr>) of
           (res, w1) \<Rightarrow> (res, w1\<lparr>dicebot_lock := (dicebot_lock w1)(r := False)\<rparr>)))"

definition dice_joinGame ::
    "millis \<Rightarrow> room \<Rightarrow> uid \<Rightarrow> string \<Rightarrow> world \<Rightarrow> (failure + join_ok) \<times> world" where
  "dice_joinGame now r u name w =
     (case dicebot_game w r of
        None \<Rightarrow> (Inl NoActiveGame, w)
      | Some game \<Rightarrow>
          if status game \<noteq> waiting then (Inl GameAlreadyInProgress, w)
          else if now > joinDeadline game then (Inl JoinPeriodEnded, w)
          else if find (\<lambda>p. userId p = u) (players game) \<noteq> None then (Inl AlreadyJoined, w)
          else
            (case deductCredits u (entryAmount game) name (BetJoinGame DiceBot) w of
               (deductResult, w1) \<Rightarrow>
                 if \<not> deduct_success deductResult
                 then (Inl (NotEnoughCredits (entryAmount game)), w1)
                 else
                   (let game' = game\<lparr>players := players game @ [new_dice_player u name],
                                     pot := pot game + entryAmount game\<rparr>
                    in (Inr (JoinOk (length (players game')) (pot game')
                               (deduct_balance deductResult)),
                        w1\<lparr>dicebot_game := (dicebot_game w1)(r \<mapsto> game')\<rparr>))))"

definition dice_beginGame :: "room \<Rightarrow> world \<Rightarrow> begin_result \<times> world" where
  "dice_beginGame r w =
     (case dicebot_game w r of
        None \<Rightarrow> (BeginNull, w)
      | Some game \<Rightarrow>
          if status game \<noteq> waiting then (BeginNull, w)
          else if length (players game) < 2 then
            (let w1 = refund_each (RefundNotEnoughPlayers DiceBot) (entryAmount game)
                        (players game) w
             in (BeginCancelled, w1\<lparr>dicebot_game := (dicebot_game w1)(r := None)\<rparr>))
          else
            (let game' = game\<lparr>status := playing, currentRound := 0\<rparr>
             in (BeginStarted (length (players game')) (pot game'),
                 w\<lparr>dicebot_game := (dicebot_game w)(r \<mapsto> game')\<rparr>)))"

text \<open>The body of the player loop of \<^verbatim>\<open>startNextRound\<close>.\<close>

definition next_round_player :: "dice_player \<Rightarrow> dice_player" where
  "next_round_player p =
     (if \<not> isEliminated p then
        (let p1 = (if earnedImmunity p
                   then p\<lparr>hasImmunity := True, earnedImmunity := False\<rparr> else p)
         in p1\<lparr>hasRolled := False, die1 := None, die2 := None, total' := None, isIn := None\<rparr>)
      else p)"

definition dice_startNextRound ::
    "room \<Rightarrow> nat \<Rightarrow> nat \<Rightarrow> world \<Rightarrow> (nat \<times> bot_target) option \<times> world" where
  "dice_startNextRound r a b w =
     (case dicebot_game w r of
        None \<Rightarrow> (None, w)
      | Some game \<Rightarrow>
          if status game \<noteq> playing then (None, w)
          else
            (case rollDice a b of
               (d1, d2, t) \<Rightarrow>
                 (let game' = game\<lparr>currentRound := currentRound game + 1,
                                   botTarget := Some (BotTarget d1 d2 t),
                                   players := map next_round_player (players game)\<rparr>
                  in (Some (currentRound game', BotTarget d1 d2 t),
                      w\<lparr>dicebot_game := (dicebot_game w)(r \<mapsto> game')\<rparr>))))"

text \<open>
  What a roll does to the player who rolled; \<^verbatim>\<open>rollPlayerDice\<close> and the loop of
  \<^verbatim>\<open>autoRollForTimeout\<close> have the same statements.
\<close>

definition apply_roll :: "bot_target \<Rightarrow> nat \<Rightarrow> nat \<Rightarrow> dice_player \<Rightarrow> dice_player" where
  "apply_roll target a b p =
     (case rollDice a b of
        (d1, d2, t) \<Rightarrow>
          (let p1 = p\<lparr>hasRolled := True, die1 := Some d1, die2 := Some d2, total' := Some t\<rparr>;
               meetsTarget = (t \<ge> target_total target);
               gotDoubleSix = isDoubleSix d1 d2;
               p2 = (if gotDoubleSix then p1\<lparr>earnedImmunity := True\<rparr> else p1)
           in p2\<lparr>isIn := Some (meetsTarget \<or> hasImmunity p2)\<rparr>))"

record roll_ok =
  roll_die1 :: nat
  roll_die2 :: nat
  roll_total :: nat
  roll_isIn :: bool
  gotDoubleSix :: bool
  usedImmunity :: bool
  allRolled :: bool

definition dice_rollPlayerDice ::
    "room \<Rightarrow> uid \<Rightarrow> nat \<Rightarrow> nat \<Rightarrow> world \<Rightarrow> (failure + roll_ok) \<times> world" where
  "dice_rollPlayerDice r u a b w =
     (case dicebot_game w r of
        None \<Rightarrow> (Inl NoActiveGame, w)
      | Some game \<Rightarrow>
          if status game \<noteq> playing then (Inl NotInRollingPhase, w)
          else
            (case botTarget game of
               None \<Rightarrow> (Inl RoundNotStarted, w)
             | Some target \<Rightarrow>
                 (case find (\<lambda>p. userId p = u \<and> \<not> isEliminated p) (players game) of
                    None \<Rightarrow> (Inl NotInGameOrEliminated, w)
                  | Some player \<Rightarrow>
                      if hasRolled player then (Inl AlreadyRolled, w)
                      else
                        (let player' = apply_roll target a b player;
                             game' = game\<lparr>players :=
                                       update_first (\<lambda>p. userId p = u \<and> \<not> isEliminated p)
                                         (apply_roll target a b) (players game)\<rparr>;
                             meetsTarget = (a + b \<ge> target_total target)
                         in (Inr \<lparr>roll_die1 = a, roll_die2 = b, roll_total = a + b,
                                  roll_isIn = (isIn player' = Some True),
                                  gotDoubleSix = isDoubleSix a b,
                                  usedImmunity = (hasImmunity player' \<and> \<not> meetsTarget),
                                  allRolled = list_all hasRolled
                                    (filter (\<lambda>p. \<not> isEliminated p) (players game'))\<rparr>,
                             w\<lparr>dicebot_game := (dicebot_game w)(r \<mapsto> game')\<rparr>)))))"

text \<open>
  \<^verbatim>\<open>autoRollForTimeout\<close>: every player who is not eliminated and has not rolled gets a
  roll; \<open>rnd k\<close> is the pair of dice of the \<open>k\<close>-th such player.
\<close>

fun auto_roll ::
    "bot_target \<Rightarrow> (nat \<Rightarrow> nat \<times> nat) \<Rightarrow> nat \<Rightarrow> dice_player list \<Rightarrow> dice_player list" where
  "auto_roll target rnd k [] = []"
| "auto_roll target rnd k (p # ps) =
     (if \<not> isEliminated p \<and> \<not> hasRolled p
      then apply_roll target (fst (rnd k)) (snd (rnd k)) p # auto_roll target rnd (Suc k) ps
      else p # auto_roll target rnd k ps)"

definition dice_autoRollForTimeout ::
    "room \<Rightarrow> (nat \<Rightarrow> nat \<times> nat) \<Rightarrow> world \<Rightarrow> dice_player list \<times> world" where
  "dice_autoRollForTimeout r rnd w =
     (case dicebot_game w r of
        None \<Rightarrow> ([], w)
      | Some game \<Rightarrow>
          (case botTarget game of
             None \<Rightarrow> ([], w)
           | Some target \<Rightarrow>
               (let ps' = auto_roll target rnd 0 (players game);
                    results = map snd (filter (\<lambda>(p, p'). \<not> isEliminated p \<and> \<not> hasRolled p)
                                         (zip (players game) ps'))
                in (results, w\<lparr>dicebot_game := (dicebot_game w)(r \<mapsto> game\<lparr>players := ps'\<rparr>)\<rparr>))))"

datatype dice_tally =
    TallyNull
  | AllFailed nat
  | GameOver (over_winnerId: uid) (over_pot: int) (over_winnings: int) (over_houseFee: int)
      (over_newBalance: int)
  | NoWinner
  | RoundComplete nat nat nat

text \<open>
  \<^verbatim>\<open>Math.floor(game.pot * HOUSE_FEE_PERCENT / 100)\<close>: the product is rounded to a Number
  (an integer), the quotient is rounded again, then floored.
\<close>

definition dice_house_fee :: "int \<Rightarrow> int" where
  "dice_house_fee p = \<lfloor>double_of \<lfloor>double_of (p * HOUSE_FEE_PERCENT) 1\<rfloor> 100\<rfloor>"

definition dice_finalizeGame :: "millis \<Rightarrow> room \<Rightarrow> world \<Rightarrow> dice_tally \<times> world" where
  "dice_finalizeGame now r w =
     (case dicebot_game w r of
        None \<Rightarrow> (TallyNull, w)
      | Some game \<Rightarrow>
          (case find (\<lambda>p. \<not> isEliminated p) (players game) of
             None \<Rightarrow> (NoWinner, w\<lparr>dicebot_game := (dicebot_game w)(r := None)\<rparr>)
           | Some winner \<Rightarrow>
               (let fee = dice_house_fee (pot game);
                    win = pot game - fee
                in (case addCredits (userId winner) win (username winner) (Win DiceBot win) w of
                      (addResult, w1) \<Rightarrow>
                        (let game' = game\<lparr>status := finished,
                                          winnerId := Some (userId winner),
                                          winnerUsername := Some (username winner),
                                          winnings := Some win,
                                          houseFee := Some fee,
                                          finishedAt := Some now\<rparr>
                         in (GameOver (userId winner) (pot game) win fee
                               (credit_balance addResult),
                             w1\<lparr>dicebot_game := (dicebot_game w1)(r \<mapsto> game')\<rparr>))))))"

text \<open>The player loops of \<^verbatim>\<open>tallyRound\<close>, as functions of one player.\<close>

definition clear_immunity :: "dice_player \<Rightarrow> dice_player" where
  "clear_immunity p =
     (if \<not> isEliminated p \<and> hasImmunity p then p\<lparr>hasImmunity := False\<rparr> else p)"

definition reset_roll :: "dice_player \<Rightarrow> dice_player" where
  "reset_roll p =
     (if \<not> isEliminated p
      then p\<lparr>hasRolled := False, die1 := None, die2 := None, total' := None, isIn := None\<rparr>
      else p)"

definition eliminate_out :: "dice_player \<Rightarrow> dice_player" where
  "eliminate_out p =
     (if \<not> isEliminated p \<and> isIn p = Some False then p\<lparr>isEliminated := True\<rparr> else p)"

definition dice_tallyRound :: "millis \<Rightarrow> room \<Rightarrow> world \<Rightarrow> dice_tally \<times> world" where
  "dice_tallyRound now r w =
     (case dicebot_game w r of
        None \<Rightarrow> (TallyNull, w)
      | Some game \<Rightarrow>
          if status game \<noteq> playing then (TallyNull, w)
          else
            (let activePlayers = filter (\<lambda>p. \<not> isEliminated p) (players game);
                 survivors = filter (\<lambda>p. isIn p = Some True) activePlayers;
                 eliminated = filter (\<lambda>p. isIn p = Some False) activePlayers;
                 cleared = map clear_immunity (players game)
             in if length survivors = 0 then
                  (let game' = game\<lparr>players := map reset_roll cleared, botTarget := None\<rparr>
                   in (AllFailed (currentRound game + 1),
                       w\<lparr>dicebot_game := (dicebot_game w)(r \<mapsto> game')\<rparr>))
                else
                  (let game1 = game\<lparr>players := map eliminate_out cleared\<rparr>;
                       remainingPlayers = filter (\<lambda>p. \<not> isEliminated p) (players game1)
                   in if length remainingPlayers = 1 then
                        dice_finalizeGame now r
                          (w\<lparr>dicebot_game := (dicebot_game w)(r \<mapsto> game1)\<rparr>)
                      else
                        (let game2 = game1\<lparr>botTarget := None\<rparr>
                         in (RoundComplete (length eliminated) (length remainingPlayers)
                               (currentRound game + 1),
                             w\<lparr>dicebot_game := (dicebot_game w)(r \<mapsto> game2)\<rparr>)))))"

definition dice_cancelGame :: "room \<Rightarrow> string \<Rightarrow> world \<Rightarrow> (failure + unit) \<times> world" where
  "dice_cancelGame r why w =
     (case dicebot_game w r of
        None \<Rightarrow> (Inl NoActiveGame, w)
      | Some game \<Rightarrow>
          if status game = finished then (Inl AlreadyFinished, w)
          else
            (let w1 = refund_each (RefundCancelled DiceBot why) (entryAmount game)
                        (filter (\<lambda>p. \<not> isEliminated p) (players game)) w
             in (Inr (), w1\<lparr>dicebot_game := (dicebot_game w1)(r := None)\<rparr>)))"

definition dice_removeBotFromRoom :: "room \<Rightarrow> world \<Rightarrow> (failure + unit) \<times> world" where
  "dice_removeBotFromRoom r w =
     (if \<not> dicebot_bot w r then (Inl NoBotInRoom, w)
      else
        (let w1 = (case dicebot_game w r of
                     None \<Rightarrow> w
                   | Some game \<Rightarrow>
                       if status game = waiting
                       then refund_each (RefundBotRemoved DiceBot) (entryAmount game)
                              (players game) w
                       else w)
         in (Inr (), w1\<lparr>dicebot_bot := (dicebot_bot w1)(r := False),
                        dicebot_game := (dicebot_game w1)(r := None),
                        activeGameType := (activeGameType w1)(r := None)\<rparr>)))"


section \<open>Card variant\<close>

definition CARD_SUITS :: "suit list" where
  "CARD_SUITS = [suit_h, suit_d, suit_c, suit_s]"

definition CARD_VALUES :: "nat list" where
  "CARD_VALUES = [2, 3, 4, 5, 6, 7, 8, 9, 10, 11, 12, 13, 14]"

text \<open>
  \<^verbatim>\<open>generateDeck\<close> builds the 52 cards below and shuffles them. The shuffled deck is an
  argument (\<open>fresh\<close>) of the operations that may call \<^verbatim>\<open>generateDeck\<close>.
\<close>

definition unshuffled_deck :: "card list" where
  "unshuffled_deck =
     concat (map (\<lambda>su. map (\<lambda>v. \<lparr>value' = v, suit = su\<rparr>) CARD_VALUES) CARD_SUITS)"

definition new_lowcard_player :: "uid \<Rightarrow> string \<Rightarrow> lowcard_player" where
  "new_lowcard_player u name =
     \<lparr>userId = u, username = name, isEliminated = False, hasDrawn = False, currentCard = None\<rparr>"

definition lowcard_game_running :: "room \<Rightarrow> world \<Rightarrow> bool" where
  "lowcard_game_running r w =
     (case lowcard_game w r of
        None \<Rightarrow> False
      | Some game \<Rightarrow> status game = waiting \<or> status game = playing)"

text \<open>
  \<open>big_game w r\<close> stands for \<^verbatim>\<open>roomName.toLowerCase().includes('big game')\<close> on the name
  read from the \<^verbatim>\<open>rooms\<close> table.
\<close>

definition lowcard_startGame_locked ::
    "millis \<Rightarrow> room \<Rightarrow> uid \<Rightarrow> string \<Rightarrow> int option \<Rightarrow> world \<Rightarrow> (failure + start_ok) \<times> world" where
  "lowcard_startGame_locked now r u name amt w =
     (if lowcard_game_running r w then (Inl GameInProgress, w)
      else
        (let isBigGame = big_game w r;
             minEntry = (if isBigGame then MIN_ENTRY_BIG_GAME else MIN_ENTRY);
             requestedAmount = parseInt_or amt minEntry
         in if requestedAmount < minEntry then (Inl (BelowMinimum minEntry), w)
            else if \<not> isBigGame \<and> requestedAmount > MAX_ENTRY then (Inl (AboveMaximum MAX_ENTRY), w)
            else
              (let entry = requestedAmount in
               (case deductCredits u entry name (BetStartGame LowCard) w of
                  (deductResult, w1) \<Rightarrow>
                    if \<not> deduct_success deductResult then (Inl (NotEnoughCredits entry), w1)
                    else
                      (let game =
                         \<lparr>gameId = now, roomId = r, status = waiting, entryAmount = entry,
                          pot = entry, currentRound = 0, players = [new_lowcard_player u name],
                          startedBy = u, startedByUsername = name, createdAt = now,
                          joinDeadline = now + JOIN_TIMEOUT,
                          countdownEndsAt = None, roundDeadline = None,
                          previousTiedLosers = None\<rparr>
                       in (Inr (StartOk now (deduct_balance deductResult)),
                           w1\<lparr>lowcard_game := (lowcard_game w1)(r \<mapsto> game)\<rparr>))))))"

definition lowcard_startGame ::
    "millis \<Rightarrow> room \<Rightarrow> uid \<Rightarrow> string \<Rightarrow> int option \<Rightarrow> world \<Rightarrow> (failure + start_ok) \<times> world" where
  "lowcard_startGame now r u name amt w =
     (if lowcard_lock w r then (Inl ActionInProgress, w)
      else
        (case lowcard_startGame_locked now r u name amt
                (w\<lparr>lowcard_lock := (lowcard_lock w)(r := True)\<rparr>) of
           (res, w1) \<Rightarrow> (res, w1\<lparr>lowcard_lock := (lowcard_lock w1)(r := False)\<rparr>)))"

definition lowcard_joinGame ::
    "millis \<Rightarrow> room \<Rightarrow> uid \<Rightarrow> string \<Rightarrow> world \<Rightarrow> (failure + join_ok) \<times> world" where
  "lowcard_joinGame now r u name w =
     (case lowcard_game w r of
        None \<Rightarrow> (Inl NoActiveGame, w)
      | Some game \<Rightarrow>
          if status game \<noteq> waiting then (Inl GameAlreadyInProgress, w)
          else if now > joinDeadline game then (Inl JoinPeriodEnded, w)
          else if find (\<lambda>p. userId p = u) (players game) \<noteq> None then (Inl AlreadyJoined, w)
          else
            (case deductCredits u (entryAmount game) name (BetJoinGame LowCard) w of
               (deductResult, w1) \<Rightarrow>
                 if \<not> deduct_success deductResult
                 then (Inl (NotEnoughCredits (entryAmount game)), w1)
                 else
                   (let game' = game\<lparr>players := players game @ [new_lowcard_player u name],
                                     pot := pot game + entryAmount game\<rparr>
                    in (Inr (JoinOk (length (players game')) (pot game')
                               (deduct_balance deductResult)),
                        w1\<lparr>lowcard_game := (lowcard_game w1)(r \<mapsto> game')\<rparr>))))"

definition reset_draw :: "lowcard_player \<Rightarrow> lowcard_player" where
  "reset_draw p = p\<lparr>hasDrawn := False, currentCard := None\<rparr>"

definition lowcard_beginGame ::
    "millis \<Rightarrow> card list \<Rightarrow> room \<Rightarrow> world \<Rightarrow> begin_result \<times> world" where
  "lowcard_beginGame now fresh r w =
     (case lowcard_game w r of
        None \<Rightarrow> (BeginNull, w)
      | Some game \<Rightarrow>
          if status game \<noteq> waiting then (BeginNull, w)
          else if length (players game) < 2 then
            (let w1 = refund_each (RefundNotEnoughPlayers LowCard) (entryAmount game)
                        (players game) w
             in (BeginCancelled, w1\<lparr>lowcard_game := (lowcard_game w1)(r := None)\<rparr>))
          else
            (let game' = game\<lparr>status := playing, currentRound := 1,
                              players := map reset_draw (players game),
                              countdownEndsAt := Some (now + COUNTDOWN_DELAY),
                              roundDeadline := Some (now + COUNTDOWN_DELAY + DRAW_TIMEOUT)\<rparr>
             in (BeginStarted (length (players game')) (pot game'),
                 w\<lparr>lowcard_deck := (lowcard_deck w)(r \<mapsto> fresh),
                   lowcard_game := (lowcard_game w)(r \<mapsto> game')\<rparr>)))"

text \<open>
  \<^verbatim>\<open>drawCardFromDeck\<close>: a missing or empty deck is regenerated, then \<^verbatim>\<open>deck.pop()\<close>
  takes the last card (\<^verbatim>\<open>undefined\<close>, here \<open>None\<close>, from an empty array).
\<close>

definition drawCardFromDeck :: "card list \<Rightarrow> room \<Rightarrow> world \<Rightarrow> card option \<times> world" where
  "drawCardFromDeck fresh r w =
     (let deck = (case lowcard_deck w r of
                    None \<Rightarrow> fresh
                  | Some dk \<Rightarrow> if length dk = 0 then fresh else dk)
      in (if deck = [] then None else Some (last deck),
          w\<lparr>lowcard_deck := (lowcard_deck w)(r \<mapsto> butlast deck)\<rparr>))"

definition lowcard_drawCardForPlayer ::
    "millis \<Rightarrow> card list \<Rightarrow> room \<Rightarrow> uid \<Rightarrow> world \<Rightarrow> (failure + card option) \<times> world" where
  "lowcard_drawCardForPlayer now fresh r u w =
     (case lowcard_game w r of
        None \<Rightarrow> (Inl NoActiveGame, w)
      | Some game \<Rightarrow>
          if status game \<noteq> playing then (Inl GameNotInProgress, w)
          else if (case countdownEndsAt game of None \<Rightarrow> False | Some t \<Rightarrow> now < t)
          then (Inl WaitForCountdown, w)
          else
            (case find (\<lambda>p. userId p = u \<and> \<not> isEliminated p) (players game) of
               None \<Rightarrow> (Inl NotInGameOrEliminated, w)
             | Some player \<Rightarrow>
                 if hasDrawn player then (Inl AlreadyDrawn, w)
                 else
                   (case drawCardFromDeck fresh r w of
                      (cd, w1) \<Rightarrow>
                        (let game' = game\<lparr>players :=
                                       update_first (\<lambda>p. userId p = u \<and> \<not> isEliminated p)
                                         (\<lambda>p. p\<lparr>currentCard := cd, hasDrawn := True\<rparr>)
                                         (players game)\<rparr>
                         in (Inr cd, w1\<lparr>lowcard_game := (lowcard_game w1)(r \<mapsto> game')\<rparr>)))))"

text \<open>
  The loop of \<^verbatim>\<open>autoDrawForTimeout\<close>; \<open>gen k\<close> is the shuffled deck that the \<open>k\<close>-th
  draw of the call would get from \<^verbatim>\<open>generateDeck\<close>.
\<close>

fun auto_draw ::
    "(nat \<Rightarrow> card list) \<Rightarrow> room \<Rightarrow> nat \<Rightarrow> lowcard_player list \<Rightarrow> world
      \<Rightarrow> lowcard_player list \<times> world" where
  "auto_draw gen r k [] w = ([], w)"
| "auto_draw gen r k (p # ps) w =
     (if \<not> isEliminated p \<and> \<not> hasDrawn p then
        (case drawCardFromDeck (gen k) r w of
           (cd, w1) \<Rightarrow>
             (case auto_draw gen r (Suc k) ps w1 of
                (ps', w2) \<Rightarrow> (p\<lparr>currentCard := cd, hasDrawn := True\<rparr> # ps', w2)))
      else
        (case auto_draw gen r k ps w of (ps', w2) \<Rightarrow> (p # ps', w2)))"

definition lowcard_autoDrawForTimeout ::
    "(nat \<Rightarrow> card list) \<Rightarrow> room \<Rightarrow> world \<Rightarrow> lowcard_player list \<times> world" where
  "lowcard_autoDrawForTimeout gen r w =
     (case lowcard_game w r of
        None \<Rightarrow> ([], w)
      | Some game \<Rightarrow>
          (case auto_draw gen r 0 (players game) w of
             (ps', w1) \<Rightarrow>
               (map snd (filter (\<lambda>(p, p'). \<not> isEliminated p \<and> \<not> hasDrawn p)
                           (zip (players game) ps')),
                w1\<lparr>lowcard_game := (lowcard_game w1)(r \<mapsto> game\<lparr>players := ps'\<rparr>)\<rparr>)))"

datatype lowcard_tally =
    LcNull
  | LcError
  | LcGameOver (lc_winnerId: uid) (lc_winnings: int) (lc_newBalance: int)
  | LcTie "uid list"
  | LcEliminated "uid list" nat nat

text \<open>\<^verbatim>\<open>p.currentCard.value\<close>, read only from players who hold a card.\<close>

definition cardValue :: "lowcard_player \<Rightarrow> nat" where
  "cardValue p = (case currentCard p of None \<Rightarrow> 0 | Some cd \<Rightarrow> value' cd)"

text \<open>
  The end of a game, written three times in \<^verbatim>\<open>tallyRound\<close>: the commission is
  \<^verbatim>\<open>Math.floor(game.pot * 0.05)\<close>, the winner is credited the rest, the session and the
  deck are deleted. The literal \<^verbatim>\<open>0.05\<close> is the Number \<open>3602879701896397 / 2\<^sup>5\<^sup>6\<close>, the
  one nearest to \<open>5 / 100\<close>; the product is rounded to a Number, then floored.
\<close>

definition lowcard_commission :: "int \<Rightarrow> int" where
  "lowcard_commission p = \<lfloor>double_of (p * 3602879701896397) (2 ^ 56)\<rfloor>"

definition lowcard_payout ::
    "room \<Rightarrow> lowcard_player \<Rightarrow> lowcard_game \<Rightarrow> world \<Rightarrow> lowcard_tally \<times> world" where
  "lowcard_payout r winner game w =
     (let commission = lowcard_commission (pot game);
          win = pot game - commission
      in (case addCredits (userId winner) win (username winner) (Win LowCard (pot game)) w of
            (creditResult, w1) \<Rightarrow>
              (LcGameOver (userId winner) win (credit_balance creditResult),
               w1\<lparr>lowcard_game := (lowcard_game w1)(r := None),
                  lowcard_deck := (lowcard_deck w1)(r := None)\<rparr>)))"

text \<open>
  The elimination loops: for each id, \<^verbatim>\<open>findIndex\<close> picks the first player with that
  \<^verbatim>\<open>userId\<close>, who is marked eliminated.
\<close>

fun eliminate_ids :: "uid list \<Rightarrow> lowcard_player list \<Rightarrow> lowcard_player list" where
  "eliminate_ids [] ps = ps"
| "eliminate_ids (i # ids) ps =
     eliminate_ids ids (update_first (\<lambda>p. userId p = i) (\<lambda>p. p\<lparr>isEliminated := True\<rparr>) ps)"

definition reset_survivor :: "lowcard_player \<Rightarrow> lowcard_player" where
  "reset_survivor p = (if \<not> isEliminated p then reset_draw p else p)"

text \<open>The common tail of the two elimination paths of \<^verbatim>\<open>tallyRound\<close>.\<close>

definition lowcard_after_elimination ::
    "millis \<Rightarrow> room \<Rightarrow> uid list \<Rightarrow> lowcard_game \<Rightarrow> world \<Rightarrow> lowcard_tally \<times> world" where
  "lowcard_after_elimination now r out game w =
     (let remainingPlayers = filter (\<lambda>p. \<not> isEliminated p) (players game)
      in if length remainingPlayers = 1 then lowcard_payout r (hd remainingPlayers) game w
         else
           (let game' = game\<lparr>currentRound := currentRound game + 1,
                             players := map reset_survivor (players game),
                             countdownEndsAt := Some (now + COUNTDOWN_DELAY),
                             roundDeadline := Some (now + COUNTDOWN_DELAY + DRAW_TIMEOUT)\<rparr>
            in (LcEliminated out (length remainingPlayers) (currentRound game'),
                w\<lparr>lowcard_game := (lowcard_game w)(r \<mapsto> game')\<rparr>)))"

definition reset_tied :: "lowcard_player list \<Rightarrow> lowcard_player \<Rightarrow> lowcard_player" where
  "reset_tied losers p =
     (if \<not> isEliminated p \<and> find (\<lambda>l. userId l = userId p) losers \<noteq> None
      then reset_draw p else p)"

text \<open>
  \<^verbatim>\<open>tallyRound\<close>. The active players are the players who are not eliminated and hold a
  card. \<open>highestValue\<close>, \<open>winners\<close>, \<open>lowestValue\<close> and \<open>losers\<close> are the constants of the
  same names in the source, as functions of the active players.
\<close>

definition highestValue :: "lowcard_player list \<Rightarrow> nat" where
  "highestValue activePlayers = Max (set (map cardValue activePlayers))"

definition winners :: "lowcard_player list \<Rightarrow> lowcard_player list" where
  "winners activePlayers =
     filter (\<lambda>p. cardValue p = highestValue activePlayers) activePlayers"

definition lowestValue :: "lowcard_player list \<Rightarrow> nat" where
  "lowestValue activePlayers = Min (set (map cardValue activePlayers))"

definition losers :: "lowcard_player list \<Rightarrow> lowcard_player list" where
  "losers activePlayers =
     filter (\<lambda>p. cardValue p = lowestValue activePlayers) activePlayers"

text \<open>The part of \<^verbatim>\<open>tallyRound\<close> after the three-player rule.\<close>

definition lowcard_tally_lowest ::
    "millis \<Rightarrow> room \<Rightarrow> bool \<Rightarrow> lowcard_game \<Rightarrow> lowcard_player list \<Rightarrow> world
      \<Rightarrow> lowcard_tally \<times> world" where
  "lowcard_tally_lowest now r isTimedOut game activePlayers w =
     (if length (losers activePlayers) > 1 \<and>
         length (losers activePlayers) < length activePlayers then
        (if isTimedOut \<and>
            (case previousTiedLosers game of None \<Rightarrow> False | Some prev \<Rightarrow> length prev > 0)
         then
           (let previousLoserIds =
                  (case previousTiedLosers game of None \<Rightarrow> [] | Some prev \<Rightarrow> prev);
                game1 = game\<lparr>players := eliminate_ids previousLoserIds (players game),
                              previousTiedLosers := None\<rparr>
            in lowcard_after_elimination now r previousLoserIds game1 w)
         else
           (let game1 = game\<lparr>previousTiedLosers := Some (map userId (losers activePlayers)),
                              players := map (reset_tied (losers activePlayers)) (players game)\<rparr>
            in (LcTie (map userId (losers activePlayers)),
                w\<lparr>lowcard_game := (lowcard_game w)(r \<mapsto> game1)\<rparr>)))
      else
        (let game1 = game\<lparr>players :=
                            eliminate_ids (map userId (losers activePlayers)) (players game),
                           previousTiedLosers := None\<rparr>
         in lowcard_after_elimination now r (map userId (losers activePlayers)) game1 w))"

definition lowcard_tallyRound ::
    "millis \<Rightarrow> room \<Rightarrow> bool \<Rightarrow> world \<Rightarrow> lowcard_tally \<times> world" where
  "lowcard_tallyRound now r isTimedOut w =
     (case lowcard_game w r of
        None \<Rightarrow> (LcNull, w)
      | Some game \<Rightarrow>
          (let activePlayers =
                 filter (\<lambda>p. \<not> isEliminated p \<and> currentCard p \<noteq> None) (players game)
           in if length activePlayers = 0 then (LcError, w)
              else if length activePlayers = 3 \<and> \<not> isTimedOut \<and>
                      length (winners activePlayers) = 1
              then lowcard_payout r (hd (winners activePlayers)) game w
              else lowcard_tally_lowest now r isTimedOut game activePlayers w))"

definition lowcard_stopGame :: "room \<Rightarrow> world \<Rightarrow> (failure + unit) \<times> world" where
  "lowcard_stopGame r w =
     (case lowcard_game w r of
        None \<Rightarrow> (Inl NoActiveGame, w)
      | Some game \<Rightarrow>
          if status game = playing then (Inl CannotStopStarted, w)
          else
            (let w1 = refund_each (RefundGameStopped LowCard) (entryAmount game) (players game) w
             in (Inr (), w1\<lparr>lowcard_game := (lowcard_game w1)(r := None),
                            lowcard_deck := (lowcard_deck w1)(r := None)\<rparr>)))"

definition lowcard_removeBotFromRoom :: "room \<Rightarrow> world \<Rightarrow> (failure + unit) \<times> world" where
  "lowcard_removeBotFromRoom r w =
     (if \<not> lowcard_bot w r then (Inl NoBotInRoom, w)
      else
        (let w1 = (case lowcard_game w r of
                     None \<Rightarrow> w
                   | Some game \<Rightarrow>
                       if status game = waiting
                       then refund_each (RefundBotRemoved LowCard) (entryAmount game)
                              (players game) w
                       else w)
         in (Inr (), w1\<lparr>lowcard_bot := (lowcard_bot w1)(r := False),
                        lowcard_game := (lowcard_game w1)(r := None),
                        lowcard_deck := (lowcard_deck w1)(r := None),
                        activeGameType := (activeGameType w1)(r := None)\<rparr>)))"

definition lowcard_allPlayersDrawn :: "room \<Rightarrow> world \<Rightarrow> bool" where
  "lowcard_allPlayersDrawn r w =
     (case lowcard_game w r of
        None \<Rightarrow> False
      | Some game \<Rightarrow>
          if status game \<noteq> playing then False
          else
            (let activePlayers = filter (\<lambda>p. \<not> isEliminated p) (players game)
             in if length activePlayers = 0 then False else list_all hasDrawn activePlayers))"


section \<open>Runs of commands and sample states\<close>

text \<open>
  A run of join commands (time, user, name) in which every join succeeds; \<open>None\<close> when
  one of them is refused.
\<close>

fun dice_joins :: "room \<Rightarrow> (millis \<times> uid \<times> string) list \<Rightarrow> world \<Rightarrow> world option" where
  "dice_joins r [] w = Some w"
| "dice_joins r ((now, u, name) # js) w =
     (case dice_joinGame now r u name w of
        (Inr ok, w') \<Rightarrow> dice_joins r js w'
      | (Inl e, w') \<Rightarrow> None)"

fun lowcard_joins :: "room \<Rightarrow> (millis \<times> uid \<times> string) list \<Rightarrow> world \<Rightarrow> world option" where
  "lowcard_joins r [] w = Some w"
| "lowcard_joins r ((now, u, name) # js) w =
     (case lowcard_joinGame now r u name w of
        (Inr ok, w') \<Rightarrow> lowcard_joins r js w'
      | (Inl e, w') \<Rightarrow> None)"

text \<open>
  A sample state: users 1 to 4 hold 1000 coins each, user 5 holds 10 coins and 30 tagged
  credits; both bots are enabled, no session exists.
\<close>

definition demo_world :: world where
  "demo_world =
     \<lparr>credits_cache = Map.empty,
      users_credits = [1 \<mapsto> 1000, 2 \<mapsto> 1000, 3 \<mapsto> 1000, 4 \<mapsto> 1000, 5 \<mapsto> 10],
      tagged = (\<lambda>u. if u = 5 then 30 else 0),
      credit_logs = [],
      dicebot_bot = (\<lambda>r. True),
      dicebot_game = Map.empty,
      dicebot_lock = (\<lambda>r. False),
      lowcard_bot = (\<lambda>r. True),
      lowcard_game = Map.empty,
      lowcard_lock = (\<lambda>r. False),
      lowcard_deck = Map.empty,
      big_game = (\<lambda>r. False),
      activeGameType = Map.empty\<rparr>"

definition sample_joins :: "(millis \<times> uid \<times> string) list" where
  "sample_joins = [(5, 2, ''bob''), (9, 3, ''cy'')]"

text \<open>Room 7 after user 1 started a dice game with entry 100, and after two joins.\<close>

definition dice_started :: world where
  "dice_started = snd (dice_startGame 0 7 1 ''ann'' (Some 100) demo_world)"

definition dice_joined :: world where
  "dice_joined = the (dice_joins 7 sample_joins dice_started)"

definition dice_begun :: world where
  "dice_begun = snd (dice_beginGame 7 dice_joined)"

text \<open>Room 7 after user 1 started a card game with entry 50, and after two joins.\<close>

definition lowcard_started :: world where
  "lowcard_started = snd (lowcard_startGame 0 7 1 ''ann'' (Some 50) demo_world)"

definition lowcard_joined :: world where
  "lowcard_joined = the (lowcard_joins 7 sample_joins lowcard_started)"

definition lowcard_begun :: world where
  "lowcard_begun = snd (lowcard_beginGame 40000 unshuffled_deck 7 lowcard_joined)"

text \<open>
  The player record that \<^verbatim>\<open>rollPlayerDice\<close> finds for a user: the first player with
  that id who is not eliminated.
\<close>

abbreviation dice_player_of :: "uid \<Rightarrow> dice_game \<Rightarrow> dice_player option" where
  "dice_player_of u g \<equiv> find (\<lambda>p. userId p = u \<and> \<not> isEliminated p) (players g)"

text \<open>
  A sample dice game in room 7 (entry 100, players 1, 2, 3): round 1 has target 9, user 1
  rolls (6,6), user 2 rolls (5,5), user 3 is rolled (2,3) at the timeout; round 2 has
  target 12, user 1 rolls (1,2), user 2 rolls (6,6); round 3 has target 9, user 1 rolls
  (1,2), user 2 rolls (1,1).
\<close>

definition dice_round1 :: world where
  "dice_round1 = snd (dice_startNextRound 7 4 5 dice_begun)"

definition dice_round1_rolled :: world where
  "dice_round1_rolled =
     snd (dice_autoRollForTimeout 7 (\<lambda>k. (2, 3))
       (snd (dice_rollPlayerDice 7 2 5 5 (snd (dice_rollPlayerDice 7 1 6 6 dice_round1)))))"

definition dice_round2 :: world where
  "dice_round2 = snd (dice_startNextRound 7 6 6 (snd (dice_tallyRound 60000 7 dice_round1_rolled)))"

definition dice_round2_rolled :: world where
  "dice_round2_rolled =
     snd (dice_rollPlayerDice 7 2 6 6 (snd (dice_rollPlayerDice 7 1 1 2 dice_round2)))"

definition dice_round3 :: world where
  "dice_round3 = snd (dice_startNextRound 7 4 5 (snd (dice_tallyRound 90000 7 dice_round2_rolled)))"

definition dice_round3_rolled :: world where
  "dice_round3_rolled =
     snd (dice_rollPlayerDice 7 2 1 1 (snd (dice_rollPlayerDice 7 1 1 2 dice_round3)))"

text \<open>
  Per player of room 7: id, \<open>isEliminated\<close>, \<open>isIn\<close>, \<open>hasRolled\<close>, \<open>hasImmunity\<close>,
  \<open>earnedImmunity\<close>.
\<close>

definition dice_flags :: "world \<Rightarrow> (uid \<times> bool \<times> bool option \<times> bool \<times> bool \<times> bool) list" where
  "dice_flags w =
     (case dicebot_game w 7 of
        None \<Rightarrow> []
      | Some g \<Rightarrow> map (\<lambda>p. (userId p, isEliminated p, isIn p, hasRolled p, hasImmunity p,
                              earnedImmunity p)) (players g))"

text \<open>
  The active players of \<^verbatim>\<open>tallyRound\<close> (not eliminated, holding a card) and the players
  who are not eliminated.
\<close>

abbreviation holders :: "lowcard_game \<Rightarrow> lowcard_player list" where
  "holders g \<equiv> filter (\<lambda>p. \<not> isEliminated p \<and> currentCard p \<noteq> None) (players g)"

abbreviation remaining :: "lowcard_game \<Rightarrow> lowcard_player list" where
  "remaining g \<equiv> filter (\<lambda>p. \<not> isEliminated p) (players g)"

text \<open>
  A sample card game in room 7 (entry 50, players 1 to 4, pot 200). The deck is a
  permutation of the 52 cards whose last eight cards are drawn in the order 9, 5, 5, 12,
  7, 7, 3, 8: users 2 and 3 tie for lowest and nobody timed out; they let the redraw time
  out, are dealt 7 and 7 and are eliminated together; user 1 then loses the duel against
  user 4.
\<close>

definition sample_top :: "card list" where
  "sample_top =
     [\<lparr>value' = 8, suit = suit_s\<rparr>, \<lparr>value' = 3, suit = suit_s\<rparr>,
      \<lparr>value' = 7, suit = suit_d\<rparr>, \<lparr>value' = 7, suit = suit_c\<rparr>,
      \<lparr>value' = 12, suit = suit_h\<rparr>, \<lparr>value' = 5, suit = suit_d\<rparr>,
      \<lparr>value' = 5, suit = suit_h\<rparr>, \<lparr>value' = 9, suit = suit_h\<rparr>]"

definition sample_deck :: "card list" where
  "sample_deck = filter (\<lambda>cd. cd \<notin> set sample_top) unshuffled_deck @ sample_top"

definition lowcard4_begun :: world where
  "lowcard4_begun =
     snd (lowcard_beginGame 40000 sample_deck 7 (snd (lowcard_joinGame 12 7 4 ''dee'' lowcard_joined)))"

definition draws :: "millis \<Rightarrow> uid list \<Rightarrow> world \<Rightarrow> world" where
  "draws now us w = fold (\<lambda>u w'. snd (lowcard_drawCardForPlayer now unshuffled_deck 7 u w')) us w"

definition lowcard4_drawn :: world where
  "lowcard4_drawn = draws 44000 [1, 2, 3, 4] lowcard4_begun"

definition lowcard4_tie :: world where
  "lowcard4_tie = snd (lowcard_tallyRound 50000 7 False lowcard4_drawn)"

definition lowcard4_redrawn :: world where
  "lowcard4_redrawn = snd (lowcard_autoDrawForTimeout (\<lambda>k. unshuffled_deck) 7 lowcard4_tie)"

definition lowcard4_tiebreak :: world where
  "lowcard4_tiebreak = snd (lowcard_tallyRound 80000 7 True lowcard4_redrawn)"

definition lowcard4_duel :: world where
  "lowcard4_duel = draws 90000 [1, 4] lowcard4_tiebreak"

definition lowcard_cards :: "world \<Rightarrow> (uid \<times> bool \<times> bool \<times> nat option) list" where
  "lowcard_cards w =
     (case lowcard_game w 7 of
        None \<Rightarrow> []
      | Some g \<Rightarrow> map (\<lambda>p. (userId p, isEliminated p, hasDrawn p,
                              map_option value' (currentCard p))) (players g))"

text \<open>
  The three-player game of the earlier sample after everybody drew (14, 13, 12 from the
  unshuffled deck), and the same game with 13, 13, 5 on top of the deck.
\<close>

definition sample_player :: "uid \<Rightarrow> world \<Rightarrow> lowcard_player" where
  "sample_player u w = the (find (\<lambda>p. userId p = u) (players (the (lowcard_game w 7))))"

definition lowcard3_drawn :: world where
  "lowcard3_drawn = draws 44000 [1, 2, 3] lowcard_begun"

definition lowcard3_tied :: world where
  "lowcard3_tied =
     draws 44000 [1, 2, 3]
       (lowcard_begun\<lparr>lowcard_deck := (lowcard_deck lowcard_begun)(7 \<mapsto>
          [\<lparr>value' = 5, suit = suit_h\<rparr>, \<lparr>value' = 13, suit = suit_d\<rparr>,
           \<lparr>value' = 13, suit = suit_h\<rparr>])\<rparr>)"

definition sample_game :: "world \<Rightarrow> lowcard_game" where
  "sample_game w = the (lowcard_game w 7)"

text \<open>
  The dice session of room 7 and one of its players, and the state that \<^verbatim>\<open>tallyRound\<close>
  stores in round 3 (immunity cleared, the players who are out eliminated) before it calls
  \<^verbatim>\<open>finalizeGame\<close>.
\<close>

definition sample_dice_game :: "world \<Rightarrow> dice_game" where
  "sample_dice_game w = the (dicebot_game w 7)"

definition sample_dice_player :: "uid \<Rightarrow> world \<Rightarrow> dice_player" where
  "sample_dice_player u w = the (find (\<lambda>p. userId p = u) (players (sample_dice_game w)))"

definition dice_round3_eliminated :: world where
  "dice_round3_eliminated =
     dice_round3_rolled\<lparr>dicebot_game := (dicebot_game dice_round3_rolled)(7 \<mapsto>
       (sample_dice_game dice_round3_rolled)\<lparr>players :=
          map eliminate_out (map clear_immunity (players (sample_dice_game dice_round3_rolled)))\<rparr>)\<rparr>"

text \<open>
  Three more states of the sample card games. After the tie of users 2 and 3 in the
  four-player game: both redraw, with 11 and 10 left on the deck, so that their new cards
  are higher than the 9 that user 1 still holds; or only user 2 has redrawn. In the
  three-player game: only users 1 and 2 have drawn.
\<close>

definition lowcard4_mixed :: world where
  "lowcard4_mixed =
     draws 56000 [2, 3]
       (lowcard4_tie\<lparr>lowcard_deck := (lowcard_deck lowcard4_tie)(7 \<mapsto>
          [\<lparr>value' = 11, suit = suit_d\<rparr>, \<lparr>value' = 10, suit = suit_d\<rparr>])\<rparr>)"

definition lowcard4_partial :: world where
  "lowcard4_partial = draws 56000 [2] lowcard4_tie"

definition lowcard3_partial :: world where
  "lowcard3_partial = draws 44000 [1, 2] lowcard_begun"

text \<open>
  A card game with a large pot: room 7 is a Big Game room, which has no maximum entry; users
  1, 2 and 3 hold 3000000000000000 coins each; user 1 starts with entry 2266666666666673,
  users 2 and 3 join, and all three draw (14, 13, 12 from the unshuffled deck).
\<close>

definition big_world :: world where
  "big_world =
     demo_world\<lparr>users_credits := [1 \<mapsto> 3000000000000000, 2 \<mapsto> 3000000000000000,
                                  3 \<mapsto> 3000000000000000],
                big_game := (\<lambda>r. True)\<rparr>"

definition lowcard_big_drawn :: world where
  "lowcard_big_drawn =
     draws 44000 [1, 2, 3]
       (snd (lowcard_beginGame 40000 unshuffled_deck 7
          (the (lowcard_joins 7 sample_joins
             (snd (lowcard_startGame 0 7 1 ''ann'' (Some 2266666666666673) big_world))))))"

section \<open>Facts about numbers\<close>

lemma bit_length_bounds:
  "0 < n \<Longrightarrow> 2 ^ (bit_length n - 1) \<le> n \<and> n < 2 ^ bit_length n"
proof (induction n rule: bit_length.induct)
  case (1 n)
  show ?case
  proof (cases "n div 2 = 0")
    case True
    with 1(2) have "n = 1" by (simp add: div_eq_0_iff)
    then show ?thesis by (simp add: bit_length.simps)
  next
    case False
    then have pos: "0 < n div 2" by simp
    from 1(1)[OF _ pos] 1(2) have ih: "2 ^ (bit_length (n div 2) - 1) \<le> n div 2"
      "n div 2 < 2 ^ bit_length (n div 2)" by auto
    have bl: "bit_length n = 1 + bit_length (n div 2)"
      using 1(2) by (subst bit_length.simps) simp
    have blpos: "0 < bit_length (n div 2)"
      using pos by (subst bit_length.simps) simp
    then have e: "2 ^ bit_length (n div 2) = 2 * (2::nat) ^ (bit_length (n div 2) - 1)"
      by (cases "bit_length (n div 2)") auto
    have "2 ^ (bit_length n - 1) \<le> n" unfolding bl using ih(1) e by (simp; arith?)
    moreover have "n < 2 ^ bit_length n" unfolding bl using ih(2) by (simp; arith?)
    ultimately show ?thesis by simp
  qed
qed

lemma round_half_even_le:
  assumes "0 < b" "a \<le> N * b"
  shows "round_half_even a b \<le> N"
proof -
  have q: "a div b \<le> N" using assms by (metis div_le_mono div_mult_self_is_m)
  show ?thesis
  proof (cases "a div b = N")
    case True
    have "a = a div b * b + a mod b" by simp
    with True assms(2) have "a mod b = 0" by (metis add_le_same_cancel1 le_zero_eq)
    with True assms(1) show ?thesis by (simp add: round_half_even_def Let_def)
  next
    case False
    with q have "a div b + 1 \<le> N" by simp
    then show ?thesis by (simp add: round_half_even_def Let_def)
  qed
qed

lemma round_half_even_ge:
  assumes "0 < b" "N * b \<le> a"
  shows "N \<le> round_half_even a b"
proof -
  have "N \<le> a div b" using assms by (metis div_le_mono div_mult_self_is_m)
  then show ?thesis by (simp add: round_half_even_def Let_def)
qed

lemma binade_normal:
  assumes a: "0 < a" and b: "0 < b"
  shows "2 ^ 52 * (b * 2 ^ snd (binade a b)) \<le> a * 2 ^ fst (binade a b) \<and>
         a * 2 ^ fst (binade a b) < 2 ^ 53 * (b * 2 ^ snd (binade a b))"
proof -
  define ea where "ea = bit_length a"
  define eb where "eb = bit_length b"
  define P :: nat where "P = 2 ^ (ea - 1)"
  define Q :: nat where "Q = 2 ^ (eb - 1)"
  have eapos: "0 < ea" unfolding ea_def using a by (subst bit_length.simps) simp
  have ebpos: "0 < eb" unfolding eb_def using b by (subst bit_length.simps) simp
  have pa: "(2::nat) ^ ea = 2 * P" unfolding P_def using eapos by (cases ea) auto
  have pb: "(2::nat) ^ eb = 2 * Q" unfolding Q_def using ebpos by (cases eb) auto
  from bit_length_bounds[OF a] have ab: "P \<le> a" "a < 2 * P"
    unfolding ea_def[symmetric] P_def[symmetric] pa by auto
  from bit_length_bounds[OF b] have bb: "Q \<le> b" "b < 2 * Q"
    unfolding eb_def[symmetric] Q_def[symmetric] pb by auto
  define K :: nat where "K = 2 ^ 52"
  have K2: "(2::nat) ^ 53 = 2 * K" unfolding K_def by simp
  let ?c = "a * 2 ^ (52 + bit_length b - bit_length a) <
             2 ^ 52 * (b * 2 ^ (bit_length a - (52 + bit_length b)))"
  show ?thesis
  proof (cases "ea \<le> 52 + eb")
    case True
    define u0 where "u0 = 52 + eb - ea"
    define X :: nat where "X = 2 ^ u0"
    have d0: "bit_length a - (52 + bit_length b) = 0"
      using True unfolding ea_def eb_def by simp
    have u0': "52 + bit_length b - bit_length a = u0" unfolding u0_def ea_def eb_def ..
    have "u0 + ea = 52 + eb" unfolding u0_def using True by simp
    then have "(2::nat) ^ (u0 + ea) = 2 ^ (52 + eb)" by (rule arg_cong)
    then have "(2::nat) ^ u0 * 2 ^ ea = 2 ^ 52 * 2 ^ eb" by (simp only: power_add)
    then have "X * (2 * P) = K * (2 * Q)" unfolding X_def K_def pa pb .
    then have XP: "P * X = K * Q" by (simp add: mult.commute)
    have Xpos: "0 < X" unfolding X_def by simp
    have lo: "P * X \<le> a * X" using ab(1) by simp
    have hi: "a * X < 2 * P * X" using ab(2) Xpos by simp
    have kb: "K * Q \<le> K * b" "K * b < 2 * (K * Q)" using bb unfolding K_def by simp_all
    have c: "?c = (a * X < K * b)" unfolding d0 u0' X_def K_def by simp
    show ?thesis
    proof (cases ?c)
      case True
      then have bn: "binade a b = (u0 + 1, 0)"
        unfolding binade_def Let_def using d0 u0' by simp
      have "K * b \<le> a * X * 2 \<and> a * X * 2 < 2 * K * b"
        using True[unfolded c] lo hi kb XP by linarith
      then show ?thesis unfolding bn K2 K_def[symmetric] by (simp add: X_def mult.assoc)
    next
      case False
      then have bn: "binade a b = (u0, 0)"
        unfolding binade_def Let_def using d0 u0' by simp
      have "K * b \<le> a * X \<and> a * X < 2 * K * b"
        using False[unfolded c] lo hi kb XP by linarith
      then show ?thesis unfolding bn K2 K_def[symmetric] by (simp add: X_def mult.assoc)
    qed
  next
    case False
    define d0 where "d0 = ea - (52 + eb)"
    define Y :: nat where "Y = 2 ^ (d0 - 1)"
    have d0pos: "0 < d0" unfolding d0_def using False by simp
    have u0: "52 + bit_length b - bit_length a = 0"
      using False unfolding ea_def eb_def by simp
    have d0': "bit_length a - (52 + bit_length b) = d0" unfolding d0_def ea_def eb_def ..
    have Y2: "(2::nat) ^ d0 = 2 * Y" unfolding Y_def using d0pos by (cases d0) auto
    have "ea = 52 + eb + d0" unfolding d0_def using False by simp
    then have "(2::nat) ^ ea = 2 ^ (52 + eb + d0)" by (rule arg_cong)
    then have "(2::nat) ^ ea = 2 ^ 52 * 2 ^ eb * 2 ^ d0" by (simp only: power_add)
    then have "2 * P = K * (2 * Q) * (2 * Y)" unfolding K_def pa pb Y2 .
    then have PY: "P = 2 * (K * (Q * Y))" by (simp add: mult.assoc mult.left_commute)
    have Ypos: "0 < Y" unfolding Y_def by simp
    have qy: "Q * Y \<le> b * Y" "b * Y < 2 * (Q * Y)" using bb Ypos by simp_all
    have kq: "K * (Q * Y) \<le> K * (b * Y)" "K * (b * Y) < 2 * (K * (Q * Y))"
      using qy unfolding K_def by simp_all
    have c: "?c = (a < 2 * (K * (b * Y)))"
      unfolding d0' u0 Y2 K_def by (simp add: mult.assoc mult.left_commute)
    show ?thesis
    proof (cases ?c)
      case True
      then have bn: "binade a b = (0, d0 - 1)"
        unfolding binade_def Let_def using d0' u0 d0pos by simp
      have "K * (b * Y) \<le> a \<and> a < 2 * K * (b * Y)"
        using True[unfolded c] ab kq PY by linarith
      then show ?thesis unfolding bn K2 K_def[symmetric] by (simp add: mult.assoc Y_def)
    next
      case False
      then have bn: "binade a b = (0, d0)"
        unfolding binade_def Let_def using d0' u0 d0pos by simp
      have h: "K * (b * (2 * Y)) = 2 * (K * (b * Y))" by simp
      have "K * (b * 2 ^ d0) \<le> a \<and> a < 2 * (K * (b * 2 ^ d0))"
        unfolding Y2 h using False[unfolded c] ab kq PY by linarith
      then show ?thesis unfolding bn K2 K_def[symmetric] by (simp add: mult.assoc)
    qed
  qed
qed


lemma shift_split:
  assumes "d + j \<le> u"
  shows "(2::nat) ^ u = 2 ^ d * 2 ^ j * 2 ^ (u - d - j)"
proof -
  have "u = d + j + (u - d - j)" using assms by simp
  then have "(2::nat) ^ u = 2 ^ (d + j + (u - d - j))" by (rule arg_cong)
  then show ?thesis by (simp only: power_add)
qed

lemma shift_double:
  assumes "u < d + j"
  shows "2 * (2::nat) ^ u \<le> 2 ^ d * 2 ^ j"
proof -
  have "Suc u \<le> d + j" using assms by simp
  then have "(2::nat) ^ Suc u \<le> 2 ^ (d + j)" by (rule power_increasing) simp
  then show ?thesis by (simp add: power_add)
qed

lemma significand_cross:
  "(significand a b u d \<le> of_nat n / 2 ^ j) =
     (round_half_even (a * 2 ^ u) (b * 2 ^ d) * 2 ^ d * 2 ^ j \<le> n * 2 ^ u)"
  "(of_nat n / 2 ^ j \<le> significand a b u d) =
     (n * 2 ^ u \<le> round_half_even (a * 2 ^ u) (b * 2 ^ d) * 2 ^ d * 2 ^ j)"
proof -
  let ?m = "round_half_even (a * 2 ^ u) (b * 2 ^ d)"
  have "(significand a b u d \<le> of_nat n / 2 ^ j) =
        ((of_nat (?m * 2 ^ d * 2 ^ j) :: rat) \<le> of_nat (n * 2 ^ u))"
    unfolding significand_def by (simp add: field_simps)
  then show "(significand a b u d \<le> of_nat n / 2 ^ j) = (?m * 2 ^ d * 2 ^ j \<le> n * 2 ^ u)"
    by (simp only: of_nat_le_iff)
  have "(of_nat n / 2 ^ j \<le> significand a b u d) =
        ((of_nat (n * 2 ^ u) :: rat) \<le> of_nat (?m * 2 ^ d * 2 ^ j))"
    unfolding significand_def by (simp add: field_simps)
  then show "(of_nat n / 2 ^ j \<le> significand a b u d) = (n * 2 ^ u \<le> ?m * 2 ^ d * 2 ^ j)"
    by (simp only: of_nat_le_iff)
qed

lemma significand_le:
  assumes b: "0 < b" and norm: "2 ^ 52 * (b * 2 ^ d) \<le> a * 2 ^ u"
    and n: "n < 2 ^ 53" and h: "a * 2 ^ j \<le> n * b"
  shows "significand a b u d \<le> of_nat n / 2 ^ j"
proof -
  define E :: nat where "E = 2 ^ u"
  define D :: nat where "D = 2 ^ d"
  define J :: nat where "J = 2 ^ j"
  define K :: nat where "K = 2 ^ 52"
  define m where "m = round_half_even (a * E) (b * D)"
  have pos: "0 < E" "0 < D" "0 < J" "0 < K" unfolding E_def D_def J_def K_def by simp_all
  have n': "n < 2 * K" using n unfolding K_def by simp
  note norm' = norm[folded E_def D_def K_def]
  note h' = h[folded J_def]
  have dj: "d + j \<le> u"
  proof (rule ccontr)
    assume "\<not> d + j \<le> u"
    then have "u < d + j" by simp
    from shift_double[OF this] have e2: "2 * E \<le> D * J" unfolding E_def D_def J_def .
    have "K * (b * D) * J \<le> a * E * J" using norm' by simp
    also have "\<dots> = a * J * E" by (simp add: mult.assoc mult.commute)
    also have "\<dots> \<le> n * b * E" using h' by simp
    also have "\<dots> < 2 * K * (b * E)"
    proof -
      have "n * (b * E) < (2 * K) * (b * E)" using n' b pos(1) by simp
      then show ?thesis by (simp add: mult.assoc)
    qed
    also have "\<dots> = K * b * (2 * E)" by (simp add: mult.assoc mult.left_commute)
    also have "\<dots> \<le> K * b * (D * J)" using e2 by simp
    also have "\<dots> = K * (b * D) * J" by (simp add: mult.assoc)
    finally show False by simp
  qed
  define G :: nat where "G = 2 ^ (u - d - j)"
  have E: "E = D * J * G" unfolding E_def D_def J_def G_def by (rule shift_split[OF dj])
  have "a * E = a * J * (D * G)" unfolding E by (simp add: mult.assoc mult.left_commute)
  also have "\<dots> \<le> n * b * (D * G)" using h' by simp
  also have "\<dots> = n * G * (b * D)" by (simp add: mult.assoc mult.left_commute)
  finally have "a * E \<le> n * G * (b * D)" .
  from round_half_even_le[OF _ this] b pos(2) have "m \<le> n * G" unfolding m_def by simp
  then have "m * D * J \<le> n * G * D * J" by simp
  also have "\<dots> = n * E" unfolding E by (simp add: mult.assoc mult.left_commute)
  finally have "m * D * J \<le> n * E" .
  then show ?thesis
    unfolding significand_cross m_def E_def D_def J_def .
qed

lemma significand_ge:
  assumes b: "0 < b" and norm: "2 ^ 52 * (b * 2 ^ d) \<le> a * 2 ^ u"
    and n: "n < 2 ^ 53" and h: "n * b \<le> a * 2 ^ j"
  shows "of_nat n / 2 ^ j \<le> significand a b u d"
proof -
  define E :: nat where "E = 2 ^ u"
  define D :: nat where "D = 2 ^ d"
  define J :: nat where "J = 2 ^ j"
  define K :: nat where "K = 2 ^ 52"
  define m where "m = round_half_even (a * E) (b * D)"
  have pos: "0 < E" "0 < D" "0 < J" "0 < K" unfolding E_def D_def J_def K_def by simp_all
  have n': "n < 2 * K" using n unfolding K_def by simp
  note norm' = norm[folded E_def D_def K_def]
  note h' = h[folded J_def]
  have bd: "0 < b * D" using b pos(2) by simp
  have "n * E \<le> m * D * J"
  proof (cases "d + j \<le> u")
    case True
    define G :: nat where "G = 2 ^ (u - d - j)"
    have E: "E = D * J * G" unfolding E_def D_def J_def G_def by (rule shift_split[OF True])
    have "n * G * (b * D) = n * b * (D * G)" by (simp add: mult.assoc mult.left_commute)
    also have "\<dots> \<le> a * J * (D * G)" using h' by simp
    also have "\<dots> = a * E" unfolding E by (simp add: mult.assoc mult.left_commute)
    finally have "n * G * (b * D) \<le> a * E" .
    from round_half_even_ge[OF bd this] have "n * G \<le> m" unfolding m_def .
    then have "n * G * (D * J) \<le> m * (D * J)" by simp
    moreover have "n * G * (D * J) = n * (D * J * G)" by (simp add: mult.assoc mult.left_commute)
    moreover have "m * (D * J) = m * D * J" by (simp add: mult.assoc)
    ultimately show ?thesis unfolding E by simp
  next
    case False
    then have "u < d + j" by simp
    from shift_double[OF this] have e2: "2 * E \<le> D * J" unfolding E_def D_def J_def .
    from round_half_even_ge[OF bd norm'] have km: "K \<le> m" unfolding m_def .
    have "n * E \<le> 2 * K * E" using n' by simp
    also have "\<dots> = K * (2 * E)" by simp
    also have "\<dots> \<le> K * (D * J)" using e2 by simp
    also have "\<dots> \<le> m * (D * J)" using km by simp
    finally show ?thesis by (simp add: mult.assoc)
  qed
  then show ?thesis
    unfolding significand_cross m_def E_def D_def J_def .
qed

lemma nearest_double_le:
  assumes "0 < b" "n < 2 ^ 53" "a * 2 ^ j \<le> n * b"
  shows "nearest_double a b \<le> of_nat n / 2 ^ j"
proof (cases "a = 0")
  case True
  then show ?thesis by (simp add: nearest_double_def)
next
  case False
  then have a: "0 < a" by simp
  from binade_normal[OF a assms(1)]
  have "2 ^ 52 * (b * 2 ^ snd (binade a b)) \<le> a * 2 ^ fst (binade a b)" by simp
  from significand_le[OF assms(1) this assms(2,3)] False
  show ?thesis by (simp add: nearest_double_def)
qed

lemma nearest_double_ge:
  assumes "0 < b" "n < 2 ^ 53" "n * b \<le> a * 2 ^ j"
  shows "of_nat n / 2 ^ j \<le> nearest_double a b"
proof (cases "a = 0")
  case True
  with assms(1,3) have "n = 0" by simp
  with True show ?thesis by (simp add: nearest_double_def)
next
  case False
  then have a: "0 < a" by simp
  from binade_normal[OF a assms(1)]
  have "2 ^ 52 * (b * 2 ^ snd (binade a b)) \<le> a * 2 ^ fst (binade a b)" by simp
  from significand_ge[OF assms(1) this assms(2,3)] False
  show ?thesis by (simp add: nearest_double_def)
qed

lemma nearest_double_exact:
  assumes "n < 2 ^ 53"
  shows "nearest_double n 1 = of_nat n"
proof -
  have "nearest_double n 1 \<le> of_nat n / 2 ^ 0"
    by (rule nearest_double_le[OF _ assms]) simp_all
  moreover have "of_nat n / 2 ^ 0 \<le> nearest_double n 1"
    by (rule nearest_double_ge[OF _ assms]) simp_all
  ultimately show ?thesis by simp
qed

lemma floor_nearest_double:
  assumes b: "0 < b" and lo: "k * b \<le> a" and hi: "a * 2 ^ j + b \<le> (k + 1) * 2 ^ j * b"
    and k: "(k + 1) * 2 ^ j \<le> 2 ^ 53"
  shows "\<lfloor>nearest_double a b\<rfloor> = int k"
proof -
  define n where "n = (k + 1) * 2 ^ j - 1"
  have npos: "0 < (k + 1) * (2::nat) ^ j" by simp
  then have n1: "n + 1 = (k + 1) * 2 ^ j" unfolding n_def by simp
  have n: "n < 2 ^ 53" using k n1 by linarith
  have "(n + 1) * b = (k + 1) * 2 ^ j * b" unfolding n1 ..
  then have "n * b + b = (k + 1) * 2 ^ j * b" by (simp add: algebra_simps)
  with hi have hn: "a * 2 ^ j \<le> n * b" by linarith
  have kk: "k < 2 ^ 53"
  proof -
    have "(1::nat) \<le> 2 ^ j" by simp
    then have "(k + 1) * 1 \<le> (k + 1) * 2 ^ j" by (rule mult_le_mono2)
    with k show ?thesis by simp
  qed
  have "of_nat k / 2 ^ 0 \<le> nearest_double a b"
    by (rule nearest_double_ge[OF b kk]) (use lo in simp)
  then have ge: "of_int (int k) \<le> nearest_double a b" by simp
  have "nearest_double a b \<le> of_nat n / 2 ^ j" by (rule nearest_double_le[OF b n hn])
  also have "\<dots> < of_nat (k + 1)"
  proof -
    have "(of_nat n :: rat) < of_nat ((k + 1) * 2 ^ j)" unfolding n1[symmetric] by simp
    then show ?thesis by (simp add: field_simps)
  qed
  finally have lt: "nearest_double a b < of_int (int k) + 1" by simp
  show ?thesis using ge lt by (simp add: floor_unique)
qed

lemma literal_0_05: "nearest_double 5 100 = 3602879701896397 / 2 ^ 56"
  by (simp add: nearest_double_def binade_def significand_def round_half_even_def
        bit_length.simps Let_def)


lemmas double_defs =
  double_of_def nearest_double_def binade_def significand_def round_half_even_def
  bit_length.simps Let_def

lemma floor_double_of:
  assumes "0 \<le> a"
  shows "\<lfloor>double_of a b\<rfloor> =
           (if nat a = 0 then 0
            else int (round_half_even (nat a * 2 ^ fst (binade (nat a) b))
                        (b * 2 ^ snd (binade (nat a) b)) * 2 ^ snd (binade (nat a) b)
                      div 2 ^ fst (binade (nat a) b)))"
proof -
  have "\<lfloor>rat_of_nat m * 2 ^ d / 2 ^ u\<rfloor> = int (m * 2 ^ d div 2 ^ u)" for m d u
  proof -
    have "rat_of_nat m * 2 ^ d / 2 ^ u = rat_of_nat (m * 2 ^ d) / rat_of_nat (2 ^ u)" by simp
    then show ?thesis by (simp only: floor_divide_of_nat_eq)
  qed
  then show ?thesis
    using assms by (simp add: double_of_def nearest_double_def significand_def)
qed

lemmas floor_double_defs =
  floor_double_of binade_def round_half_even_def bit_length.simps Let_def

lemma floor_commission: "\<lfloor>rat_of_int p * 0.05\<rfloor> = p div 20"
proof -
  have "rat_of_int p * 0.05 = rat_of_int p / rat_of_int 20" by simp
  then show ?thesis by (simp only: floor_divide_of_int_eq)
qed

lemma floor_fee: "\<lfloor>rat_of_int p * 10 / 100\<rfloor> = p * 10 div 100"
proof -
  have "rat_of_int p * 10 / 100 = rat_of_int (p * 10) / rat_of_int 100" by simp
  then show ?thesis by (simp only: floor_divide_of_int_eq)
qed

lemma double_of_nonneg:
  "0 \<le> a \<Longrightarrow> double_of a b = nearest_double (nat a) b"
  by (simp add: double_of_def)

lemma lowcard_commission_div:
  assumes "0 \<le> p" "p < 2 ^ 49"
  shows "lowcard_commission p = p div 20"
proof -
  define n where "n = nat p"
  have p: "p = int n" and n: "n < 2 ^ 49" using assms unfolding n_def by simp_all
  have n': "n < 562949953421312" using n by simp
  have "\<lfloor>nearest_double (n * 3602879701896397) (2 ^ 56)\<rfloor> = int (n div 20)"
  proof (rule floor_nearest_double[where j = 5])
    show "0 < (2::nat) ^ 56" by simp
    show "n div 20 * 2 ^ 56 \<le> n * 3602879701896397" by simp
    show "n * 3602879701896397 * 2 ^ 5 + 2 ^ 56 \<le> (n div 20 + 1) * 2 ^ 5 * 2 ^ 56"
      using n' by simp
    show "(n div 20 + 1) * 2 ^ 5 \<le> 2 ^ 53" using n' by simp
  qed
  moreover have "nat (int n * 3602879701896397) = n * 3602879701896397"
    by (simp add: nat_mult_distrib)
  ultimately show ?thesis
    unfolding lowcard_commission_def p by (simp add: double_of_nonneg zdiv_int)
qed

lemma dice_house_fee_div:
  assumes "0 \<le> p" "p < 2 ^ 49"
  shows "dice_house_fee p = p * 10 div 100"
proof -
  define n where "n = nat p"
  have p: "p = int n" and n: "n < 2 ^ 49" using assms unfolding n_def by simp_all
  have n': "n < 562949953421312" using n by simp
  have t: "nearest_double (n * 10) 1 = of_nat (n * 10)"
    by (rule nearest_double_exact) (use n' in simp)
  have fl: "\<lfloor>nearest_double (n * 10) 100\<rfloor> = int (n * 10 div 100)"
  proof (rule floor_nearest_double[where j = 7])
    show "0 < (100::nat)" by simp
    show "n * 10 div 100 * 100 \<le> n * 10" by simp
    show "n * 10 * 2 ^ 7 + 100 \<le> (n * 10 div 100 + 1) * 2 ^ 7 * 100" by simp
    show "(n * 10 div 100 + 1) * 2 ^ 7 \<le> 2 ^ 53" using n' by simp
  qed
  have inner: "\<lfloor>double_of (int n * 10) 1\<rfloor> = int (n * 10)"
  proof -
    have "double_of (int n * 10) 1 = nearest_double (n * 10) 1"
      by (simp add: double_of_nonneg nat_mult_distrib del: One_nat_def)
    then have "\<lfloor>double_of (int n * 10) 1\<rfloor> = \<lfloor>rat_of_nat (n * 10)\<rfloor>"
      by (simp only: t)
    also have "\<dots> = int (n * 10)" by (rule floor_of_nat)
    finally show ?thesis .
  qed
  have outer: "double_of (int (n * 10)) 100 = nearest_double (n * 10) 100"
    by (simp add: double_of_nonneg del: of_nat_mult)
  have "dice_house_fee p = int (n * 10 div 100)"
    unfolding dice_house_fee_def HOUSE_FEE_PERCENT_def p inner outer by (rule fl)
  then show ?thesis unfolding p by (simp add: zdiv_int)
qed

lemma lowcard_commission_floor:
  "0 \<le> p \<Longrightarrow> p < 2 ^ 49 \<Longrightarrow> lowcard_commission p = \<lfloor>rat_of_int p * 0.05\<rfloor>"
  by (simp only: lowcard_commission_div floor_commission)

lemma dice_house_fee_floor:
  "0 \<le> p \<Longrightarrow> p < 2 ^ 49 \<Longrightarrow> dice_house_fee p = \<lfloor>rat_of_int p * 10 / 100\<rfloor>"
  by (simp only: dice_house_fee_div floor_fee)

text \<open>The Number nearest to an integer is an integer.\<close>

lemma round_half_even_one: "round_half_even a (Suc 0) = a"
  by (simp add: round_half_even_def)

lemma binade_one_sided: "fst (binade a b) = 0 \<or> snd (binade a b) = 0"
  by (auto simp: binade_def Let_def)

lemma nearest_double_integer: "\<exists>n. nearest_double a 1 = of_nat n"
proof (cases "a = 0")
  case True
  then have "nearest_double a 1 = of_nat 0" by (simp add: nearest_double_def)
  then show ?thesis by blast
next
  case False
  from binade_one_sided[of a 1] show ?thesis
  proof
    assume u: "fst (binade a 1) = 0"
    have "nearest_double a 1 =
            of_nat (round_half_even a (2 ^ snd (binade a 1)) * 2 ^ snd (binade a 1))"
      using False u by (simp add: nearest_double_def significand_def)
    then show ?thesis by blast
  next
    assume d: "snd (binade a 1) = 0"
    have "nearest_double a 1 = of_nat a"
      using False d by (simp add: nearest_double_def significand_def round_half_even_one)
    then show ?thesis by blast
  qed
qed

section \<open>Facts about the ledger\<close>

lemmas ledger_defs =
  deductCredits_def tagged_stage_def getTaggedBalance_def consumeForGame_def
  getUserCredits_def logGameTransaction_def addCredits_def Let_def

lemmas dice_defs =
  dice_startGame_def dice_startGame_locked_def dice_game_running_def parseInt_or_def
  MIN_ENTRY_def MAX_ENTRY_def JOIN_TIMEOUT_def new_dice_player_def dice_joinGame_def
  dice_beginGame_def

lemmas lowcard_defs =
  lowcard_startGame_def lowcard_startGame_locked_def lowcard_game_running_def parseInt_or_def
  MIN_ENTRY_def MAX_ENTRY_def MIN_ENTRY_BIG_GAME_def JOIN_TIMEOUT_def new_lowcard_player_def
  lowcard_joinGame_def lowcard_beginGame_def COUNTDOWN_DELAY_def DRAW_TIMEOUT_def reset_draw_def

lemmas sample_defs =
  demo_world_def sample_joins_def dice_started_def dice_joined_def dice_begun_def
  lowcard_started_def lowcard_joined_def lowcard_begun_def

lemma getUserCredits_frame:
  "getUserCredits u w = (b, w') \<Longrightarrow>
     dicebot_game w' = dicebot_game w \<and> lowcard_game w' = lowcard_game w \<and>
     dicebot_lock w' = dicebot_lock w \<and> lowcard_lock w' = lowcard_lock w \<and>
     users_credits w' = users_credits w \<and> tagged w' = tagged w \<and>
     credit_logs w' = credit_logs w \<and> big_game w' = big_game w \<and>
     lowcard_deck w' = lowcard_deck w \<and> dicebot_bot w' = dicebot_bot w \<and>
     lowcard_bot w' = lowcard_bot w"
  by (auto simp: getUserCredits_def Let_def split: option.splits)

lemma tagged_stage_frame:
  "tagged_stage u a w = (ur, w') \<Longrightarrow>
     dicebot_game w' = dicebot_game w \<and> lowcard_game w' = lowcard_game w \<and>
     dicebot_lock w' = dicebot_lock w \<and> lowcard_lock w' = lowcard_lock w \<and>
     users_credits w' = users_credits w \<and> credits_cache w' = credits_cache w \<and>
     credit_logs w' = credit_logs w \<and> big_game w' = big_game w \<and>
     lowcard_deck w' = lowcard_deck w \<and> dicebot_bot w' = dicebot_bot w \<and>
     lowcard_bot w' = lowcard_bot w"
  by (auto simp: tagged_stage_def consumeForGame_def Let_def split: if_splits)

lemma deductCredits_frame:
  "deductCredits u a n rsn w = (dr, w') \<Longrightarrow>
     dicebot_game w' = dicebot_game w \<and> lowcard_game w' = lowcard_game w \<and>
     dicebot_lock w' = dicebot_lock w \<and> lowcard_lock w' = lowcard_lock w \<and>
     big_game w' = big_game w \<and>
     lowcard_deck w' = lowcard_deck w \<and> dicebot_bot w' = dicebot_bot w \<and>
     lowcard_bot w' = lowcard_bot w"
  unfolding deductCredits_def
  by (auto simp: logGameTransaction_def Let_def split: prod.splits if_splits option.splits
       dest!: tagged_stage_frame getUserCredits_frame)

lemma deductCredits_failed:
  "deductCredits u a n rsn w = (DeductFailed b, w') \<Longrightarrow>
     users_credits w' = users_credits w \<and> credit_logs w' = credit_logs w"
  unfolding deductCredits_def
  by (auto simp: logGameTransaction_def Let_def split: prod.splits if_splits option.splits
       dest!: tagged_stage_frame getUserCredits_frame)

section \<open>Starting and joining\<close>

lemma dice_startGame_running:
  assumes "dicebot_game w r = Some g" "status g = waiting \<or> status g = playing"
  shows "dice_startGame now r u n a w =
           (Inl (if dicebot_lock w r then ActionInProgress else GameInProgress), w)"
  using assms
  by (auto simp: dice_startGame_def dice_startGame_locked_def dice_game_running_def fun_upd_idem)

lemma lowcard_startGame_running:
  assumes "lowcard_game w r = Some g" "status g = waiting \<or> status g = playing"
  shows "lowcard_startGame now r u n a w =
           (Inl (if lowcard_lock w r then ActionInProgress else GameInProgress), w)"
  using assms
  by (auto simp: lowcard_startGame_def lowcard_startGame_locked_def lowcard_game_running_def
        fun_upd_idem)

lemma dice_startGame_ok:
  assumes "dice_startGame now r u n a w = (Inr ok, w')"
  shows "\<exists>g. dicebot_game w' r = Some g \<and> status g = waiting \<and> pot g = entryAmount g \<and>
             players g = [new_dice_player u n] \<and> joinDeadline g = now + JOIN_TIMEOUT \<and>
             MIN_ENTRY \<le> entryAmount g"
  using assms
  unfolding dice_startGame_def dice_startGame_locked_def
  by (auto simp: Let_def MIN_ENTRY_def MAX_ENTRY_def split: if_splits prod.splits
        dest!: deductCredits_frame)

lemma lowcard_startGame_ok:
  assumes "lowcard_startGame now r u n a w = (Inr ok, w')"
  shows "\<exists>g. lowcard_game w' r = Some g \<and> status g = waiting \<and> pot g = entryAmount g \<and>
             players g = [new_lowcard_player u n] \<and> joinDeadline g = now + JOIN_TIMEOUT \<and>
             MIN_ENTRY \<le> entryAmount g"
  using assms
  unfolding lowcard_startGame_def lowcard_startGame_locked_def
  by (auto simp: Let_def MIN_ENTRY_def MIN_ENTRY_BIG_GAME_def split: if_splits prod.splits
        dest!: deductCredits_frame)

lemma dice_joinGame_ok:
  assumes "dice_joinGame now r u n w = (Inr ok, w')"
  shows "\<exists>g. dicebot_game w r = Some g \<and> status g = waiting \<and> now \<le> joinDeadline g \<and>
             u \<notin> userId ` set (players g) \<and>
             dicebot_game w' r =
               Some (g\<lparr>players := players g @ [new_dice_player u n],
                       pot := pot g + entryAmount g\<rparr>)"
  using assms
  unfolding dice_joinGame_def
  by (auto simp: Let_def find_None_iff split: option.splits if_splits prod.splits
        dest!: deductCredits_frame)

lemma lowcard_joinGame_ok:
  assumes "lowcard_joinGame now r u n w = (Inr ok, w')"
  shows "\<exists>g. lowcard_game w r = Some g \<and> status g = waiting \<and> now \<le> joinDeadline g \<and>
             u \<notin> userId ` set (players g) \<and>
             lowcard_game w' r =
               Some (g\<lparr>players := players g @ [new_lowcard_player u n],
                       pot := pot g + entryAmount g\<rparr>)"
  using assms
  unfolding lowcard_joinGame_def
  by (auto simp: Let_def find_None_iff split: option.splits if_splits prod.splits
        dest!: deductCredits_frame)

lemma dice_joinGame_refused:
  assumes "dicebot_game w r = Some g"
    and "u \<in> userId ` set (players g) \<or> now > joinDeadline g"
  shows "\<exists>e. dice_joinGame now r u n w = (Inl e, w)"
  using assms
  unfolding dice_joinGame_def
  by (auto simp: Let_def find_None_iff split: option.splits if_splits prod.splits)

lemma lowcard_joinGame_refused:
  assumes "lowcard_game w r = Some g"
    and "u \<in> userId ` set (players g) \<or> now > joinDeadline g"
  shows "\<exists>e. lowcard_joinGame now r u n w = (Inl e, w)"
  using assms
  unfolding lowcard_joinGame_def
  by (auto simp: Let_def find_None_iff split: option.splits if_splits prod.splits)

lemma dice_joins_inv:
  assumes "dice_joins r js w = Some w'" "dicebot_game w r = Some g" "status g = waiting"
  shows "\<exists>g'. dicebot_game w' r = Some g' \<and> status g' = waiting \<and>
           entryAmount g' = entryAmount g \<and>
           length (players g') = length (players g) + length js \<and>
           pot g' = pot g + entryAmount g * int (length js) \<and>
           joinDeadline g' = joinDeadline g \<and>
           (distinct (map userId (players g)) \<longrightarrow> distinct (map userId (players g')))"
  using assms
proof (induction js arbitrary: w g)
  case Nil
  then show ?case by simp
next
  case (Cons j js)
  obtain now u n where j: "j = (now, u, n)" by (cases j) auto
  from Cons.prems(1) j obtain ok w1 where
    st: "dice_joinGame now r u n w = (Inr ok, w1)" and rest: "dice_joins r js w1 = Some w'"
    by (auto split: prod.splits sum.splits)
  from dice_joinGame_ok[OF st] Cons.prems(2) have
    g1: "dicebot_game w1 r = Some (g\<lparr>players := players g @ [new_dice_player u n],
                       pot := pot g + entryAmount g\<rparr>)" and nin: "u \<notin> userId ` set (players g)"
    by auto
  from Cons.IH[OF rest g1] Cons.prems(3) nin show ?case
    by (auto simp: algebra_simps new_dice_player_def)
qed

lemma lowcard_joins_inv:
  assumes "lowcard_joins r js w = Some w'" "lowcard_game w r = Some g" "status g = waiting"
  shows "\<exists>g'. lowcard_game w' r = Some g' \<and> status g' = waiting \<and>
           entryAmount g' = entryAmount g \<and>
           length (players g') = length (players g) + length js \<and>
           pot g' = pot g + entryAmount g * int (length js) \<and>
           joinDeadline g' = joinDeadline g \<and>
           (distinct (map userId (players g)) \<longrightarrow> distinct (map userId (players g')))"
  using assms
proof (induction js arbitrary: w g)
  case Nil
  then show ?case by simp
next
  case (Cons j js)
  obtain now u n where j: "j = (now, u, n)" by (cases j) auto
  from Cons.prems(1) j obtain ok w1 where
    st: "lowcard_joinGame now r u n w = (Inr ok, w1)" and rest: "lowcard_joins r js w1 = Some w'"
    by (auto split: prod.splits sum.splits)
  from lowcard_joinGame_ok[OF st] Cons.prems(2) have
    g1: "lowcard_game w1 r = Some (g\<lparr>players := players g @ [new_lowcard_player u n],
                       pot := pot g + entryAmount g\<rparr>)" and nin: "u \<notin> userId ` set (players g)"
    by auto
  from Cons.IH[OF rest g1] Cons.prems(3) nin show ?case
    by (auto simp: algebra_simps new_lowcard_player_def)
qed

text \<open>The sample runs, evaluated.\<close>

lemma dice_started_eval:
  "dice_startGame 0 7 1 ''ann'' (Some 100) demo_world = (Inr (StartOk 0 900), dice_started)"
  by (simp add: prod_eq_iff sample_defs dice_defs ledger_defs)

lemma dice_joined_eval: "dice_joins 7 sample_joins dice_started = Some dice_joined"
  by (simp add: sample_defs dice_defs ledger_defs)


lemma lowcard_started_eval:
  "lowcard_startGame 0 7 1 ''ann'' (Some 50) demo_world = (Inr (StartOk 0 950), lowcard_started)"
  by (simp add: prod_eq_iff sample_defs lowcard_defs ledger_defs)

lemma lowcard_joined_eval: "lowcard_joins 7 sample_joins lowcard_started = Some lowcard_joined"
  by (simp add: sample_defs lowcard_defs ledger_defs)


section \<open>C1: the pot when the game begins\<close>

lemma dice_join4_eval:
  "fst (dice_joinGame 12 7 4 ''dee'' dice_joined) = Inr (JoinOk 4 400 900)"
  by (simp add: sample_defs dice_defs ledger_defs)

lemma lowcard_join4_eval:
  "fst (lowcard_joinGame 12 7 4 ''dee'' lowcard_joined) = Inr (JoinOk 4 200 950)"
  by (simp add: sample_defs lowcard_defs ledger_defs)



section \<open>C2: a failed debit\<close>

lemma deductCredits_failed_frame:
  "deductCredits u a n rsn w = (DeductFailed b, w') \<Longrightarrow>
     users_credits w' = users_credits w \<and> credit_logs w' = credit_logs w \<and>
     dicebot_game w' = dicebot_game w \<and> lowcard_game w' = lowcard_game w \<and>
     dicebot_lock w' = dicebot_lock w \<and> lowcard_lock w' = lowcard_lock w"
  using deductCredits_failed[of u a n rsn w b w'] deductCredits_frame[of u a n rsn w "DeductFailed b" w']
  by simp

lemma dice_start_debit_failure:
  "dice_startGame now r u name amt w = (Inl (NotEnoughCredits a), w') \<Longrightarrow>
      dicebot_game w' = dicebot_game w \<and> users_credits w' = users_credits w \<and>
      credit_logs w' = credit_logs w"
  unfolding dice_startGame_def dice_startGame_locked_def
  by (auto simp: Let_def split: if_splits prod.splits
        dest!: deductCredits_failed_frame elim!: deduct_success.elims)

lemma dice_join_debit_failure:
  "dice_joinGame now r u name w = (Inl (NotEnoughCredits a), w') \<Longrightarrow>
      dicebot_game w' = dicebot_game w \<and> users_credits w' = users_credits w \<and>
      credit_logs w' = credit_logs w"
  unfolding dice_joinGame_def
  by (auto simp: Let_def split: if_splits prod.splits option.splits
        dest!: deductCredits_failed_frame elim!: deduct_success.elims)

lemma lowcard_start_debit_failure:
  "lowcard_startGame now r u name amt w = (Inl (NotEnoughCredits a), w') \<Longrightarrow>
      lowcard_game w' = lowcard_game w \<and> users_credits w' = users_credits w \<and>
      credit_logs w' = credit_logs w"
  unfolding lowcard_startGame_def lowcard_startGame_locked_def
  by (auto simp: Let_def split: if_splits prod.splits
        dest!: deductCredits_failed_frame elim!: deduct_success.elims)

lemma lowcard_join_debit_failure:
  "lowcard_joinGame now r u name w = (Inl (NotEnoughCredits a), w') \<Longrightarrow>
      lowcard_game w' = lowcard_game w \<and> users_credits w' = users_credits w \<and>
      credit_logs w' = credit_logs w"
  unfolding lowcard_joinGame_def
  by (auto simp: Let_def split: if_splits prod.splits option.splits
        dest!: deductCredits_failed_frame elim!: deduct_success.elims)

lemma dice_start_refused_eval:
  "dice_startGame 0 7 5 ''eve'' (Some 100) demo_world =
     (Inl (NotEnoughCredits 100),
      demo_world\<lparr>credits_cache := (credits_cache demo_world)(5 \<mapsto> 10),
                 tagged := (tagged demo_world)(5 := 0)\<rparr>)"
  by (simp add: sample_defs dice_defs ledger_defs fun_upd_idem)

lemma dice_join_refused_eval:
  "dice_joinGame 5 7 5 ''eve'' dice_started =
     (Inl (NotEnoughCredits 100),
      dice_started\<lparr>credits_cache := (credits_cache dice_started)(5 \<mapsto> 10),
                   tagged := (tagged dice_started)(5 := 0)\<rparr>)"
  by (simp add: sample_defs dice_defs ledger_defs)

lemma lowcard_join_refused_eval:
  "lowcard_joinGame 5 7 5 ''eve'' lowcard_started =
     (Inl (NotEnoughCredits 50),
      lowcard_started\<lparr>credits_cache := (credits_cache lowcard_started)(5 \<mapsto> 10),
                      tagged := (tagged lowcard_started)(5 := 0)\<rparr>)"
  by (simp add: sample_defs lowcard_defs ledger_defs)

lemma tagged_before_eval:
  "tagged demo_world 5 = 30 \<and> tagged dice_started 5 = 30 \<and> tagged lowcard_started 5 = 30"
  by (simp add: sample_defs dice_defs lowcard_defs ledger_defs)

text \<open>
  C2. The claim says that a start or join whose debit fails takes nothing from the actor,
  the tagged sub-balance included. On the code the session, the main balance and the
  transaction log are indeed untouched (the four lemmas above), but \<^verbatim>\<open>deductCredits\<close>
  calls the tag service before it checks the main balance and returns the failure without
  giving the consumed tagged credits back. User 5 holds 30 tagged credits and 10 coins:
  a start with entry 100, a join of a dice game with entry 100 and a join of a card game
  with entry 50 are each refused for lack of credits, and each leaves user 5 with 0
  tagged credits (the only other change is the cache entry of the balance read).
\<close>

theorem failed_debit_keeps_tagged_credits:
  "tagged demo_world 5 = 30 \<and> tagged dice_started 5 = 30 \<and> tagged lowcard_started 5 = 30 \<and>
   dice_startGame 0 7 5 ''eve'' (Some 100) demo_world =
     (Inl (NotEnoughCredits 100),
      demo_world\<lparr>credits_cache := (credits_cache demo_world)(5 \<mapsto> 10),
                 tagged := (tagged demo_world)(5 := 0)\<rparr>) \<and>
   dice_joinGame 5 7 5 ''eve'' dice_started =
     (Inl (NotEnoughCredits 100),
      dice_started\<lparr>credits_cache := (credits_cache dice_started)(5 \<mapsto> 10),
                   tagged := (tagged dice_started)(5 := 0)\<rparr>) \<and>
   lowcard_joinGame 5 7 5 ''eve'' lowcard_started =
     (Inl (NotEnoughCredits 50),
      lowcard_started\<lparr>credits_cache := (credits_cache lowcard_started)(5 \<mapsto> 10),
                      tagged := (tagged lowcard_started)(5 := 0)\<rparr>)"
  using tagged_before_eval dice_start_refused_eval dice_join_refused_eval
    lowcard_join_refused_eval
  by blast

section \<open>C3: destroying a session before there is a winner\<close>

lemmas refund_defs =
  dice_removeBotFromRoom_def dice_cancelGame_def lowcard_removeBotFromRoom_def
  lowcard_stopGame_def

lemma dice_begun_state:
  "map (users_credits dice_begun) [1, 2, 3] = [Some 900, Some 900, Some 900] \<and>
   dicebot_bot dice_begun 7 \<and>
   map_option status (dicebot_game dice_begun 7) = Some playing \<and>
   map_option pot (dicebot_game dice_begun 7) = Some 300 \<and>
   map_option entryAmount (dicebot_game dice_begun 7) = Some 100 \<and>
   map_option (map userId \<circ> filter (\<lambda>p. \<not> isEliminated p) \<circ> players)
     (dicebot_game dice_begun 7) = Some [1, 2, 3]"
  by (simp add: sample_defs dice_defs ledger_defs)

lemma dice_remove_playing:
  "dice_removeBotFromRoom 7 dice_begun =
     (Inr (), dice_begun\<lparr>dicebot_bot := (dicebot_bot dice_begun)(7 := False),
                        dicebot_game := (dicebot_game dice_begun)(7 := None),
                        activeGameType := (activeGameType dice_begun)(7 := None)\<rparr>)"
  by (simp add: sample_defs dice_defs ledger_defs refund_defs)

lemma dice_cancel_playing:
  "map (users_credits (snd (dice_cancelGame 7 ''Cancelled by admin'' dice_begun))) [1, 2, 3] =
     [Some 1000, Some 1000, Some 1000] \<and>
   dicebot_game (snd (dice_cancelGame 7 ''Cancelled by admin'' dice_begun)) 7 = None"
  by (simp add: sample_defs dice_defs ledger_defs refund_defs)

lemma lowcard_begun_state:
  "map (users_credits lowcard_begun) [1, 2, 3] = [Some 950, Some 950, Some 950] \<and>
   lowcard_bot lowcard_begun 7 \<and>
   map_option status (lowcard_game lowcard_begun 7) = Some playing \<and>
   map_option pot (lowcard_game lowcard_begun 7) = Some 150 \<and>
   map_option entryAmount (lowcard_game lowcard_begun 7) = Some 50 \<and>
   map_option (map userId \<circ> filter (\<lambda>p. \<not> isEliminated p) \<circ> players)
     (lowcard_game lowcard_begun 7) = Some [1, 2, 3]"
  by (simp add: sample_defs lowcard_defs ledger_defs)

lemma lowcard_remove_playing:
  "lowcard_removeBotFromRoom 7 lowcard_begun =
     (Inr (), lowcard_begun\<lparr>lowcard_bot := (lowcard_bot lowcard_begun)(7 := False),
                        lowcard_game := (lowcard_game lowcard_begun)(7 := None),
                        lowcard_deck := (lowcard_deck lowcard_begun)(7 := None),
                        activeGameType := (activeGameType lowcard_begun)(7 := None)\<rparr>)"
  by (simp add: sample_defs lowcard_defs ledger_defs refund_defs)

lemma lowcard_stop_playing:
  "lowcard_stopGame 7 lowcard_begun = (Inl CannotStopStarted, lowcard_begun)"
  by (simp add: sample_defs lowcard_defs ledger_defs refund_defs)

text \<open>
  C3. The claim says that every way of destroying an unfinished session refunds the
  players who are still in. \<^verbatim>\<open>cancelGame\<close> of the dice variant does so in both
  statuses, and \<^verbatim>\<open>stopGame\<close> of the card variant refuses to touch a \<open>playing\<close> session.
  \<^verbatim>\<open>removeBotFromRoom\<close>, in both variants, refunds only under
  \<^verbatim>\<open>game.status === 'waiting'\<close> and then deletes the session whatever its status: in
  room 7, with three players in a \<open>playing\<close> session, removing the bot deletes the session
  and changes no balance, while cancelling the same dice session gives each of the three
  players the entry amount back.
\<close>

theorem remove_bot_while_playing_refunds_nobody:
  "map (users_credits dice_begun) [1, 2, 3] = [Some 900, Some 900, Some 900] \<and>
   dicebot_bot dice_begun 7 \<and>
   map_option status (dicebot_game dice_begun 7) = Some playing \<and>
   map_option pot (dicebot_game dice_begun 7) = Some 300 \<and>
   map_option entryAmount (dicebot_game dice_begun 7) = Some 100 \<and>
   map_option (map userId \<circ> filter (\<lambda>p. \<not> isEliminated p) \<circ> players)
     (dicebot_game dice_begun 7) = Some [1, 2, 3] \<and>
   dice_removeBotFromRoom 7 dice_begun =
     (Inr (), dice_begun\<lparr>dicebot_bot := (dicebot_bot dice_begun)(7 := False),
                        dicebot_game := (dicebot_game dice_begun)(7 := None),
                        activeGameType := (activeGameType dice_begun)(7 := None)\<rparr>) \<and>
   map (users_credits (snd (dice_cancelGame 7 ''Cancelled by admin'' dice_begun))) [1, 2, 3] =
     [Some 1000, Some 1000, Some 1000] \<and>
   dicebot_game (snd (dice_cancelGame 7 ''Cancelled by admin'' dice_begun)) 7 = None \<and>
   map (users_credits lowcard_begun) [1, 2, 3] = [Some 950, Some 950, Some 950] \<and>
   lowcard_bot lowcard_begun 7 \<and>
   map_option status (lowcard_game lowcard_begun 7) = Some playing \<and>
   map_option pot (lowcard_game lowcard_begun 7) = Some 150 \<and>
   map_option entryAmount (lowcard_game lowcard_begun 7) = Some 50 \<and>
   map_option (map userId \<circ> filter (\<lambda>p. \<not> isEliminated p) \<circ> players)
     (lowcard_game lowcard_begun 7) = Some [1, 2, 3] \<and>
   lowcard_removeBotFromRoom 7 lowcard_begun =
     (Inr (), lowcard_begun\<lparr>lowcard_bot := (lowcard_bot lowcard_begun)(7 := False),
                        lowcard_game := (lowcard_game lowcard_begun)(7 := None),
                        lowcard_deck := (lowcard_deck lowcard_begun)(7 := None),
                        activeGameType := (activeGameType lowcard_begun)(7 := None)\<rparr>) \<and>
   lowcard_stopGame 7 lowcard_begun = (Inl CannotStopStarted, lowcard_begun)"
  using dice_begun_state dice_remove_playing dice_cancel_playing lowcard_begun_state
    lowcard_remove_playing lowcard_stop_playing
  by blast

section \<open>C4: one session per room\<close>

lemma dice_started_game:
  "dicebot_game dice_started 7 = Some (the (dicebot_game dice_started 7)) \<and>
   status (the (dicebot_game dice_started 7)) = waiting \<and> \<not> dicebot_lock dice_started 7"
  by (simp add: sample_defs dice_defs ledger_defs)

lemma lowcard_begun_game:
  "lowcard_game lowcard_begun 7 = Some (the (lowcard_game lowcard_begun 7)) \<and>
   status (the (lowcard_game lowcard_begun 7)) = playing \<and> \<not> lowcard_lock lowcard_begun 7"
  by (simp add: sample_defs lowcard_defs ledger_defs)

text \<open>
  C4. In a room whose stored session is \<open>waiting\<close> or \<open>playing\<close>, a start command fails
  and leaves the whole stored state, the session included, as it was, in both variants:
  the failure is "a game is already in progress", or "another action is in progress" when
  the room's start lock is held.
\<close>

theorem start_refused_while_session_active:
  "(\<forall>now r u name amt w g.
      dicebot_game w r = Some g \<and> (status g = waiting \<or> status g = playing) \<longrightarrow>
      dice_startGame now r u name amt w =
        (Inl (if dicebot_lock w r then ActionInProgress else GameInProgress), w)) \<and>
   (\<forall>now r u name amt w g.
      lowcard_game w r = Some g \<and> (status g = waiting \<or> status g = playing) \<longrightarrow>
      lowcard_startGame now r u name amt w =
        (Inl (if lowcard_lock w r then ActionInProgress else GameInProgress), w))"
  using dice_startGame_running lowcard_startGame_running by blast

theorem start_refused_while_session_active_witness:
  "dicebot_game dice_started 7 = Some (the (dicebot_game dice_started 7)) \<and>
   status (the (dicebot_game dice_started 7)) = waiting \<and>
   dice_startGame 3 7 2 ''bob'' (Some 20) dice_started = (Inl GameInProgress, dice_started) \<and>
   lowcard_game lowcard_begun 7 = Some (the (lowcard_game lowcard_begun 7)) \<and>
   status (the (lowcard_game lowcard_begun 7)) = playing \<and>
   lowcard_startGame 50000 7 4 ''dee'' (Some 20) lowcard_begun = (Inl GameInProgress, lowcard_begun)"
proof -
  note T = start_refused_while_session_active
  have d: "dicebot_game dice_started 7 = Some (the (dicebot_game dice_started 7)) \<and>
           (status (the (dicebot_game dice_started 7)) = waiting \<or>
            status (the (dicebot_game dice_started 7)) = playing)"
    using dice_started_game by simp
  have l: "lowcard_game lowcard_begun 7 = Some (the (lowcard_game lowcard_begun 7)) \<and>
           (status (the (lowcard_game lowcard_begun 7)) = waiting \<or>
            status (the (lowcard_game lowcard_begun 7)) = playing)"
    using lowcard_begun_game by simp
  show ?thesis
    using T[THEN conjunct1, rule_format, OF d, of 3 2 "''bob''" "Some 20"]
          T[THEN conjunct2, rule_format, OF l, of 50000 4 "''dee''" "Some 20"]
          dice_started_game lowcard_begun_game
    by simp
qed

section \<open>C5: nobody joins twice\<close>

lemma dice_joined_game:
  "dicebot_game dice_joined 7 = Some (the (dicebot_game dice_joined 7)) \<and>
   2 \<in> userId ` set (players (the (dicebot_game dice_joined 7))) \<and>
   joinDeadline (the (dicebot_game dice_joined 7)) = 30000"
  by (simp add: sample_defs dice_defs ledger_defs)

lemma lowcard_joined_game:
  "lowcard_game lowcard_joined 7 = Some (the (lowcard_game lowcard_joined 7)) \<and>
   2 \<in> userId ` set (players (the (lowcard_game lowcard_joined 7))) \<and>
   joinDeadline (the (lowcard_game lowcard_joined 7)) = 30000"
  by (simp add: sample_defs lowcard_defs ledger_defs)

text \<open>
  C5. A user who is already among the players of the room's session cannot join it again:
  the join fails and the stored state is unchanged (no debit, same session). A join after
  the join deadline fails in the same way. A successful join is by a user who was not
  among the players, not later than the deadline, and leaves the deadlines as they were.
  Hence after a start and any run of successful joins the players' user ids are pairwise
  distinct. All of this holds in both variants.
\<close>

theorem no_second_join:
  "(\<forall>now r u name w g.
      dicebot_game w r = Some g \<and> u \<in> userId ` set (players g) \<longrightarrow>
      (\<exists>e. dice_joinGame now r u name w = (Inl e, w))) \<and>
   (\<forall>now r u name w g.
      lowcard_game w r = Some g \<and> u \<in> userId ` set (players g) \<longrightarrow>
      (\<exists>e. lowcard_joinGame now r u name w = (Inl e, w))) \<and>
   (\<forall>now r u name w g.
      dicebot_game w r = Some g \<and> now > joinDeadline g \<longrightarrow>
      (\<exists>e. dice_joinGame now r u name w = (Inl e, w))) \<and>
   (\<forall>now r u name w g.
      lowcard_game w r = Some g \<and> now > joinDeadline g \<longrightarrow>
      (\<exists>e. lowcard_joinGame now r u name w = (Inl e, w))) \<and>
   (\<forall>now r u name w ok w'.
      dice_joinGame now r u name w = (Inr ok, w') \<longrightarrow>
      (\<exists>g g'. dicebot_game w r = Some g \<and> dicebot_game w' r = Some g' \<and>
         u \<notin> userId ` set (players g) \<and> now \<le> joinDeadline g \<and>
         joinDeadline g' = joinDeadline g)) \<and>
   (\<forall>now r u name w ok w'.
      lowcard_joinGame now r u name w = (Inr ok, w') \<longrightarrow>
      (\<exists>g g'. lowcard_game w r = Some g \<and> lowcard_game w' r = Some g' \<and>
         u \<notin> userId ` set (players g) \<and> now \<le> joinDeadline g \<and>
         joinDeadline g' = joinDeadline g \<and> roundDeadline g' = roundDeadline g \<and>
         countdownEndsAt g' = countdownEndsAt g)) \<and>
   (\<forall>t0 r u name amt w0 ok w1 js w2.
      dice_startGame t0 r u name amt w0 = (Inr ok, w1) \<and> dice_joins r js w1 = Some w2 \<longrightarrow>
      (\<exists>g. dicebot_game w2 r = Some g \<and> distinct (map userId (players g)))) \<and>
   (\<forall>t0 r u name amt w0 ok w1 js w2.
      lowcard_startGame t0 r u name amt w0 = (Inr ok, w1) \<and> lowcard_joins r js w1 = Some w2 \<longrightarrow>
      (\<exists>g. lowcard_game w2 r = Some g \<and> distinct (map userId (players g))))"
proof (intro conjI allI impI)
  fix now r u name and w :: world and g :: dice_game
  assume "dicebot_game w r = Some g \<and> u \<in> userId ` set (players g)"
  then show "\<exists>e. dice_joinGame now r u name w = (Inl e, w)"
    using dice_joinGame_refused by blast
next
  fix now r u name and w :: world and g :: lowcard_game
  assume "lowcard_game w r = Some g \<and> u \<in> userId ` set (players g)"
  then show "\<exists>e. lowcard_joinGame now r u name w = (Inl e, w)"
    using lowcard_joinGame_refused by blast
next
  fix now r u name and w :: world and g :: dice_game
  assume "dicebot_game w r = Some g \<and> now > joinDeadline g"
  then show "\<exists>e. dice_joinGame now r u name w = (Inl e, w)"
    using dice_joinGame_refused by blast
next
  fix now r u name and w :: world and g :: lowcard_game
  assume "lowcard_game w r = Some g \<and> now > joinDeadline g"
  then show "\<exists>e. lowcard_joinGame now r u name w = (Inl e, w)"
    using lowcard_joinGame_refused by blast
next
  fix now r u name w ok w'
  assume "dice_joinGame now r u name w = (Inr ok, w')"
  from dice_joinGame_ok[OF this]
  show "\<exists>g g'. dicebot_game w r = Some g \<and> dicebot_game w' r = Some g' \<and>
         u \<notin> userId ` set (players g) \<and> now \<le> joinDeadline g \<and>
         joinDeadline g' = joinDeadline g"
    by auto
next
  fix now r u name w ok w'
  assume "lowcard_joinGame now r u name w = (Inr ok, w')"
  from lowcard_joinGame_ok[OF this]
  show "\<exists>g g'. lowcard_game w r = Some g \<and> lowcard_game w' r = Some g' \<and>
         u \<notin> userId ` set (players g) \<and> now \<le> joinDeadline g \<and>
         joinDeadline g' = joinDeadline g \<and> roundDeadline g' = roundDeadline g \<and>
         countdownEndsAt g' = countdownEndsAt g"
    by auto
next
  fix t0 r u name amt w0 ok w1 js w2
  assume a: "dice_startGame t0 r u name amt w0 = (Inr ok, w1) \<and> dice_joins r js w1 = Some w2"
  from dice_startGame_ok[of t0 r u name amt w0 ok w1] a obtain g1 where
    g1: "dicebot_game w1 r = Some g1" "status g1 = waiting"
        "players g1 = [new_dice_player u name]" by blast
  from dice_joins_inv[OF _ g1(1) g1(2), of js w2] a g1(3)
  show "\<exists>g. dicebot_game w2 r = Some g \<and> distinct (map userId (players g))"
    by auto
next
  fix t0 r u name amt w0 ok w1 js w2
  assume a: "lowcard_startGame t0 r u name amt w0 = (Inr ok, w1) \<and>
             lowcard_joins r js w1 = Some w2"
  from lowcard_startGame_ok[of t0 r u name amt w0 ok w1] a obtain g1 where
    g1: "lowcard_game w1 r = Some g1" "status g1 = waiting"
        "players g1 = [new_lowcard_player u name]" by blast
  from lowcard_joins_inv[OF _ g1(1) g1(2), of js w2] a g1(3)
  show "\<exists>g. lowcard_game w2 r = Some g \<and> distinct (map userId (players g))"
    by auto
qed

theorem no_second_join_witness:
  "dicebot_game dice_joined 7 = Some (the (dicebot_game dice_joined 7)) \<and>
   2 \<in> userId ` set (players (the (dicebot_game dice_joined 7))) \<and>
   (\<exists>e. dice_joinGame 10 7 2 ''bob'' dice_joined = (Inl e, dice_joined)) \<and>
   lowcard_game lowcard_joined 7 = Some (the (lowcard_game lowcard_joined 7)) \<and>
   2 \<in> userId ` set (players (the (lowcard_game lowcard_joined 7))) \<and>
   (\<exists>e. lowcard_joinGame 10 7 2 ''bob'' lowcard_joined = (Inl e, lowcard_joined)) \<and>
   30001 > joinDeadline (the (dicebot_game dice_joined 7)) \<and>
   (\<exists>e. dice_joinGame 30001 7 4 ''dee'' dice_joined = (Inl e, dice_joined)) \<and>
   30001 > joinDeadline (the (lowcard_game lowcard_joined 7)) \<and>
   (\<exists>e. lowcard_joinGame 30001 7 4 ''dee'' lowcard_joined = (Inl e, lowcard_joined)) \<and>
   fst (dice_joinGame 12 7 4 ''dee'' dice_joined) = Inr (JoinOk 4 400 900) \<and>
   (\<exists>g g'. dicebot_game dice_joined 7 = Some g \<and>
      dicebot_game (snd (dice_joinGame 12 7 4 ''dee'' dice_joined)) 7 = Some g' \<and>
      4 \<notin> userId ` set (players g) \<and> 12 \<le> joinDeadline g \<and>
      joinDeadline g' = joinDeadline g) \<and>
   fst (lowcard_joinGame 12 7 4 ''dee'' lowcard_joined) = Inr (JoinOk 4 200 950) \<and>
   (\<exists>g g'. lowcard_game lowcard_joined 7 = Some g \<and>
      lowcard_game (snd (lowcard_joinGame 12 7 4 ''dee'' lowcard_joined)) 7 = Some g' \<and>
      4 \<notin> userId ` set (players g) \<and> 12 \<le> joinDeadline g \<and>
      joinDeadline g' = joinDeadline g \<and> roundDeadline g' = roundDeadline g \<and>
      countdownEndsAt g' = countdownEndsAt g) \<and>
   dice_startGame 0 7 1 ''ann'' (Some 100) demo_world = (Inr (StartOk 0 900), dice_started) \<and>
   dice_joins 7 sample_joins dice_started = Some dice_joined \<and>
   (\<exists>g. dicebot_game dice_joined 7 = Some g \<and> distinct (map userId (players g))) \<and>
   lowcard_startGame 0 7 1 ''ann'' (Some 50) demo_world = (Inr (StartOk 0 950), lowcard_started) \<and>
   lowcard_joins 7 sample_joins lowcard_started = Some lowcard_joined \<and>
   (\<exists>g. lowcard_game lowcard_joined 7 = Some g \<and> distinct (map userId (players g)))"
proof -
  note T = no_second_join
  note T1 = T[THEN conjunct1, rule_format]
  note T2 = T[THEN conjunct2, THEN conjunct1, rule_format]
  note T3 = T[THEN conjunct2, THEN conjunct2, THEN conjunct1, rule_format]
  note T4 = T[THEN conjunct2, THEN conjunct2, THEN conjunct2, THEN conjunct1, rule_format]
  note T5 = T[THEN conjunct2, THEN conjunct2, THEN conjunct2, THEN conjunct2, THEN conjunct1,
              rule_format]
  note T6 = T[THEN conjunct2, THEN conjunct2, THEN conjunct2, THEN conjunct2, THEN conjunct2,
              THEN conjunct1, rule_format]
  note T7 = T[THEN conjunct2, THEN conjunct2, THEN conjunct2, THEN conjunct2, THEN conjunct2,
              THEN conjunct2, THEN conjunct1, rule_format]
  note T8 = T[THEN conjunct2, THEN conjunct2, THEN conjunct2, THEN conjunct2, THEN conjunct2,
              THEN conjunct2, THEN conjunct2, rule_format]
  have d1: "dicebot_game dice_joined 7 = Some (the (dicebot_game dice_joined 7)) \<and>
            2 \<in> userId ` set (players (the (dicebot_game dice_joined 7)))"
    using dice_joined_game by simp
  have l1: "lowcard_game lowcard_joined 7 = Some (the (lowcard_game lowcard_joined 7)) \<and>
            2 \<in> userId ` set (players (the (lowcard_game lowcard_joined 7)))"
    using lowcard_joined_game by simp
  have d2: "dicebot_game dice_joined 7 = Some (the (dicebot_game dice_joined 7)) \<and>
            30001 > joinDeadline (the (dicebot_game dice_joined 7))"
    using dice_joined_game by simp
  have l2: "lowcard_game lowcard_joined 7 = Some (the (lowcard_game lowcard_joined 7)) \<and>
            30001 > joinDeadline (the (lowcard_game lowcard_joined 7))"
    using lowcard_joined_game by simp
  have d3: "dice_joinGame 12 7 4 ''dee'' dice_joined =
             (Inr (JoinOk 4 400 900), snd (dice_joinGame 12 7 4 ''dee'' dice_joined))"
    using dice_join4_eval by (simp add: prod_eq_iff)
  have l3: "lowcard_joinGame 12 7 4 ''dee'' lowcard_joined =
             (Inr (JoinOk 4 200 950), snd (lowcard_joinGame 12 7 4 ''dee'' lowcard_joined))"
    using lowcard_join4_eval by (simp add: prod_eq_iff)
  show ?thesis
    using T1[OF d1, of 10 "''bob''"] T2[OF l1, of 10 "''bob''"]
          T3[OF d2, of 4 "''dee''"] T4[OF l2, of 4 "''dee''"]
          T5[OF d3] T6[OF l3]
          T7[OF conjI[OF dice_started_eval dice_joined_eval]]
          T8[OF conjI[OF lowcard_started_eval lowcard_joined_eval]]
          d1 l1 d2 l2 dice_join4_eval lowcard_join4_eval
          dice_started_eval dice_joined_eval lowcard_started_eval lowcard_joined_eval
    by blast
qed

section \<open>Dice rounds\<close>

lemma find_update_first:
  "find P xs = Some p \<Longrightarrow> P (f p) \<Longrightarrow> find P (update_first P f xs) = Some (f p)"
  by (induction xs) (auto split: if_splits)

lemma find_update_first_other:
  "(\<And>x. P x \<Longrightarrow> \<not> Q x \<and> \<not> Q (f x)) \<Longrightarrow> find Q (update_first P f xs) = find Q xs"
  by (induction xs) auto

lemma find_map_Some:
  "find P xs = Some p \<Longrightarrow> P (h p) \<Longrightarrow> (\<And>x. P (h x) \<Longrightarrow> P x) \<Longrightarrow>
     find P (map h xs) = Some (h p)"
  by (induction xs) (auto split: if_splits)

lemma find_Some_holds: "find P xs = Some p \<Longrightarrow> P p \<and> p \<in> set xs"
  by (induction xs) (auto split: if_splits)

lemma apply_roll_fields:
  "userId (apply_roll t a b p) = userId p \<and> isEliminated (apply_roll t a b p) = isEliminated p \<and>
   hasImmunity (apply_roll t a b p) = hasImmunity p \<and> hasRolled (apply_roll t a b p) \<and>
   earnedImmunity (apply_roll t a b p) = (earnedImmunity p \<or> (a = 6 \<and> b = 6)) \<and>
   isIn (apply_roll t a b p) = Some (target_total t \<le> a + b \<or> hasImmunity p)"
  by (auto simp: apply_roll_def rollDice_def isDoubleSix_def Let_def)

lemma roll_ok:
  assumes "dicebot_game w r = Some g" "status g = playing" "botTarget g = Some t"
    "dice_player_of u g = Some p" "\<not> hasRolled p"
  shows "\<exists>ok w' g'. dice_rollPlayerDice r u a b w = (Inr ok, w') \<and>
           dicebot_game w' r = Some g' \<and>
           w' = w\<lparr>dicebot_game := (dicebot_game w)(r \<mapsto> g')\<rparr> \<and>
           roll_isIn ok = (target_total t \<le> a + b \<or> hasImmunity p) \<and>
           gotDoubleSix ok = (a = 6 \<and> b = 6) \<and>
           status g' = playing \<and> botTarget g' = Some t \<and>
           dice_player_of u g' = Some (apply_roll t a b p)"
proof -
  from find_Some_holds[OF assms(4)] have P: "userId p = u \<and> \<not> isEliminated p" by simp
  have f: "find (\<lambda>p. userId p = u \<and> \<not> isEliminated p)
             (update_first (\<lambda>p. userId p = u \<and> \<not> isEliminated p) (apply_roll t a b) (players g))
           = Some (apply_roll t a b p)"
    by (rule find_update_first[OF assms(4)]) (simp add: apply_roll_fields P)
  show ?thesis
    using assms f
    by (simp add: dice_rollPlayerDice_def Let_def apply_roll_fields isDoubleSix_def)
qed

lemma next_round_fields:
  "userId (next_round_player p) = userId p \<and>
   isEliminated (next_round_player p) = isEliminated p \<and>
   (\<not> isEliminated p \<longrightarrow>
      hasImmunity (next_round_player p) = (earnedImmunity p \<or> hasImmunity p) \<and>
      \<not> earnedImmunity (next_round_player p) \<and> \<not> hasRolled (next_round_player p) \<and>
      isIn (next_round_player p) = None)"
  by (simp add: next_round_player_def Let_def)

lemma next_round_ok:
  assumes "dicebot_game w r = Some g" "status g = playing" "dice_player_of u g = Some p"
  shows "\<exists>w' g'. dice_startNextRound r a b w =
             (Some (currentRound g + 1, BotTarget a b (a + b)), w') \<and>
           dicebot_game w' r = Some g' \<and>
           w' = w\<lparr>dicebot_game := (dicebot_game w)(r \<mapsto> g')\<rparr> \<and>
           status g' = playing \<and> botTarget g' = Some (BotTarget a b (a + b)) \<and>
           dice_player_of u g' = Some (next_round_player p)"
proof -
  from find_Some_holds[OF assms(3)] have P: "userId p = u \<and> \<not> isEliminated p" by simp
  have f: "find (\<lambda>p. userId p = u \<and> \<not> isEliminated p) (map next_round_player (players g))
           = Some (next_round_player p)"
    by (rule find_map_Some[OF assms(3)]) (simp_all add: next_round_fields P)
  show ?thesis
    using assms f by (simp add: dice_startNextRound_def rollDice_def Let_def)
qed

lemma addCredits_frame:
  "addCredits u a n rsn w = (cr, w') \<Longrightarrow>
     dicebot_game w' = dicebot_game w \<and> lowcard_game w' = lowcard_game w \<and>
     dicebot_lock w' = dicebot_lock w \<and> lowcard_lock w' = lowcard_lock w \<and>
     tagged w' = tagged w \<and> big_game w' = big_game w \<and>
     lowcard_deck w' = lowcard_deck w \<and> dicebot_bot w' = dicebot_bot w \<and>
     lowcard_bot w' = lowcard_bot w \<and> activeGameType w' = activeGameType w"
  by (auto simp: addCredits_def logGameTransaction_def Let_def split: option.splits if_splits)

lemma addCredits_balance:
  "users_credits w u = Some bal \<Longrightarrow>
     fst (addCredits u a n rsn w) = CreditOk (bal + a) \<and>
     users_credits (snd (addCredits u a n rsn w)) = (users_credits w)(u \<mapsto> bal + a)"
  by (simp add: addCredits_def logGameTransaction_def Let_def)

lemma find_filter_nonempty: "filter P xs \<noteq> [] \<Longrightarrow> \<exists>x. find P xs = Some x"
  by (induction xs) (auto split: if_splits)

lemma find_hd_filter: "filter P xs \<noteq> [] \<Longrightarrow> find P xs = Some (hd (filter P xs))"
  by (induction xs) (auto split: if_splits)

lemma dice_finalize_ok:
  assumes "dicebot_game w r = Some g" "filter (\<lambda>p. \<not> isEliminated p) (players g) \<noteq> []"
  shows "\<exists>res w' g'. dice_finalizeGame now r w = (res, w') \<and> dicebot_game w' r = Some g' \<and>
           players g' = players g \<and> status g' = finished \<and>
           res = GameOver (userId (hd (filter (\<lambda>p. \<not> isEliminated p) (players g)))) (pot g)
                   (pot g - dice_house_fee (pot g)) (dice_house_fee (pot g))
                   (credit_balance (fst (addCredits
                      (userId (hd (filter (\<lambda>p. \<not> isEliminated p) (players g))))
                      (pot g - dice_house_fee (pot g))
                      (username (hd (filter (\<lambda>p. \<not> isEliminated p) (players g))))
                      (Win DiceBot (pot g - dice_house_fee (pot g))) w))) \<and>
           users_credits w' = users_credits (snd (addCredits
                      (userId (hd (filter (\<lambda>p. \<not> isEliminated p) (players g))))
                      (pot g - dice_house_fee (pot g))
                      (username (hd (filter (\<lambda>p. \<not> isEliminated p) (players g))))
                      (Win DiceBot (pot g - dice_house_fee (pot g))) w))"
  using assms find_hd_filter[OF assms(2)]
  by (auto simp: dice_finalizeGame_def Let_def HOUSE_FEE_PERCENT_def split: prod.splits
        dest!: addCredits_frame)

lemma tally_players:
  assumes "dicebot_game w r = Some g" "status g = playing"
  shows "\<exists>res w' g'. dice_tallyRound now r w = (res, w') \<and> dicebot_game w' r = Some g' \<and>
           (if filter (\<lambda>p. isIn p = Some True) (filter (\<lambda>p. \<not> isEliminated p) (players g)) = []
            then players g' = map (reset_roll \<circ> clear_immunity) (players g)
            else players g' = map (eliminate_out \<circ> clear_immunity) (players g))"
proof (cases "filter (\<lambda>p. isIn p = Some True) (filter (\<lambda>p. \<not> isEliminated p) (players g)) = []")
  case True
  then show ?thesis using assms by (simp add: dice_tallyRound_def Let_def)
next
  case False
  let ?g1 = "g\<lparr>players := map eliminate_out (map clear_immunity (players g))\<rparr>"
  let ?w1 = "w\<lparr>dicebot_game := (dicebot_game w)(r \<mapsto> ?g1)\<rparr>"
  show ?thesis
  proof (cases "length (filter (\<lambda>p. \<not> isEliminated p) (players ?g1)) = 1")
    case one: True
    have ne: "filter (\<lambda>p. \<not> isEliminated p) (players ?g1) \<noteq> []"
    proof
      assume "filter (\<lambda>p. \<not> isEliminated p) (players ?g1) = []"
      then have "length (filter (\<lambda>p. \<not> isEliminated p) (players ?g1)) = 0"
        by (simp only: list.size)
      with one show False by linarith
    qed
    have "dicebot_game ?w1 r = Some ?g1" by simp
    from dice_finalize_ok[OF this ne, of now] obtain res w' g' where
      "dice_finalizeGame now r ?w1 = (res, w')" "dicebot_game w' r = Some g'"
      "players g' = players ?g1" by blast
    then show ?thesis using assms False one
      by (simp add: dice_tallyRound_def Let_def)
  next
    case notone: False
    then show ?thesis using assms False
      by (simp add: dice_tallyRound_def Let_def)
  qed
qed

lemma tally_fields:
  "userId (clear_immunity p) = userId p \<and> isEliminated (clear_immunity p) = isEliminated p \<and>
   isIn (clear_immunity p) = isIn p \<and> earnedImmunity (clear_immunity p) = earnedImmunity p \<and>
   (\<not> isEliminated p \<longrightarrow> \<not> hasImmunity (clear_immunity p)) \<and>
   userId (eliminate_out p) = userId p \<and> hasImmunity (eliminate_out p) = hasImmunity p \<and>
   earnedImmunity (eliminate_out p) = earnedImmunity p \<and>
   (isEliminated p \<longrightarrow> isEliminated (eliminate_out p)) \<and>
   (isIn p = Some True \<longrightarrow> eliminate_out p = p) \<and>
   userId (reset_roll p) = userId p \<and> hasImmunity (reset_roll p) = hasImmunity p \<and>
   isEliminated (reset_roll p) = isEliminated p"
  by (simp add: clear_immunity_def eliminate_out_def reset_roll_def)

lemma tally_keeps_in_player:
  assumes "dicebot_game w r = Some g" "status g = playing"
    "dice_player_of u g = Some p" "isIn p = Some True"
  shows "\<exists>res w' g'. dice_tallyRound now r w = (res, w') \<and> dicebot_game w' r = Some g' \<and>
           dice_player_of u g' = Some (p\<lparr>hasImmunity := False\<rparr>)"
proof -
  from find_Some_holds[OF assms(3)] have P: "userId p = u" "\<not> isEliminated p" "p \<in> set (players g)"
    by simp_all
  have ne: "filter (\<lambda>p. isIn p = Some True) (filter (\<lambda>p. \<not> isEliminated p) (players g)) \<noteq> []"
    using P assms(4) by (auto simp: filter_empty_conv)
  have hp: "(eliminate_out \<circ> clear_immunity) p = p\<lparr>hasImmunity := False\<rparr>"
    using P assms(4) by (simp add: clear_immunity_def eliminate_out_def)
  have f: "find (\<lambda>p. userId p = u \<and> \<not> isEliminated p)
             (map (eliminate_out \<circ> clear_immunity) (players g)) =
           Some ((eliminate_out \<circ> clear_immunity) p)"
  proof (rule find_map_Some[OF assms(3)])
    show "userId ((eliminate_out \<circ> clear_immunity) p) = u \<and>
          \<not> isEliminated ((eliminate_out \<circ> clear_immunity) p)"
      using P hp by simp
  next
    fix x
    assume "userId ((eliminate_out \<circ> clear_immunity) x) = u \<and>
            \<not> isEliminated ((eliminate_out \<circ> clear_immunity) x)"
    then show "userId x = u \<and> \<not> isEliminated x"
      by (auto simp: clear_immunity_def eliminate_out_def split: if_splits)
  qed
  from tally_players[OF assms(1,2), of now] ne f hp show ?thesis by auto
qed

lemma tally_clears_all:
  assumes "dicebot_game w r = Some g" "status g = playing"
  shows "\<exists>res w' g'. dice_tallyRound now r w = (res, w') \<and> dicebot_game w' r = Some g' \<and>
           (\<forall>q \<in> set (players g'). \<not> isEliminated q \<longrightarrow> \<not> hasImmunity q)"
proof -
  from tally_players[OF assms, of now] obtain res w' g' where
    t: "dice_tallyRound now r w = (res, w')" "dicebot_game w' r = Some g'"
       "players g' = map (reset_roll \<circ> clear_immunity) (players g) \<or>
        players g' = map (eliminate_out \<circ> clear_immunity) (players g)"
    by (auto split: if_splits)
  have "\<forall>q \<in> set (players g'). \<not> isEliminated q \<longrightarrow> \<not> hasImmunity q"
    using t(3)
    by (auto simp: clear_immunity_def eliminate_out_def reset_roll_def split: if_splits)
  with t show ?thesis by blast
qed

lemmas dice_round_defs =
  dice_startNextRound_def dice_rollPlayerDice_def dice_autoRollForTimeout_def
  dice_tallyRound_def dice_finalizeGame_def rollDice_def isDoubleSix_def apply_roll_def
  next_round_player_def clear_immunity_def reset_roll_def eliminate_out_def
  dice_house_fee_div

lemmas dice_run_defs =
  dice_round1_def dice_round1_rolled_def dice_round2_def dice_round2_rolled_def
  dice_round3_def dice_round3_rolled_def

lemma dice_round1_flags: "dice_flags dice_round1 =
   [(1, False, None, False, False, False), (2, False, None, False, False, False),
    (3, False, None, False, False, False)]"
  by (simp add: dice_flags_def dice_run_defs dice_round_defs sample_defs dice_defs ledger_defs)

lemma dice_round1_rolled_flags: "dice_flags dice_round1_rolled =
   [(1, False, Some True, True, False, True), (2, False, Some True, True, False, False),
    (3, False, Some False, True, False, False)]"
  by (simp add: dice_flags_def dice_run_defs dice_round_defs sample_defs dice_defs ledger_defs)

lemma dice_round2_flags: "dice_flags dice_round2 =
   [(1, False, None, False, True, False), (2, False, None, False, False, False),
    (3, True, Some False, True, False, False)]"
  by (simp add: dice_flags_def dice_run_defs dice_round_defs sample_defs dice_defs ledger_defs)

lemma dice_round2_rolled_flags: "dice_flags dice_round2_rolled =
   [(1, False, Some True, True, True, False), (2, False, Some True, True, False, True),
    (3, True, Some False, True, False, False)]"
  by (simp add: dice_flags_def dice_run_defs dice_round_defs sample_defs dice_defs ledger_defs)

lemma dice_round3_flags: "dice_flags dice_round3 =
   [(1, False, None, False, False, False), (2, False, None, False, True, False),
    (3, True, Some False, True, False, False)]"
  by (simp add: dice_flags_def dice_run_defs dice_round_defs sample_defs dice_defs ledger_defs)

lemma dice_round3_rolled_flags: "dice_flags dice_round3_rolled =
   [(1, False, Some False, True, False, False), (2, False, Some True, True, True, False),
    (3, True, Some False, True, False, False)]"
  by (simp add: dice_flags_def dice_run_defs dice_round_defs sample_defs dice_defs ledger_defs)

lemma dice_round3_tally_eval: "fst (dice_tallyRound 120000 7 dice_round3_rolled) = GameOver 2 300 270 30 1170"
  by (simp add: dice_flags_def dice_run_defs dice_round_defs sample_defs dice_defs ledger_defs)

lemma other_roll_frame:
  assumes "dicebot_game w r = Some g" "v \<noteq> u"
  shows "\<exists>g'. dicebot_game (snd (dice_rollPlayerDice r v a b w)) r = Some g' \<and>
           status g' = status g \<and> botTarget g' = botTarget g \<and>
           dice_player_of u g' = dice_player_of u g"
proof -
  have "find (\<lambda>p. userId p = u \<and> \<not> isEliminated p)
          (update_first (\<lambda>p. userId p = v \<and> \<not> isEliminated p) (apply_roll t a b) (players g)) =
        find (\<lambda>p. userId p = u \<and> \<not> isEliminated p) (players g)" for t
    by (rule find_update_first_other) (use assms(2) in \<open>simp add: apply_roll_fields\<close>)
  then show ?thesis
    using assms(1)
    by (simp add: dice_rollPlayerDice_def Let_def split: option.splits)
qed

lemmas dice_eval_defs =
  dice_run_defs dice_round_defs sample_defs dice_defs ledger_defs

lemma c6_hyp1: "\<exists>g t p. dicebot_game dice_round1 7 = Some g \<and> status g = playing \<and>
     botTarget g = Some t \<and> target_total t \<le> 12 \<and> dice_player_of 1 g = Some p \<and>
     \<not> hasRolled p"
  by (simp add: dice_eval_defs)

lemma c6_hyp2: "\<exists>g. dicebot_game dice_begun 7 = Some g \<and> status g = playing \<and>
     (4::nat) \<le> 6 \<and> (5::nat) \<le> 6"
  by (simp add: dice_eval_defs)

lemma c6_hyp3: "\<exists>g p. dicebot_game dice_round1_rolled 7 = Some g \<and> status g = playing \<and>
     dice_player_of 1 g = Some p \<and> isIn p = Some True \<and> earnedImmunity p"
  by (simp add: dice_eval_defs)

lemma c6_hyp4: "\<exists>g. dicebot_game dice_round2_rolled 7 = Some g \<and> status g = playing"
  by (simp add: dice_eval_defs)

lemma c6_hyp5: "\<exists>g p. dicebot_game (snd (dice_tallyRound 60000 7 dice_round1_rolled)) 7 = Some g \<and>
     status g = playing \<and> dice_player_of 1 g = Some p \<and> earnedImmunity p \<and> \<not> hasImmunity p"
  by (simp add: dice_eval_defs)

lemma c6_hyp6: "\<exists>g t p. dicebot_game dice_round2 7 = Some g \<and> status g = playing \<and>
     botTarget g = Some t \<and> target_total t = 12 \<and> dice_player_of 1 g = Some p \<and>
     \<not> hasRolled p \<and> hasImmunity p \<and> \<not> earnedImmunity p"
  by (simp add: dice_eval_defs)

lemma c6_hyp7: "\<exists>g. dicebot_game dice_round1 7 = Some g \<and> (2::nat) \<noteq> 1"
  by (simp add: dice_eval_defs)

section \<open>C6: double six\<close>

text \<open>
  C6. A player who has not rolled and rolls (6,6) against a target of at most 12 (every
  target that \<^verbatim>\<open>startNextRound\<close> makes from two dice) is marked in and has earned
  immunity. The tally keeps a player who is in, keeps the earned flag and leaves no
  immunity active on any remaining player. The next round turns the earned flag into the
  active immunity and clears the earned flag, so a player without an earned flag starts
  the round without immunity. A player who rolls while immune is in whatever the dice
  are, and earns again only by another (6,6). The flags are booleans, so immunity never
  covers more than the one following round. Rolls of other users do not touch the
  player's record.
\<close>

theorem double_six_immunity:
  "(\<forall>r u w g t p.
      dicebot_game w r = Some g \<and> status g = playing \<and> botTarget g = Some t \<and>
      target_total t \<le> 12 \<and> dice_player_of u g = Some p \<and> \<not> hasRolled p \<longrightarrow>
      (\<exists>ok w' g' p'. dice_rollPlayerDice r u 6 6 w = (Inr ok, w') \<and> roll_isIn ok \<and>
         gotDoubleSix ok \<and> dicebot_game w' r = Some g' \<and> status g' = playing \<and>
         dice_player_of u g' = Some p' \<and> isIn p' = Some True \<and> earnedImmunity p')) \<and>
   (\<forall>r a b w g.
      dicebot_game w r = Some g \<and> status g = playing \<and> a \<le> 6 \<and> b \<le> 6 \<longrightarrow>
      (\<exists>n t w' g'. dice_startNextRound r a b w = (Some (n, t), w') \<and>
         dicebot_game w' r = Some g' \<and> botTarget g' = Some t \<and> target_total t \<le> 12)) \<and>
   (\<forall>now r u w g p.
      dicebot_game w r = Some g \<and> status g = playing \<and> dice_player_of u g = Some p \<and>
      isIn p = Some True \<longrightarrow>
      (\<exists>res w' g' p'. dice_tallyRound now r w = (res, w') \<and> dicebot_game w' r = Some g' \<and>
         dice_player_of u g' = Some p' \<and> earnedImmunity p' = earnedImmunity p \<and>
         \<not> hasImmunity p')) \<and>
   (\<forall>now r w g.
      dicebot_game w r = Some g \<and> status g = playing \<longrightarrow>
      (\<exists>res w' g'. dice_tallyRound now r w = (res, w') \<and> dicebot_game w' r = Some g' \<and>
         (\<forall>q \<in> set (players g'). \<not> isEliminated q \<longrightarrow> \<not> hasImmunity q))) \<and>
   (\<forall>r u a b w g p.
      dicebot_game w r = Some g \<and> status g = playing \<and> dice_player_of u g = Some p \<longrightarrow>
      (\<exists>res w' g' p'. dice_startNextRound r a b w = (res, w') \<and>
         dicebot_game w' r = Some g' \<and> status g' = playing \<and> botTarget g' \<noteq> None \<and>
         dice_player_of u g' = Some p' \<and>
         hasImmunity p' = (earnedImmunity p \<or> hasImmunity p) \<and>
         \<not> earnedImmunity p' \<and> \<not> hasRolled p')) \<and>
   (\<forall>r u a b w g t p.
      dicebot_game w r = Some g \<and> status g = playing \<and> botTarget g = Some t \<and>
      dice_player_of u g = Some p \<and> \<not> hasRolled p \<and> hasImmunity p \<longrightarrow>
      (\<exists>ok w' g' p'. dice_rollPlayerDice r u a b w = (Inr ok, w') \<and> roll_isIn ok \<and>
         dicebot_game w' r = Some g' \<and> status g' = playing \<and>
         dice_player_of u g' = Some p' \<and> isIn p' = Some True \<and>
         earnedImmunity p' = (earnedImmunity p \<or> (a = 6 \<and> b = 6)))) \<and>
   (\<forall>r u v a b w g.
      dicebot_game w r = Some g \<and> v \<noteq> u \<longrightarrow>
      (\<exists>g'. dicebot_game (snd (dice_rollPlayerDice r v a b w)) r = Some g' \<and>
         status g' = status g \<and> botTarget g' = botTarget g \<and>
         dice_player_of u g' = dice_player_of u g))"
proof (intro conjI allI impI)
  fix r u and w :: world and g :: dice_game and t p
  assume a: "dicebot_game w r = Some g \<and> status g = playing \<and> botTarget g = Some t \<and>
      target_total t \<le> 12 \<and> dice_player_of u g = Some p \<and> \<not> hasRolled p"
  from roll_ok[of w r g t u p 6 6] a
  show "\<exists>ok w' g' p'. dice_rollPlayerDice r u 6 6 w = (Inr ok, w') \<and> roll_isIn ok \<and>
         gotDoubleSix ok \<and> dicebot_game w' r = Some g' \<and> status g' = playing \<and>
         dice_player_of u g' = Some p' \<and> isIn p' = Some True \<and> earnedImmunity p'"
    by (auto simp: apply_roll_fields)
next
  fix r and a b :: nat and w :: world and g :: dice_game
  assume "dicebot_game w r = Some g \<and> status g = playing \<and> a \<le> 6 \<and> b \<le> 6"
  then show "\<exists>n t w' g'. dice_startNextRound r a b w = (Some (n, t), w') \<and>
         dicebot_game w' r = Some g' \<and> botTarget g' = Some t \<and> target_total t \<le> 12"
    by (simp add: dice_startNextRound_def rollDice_def Let_def)
next
  fix now r u and w :: world and g :: dice_game and p
  assume a: "dicebot_game w r = Some g \<and> status g = playing \<and> dice_player_of u g = Some p \<and>
      isIn p = Some True"
  from tally_keeps_in_player[of w r g u p now] a
  show "\<exists>res w' g' p'. dice_tallyRound now r w = (res, w') \<and> dicebot_game w' r = Some g' \<and>
         dice_player_of u g' = Some p' \<and> earnedImmunity p' = earnedImmunity p \<and>
         \<not> hasImmunity p'"
    by auto
next
  fix now r and w :: world and g :: dice_game
  assume a: "dicebot_game w r = Some g \<and> status g = playing"
  from tally_clears_all[of w r g now] a
  show "\<exists>res w' g'. dice_tallyRound now r w = (res, w') \<and> dicebot_game w' r = Some g' \<and>
         (\<forall>q \<in> set (players g'). \<not> isEliminated q \<longrightarrow> \<not> hasImmunity q)"
    by blast
next
  fix r u a b and w :: world and g :: dice_game and p
  assume a: "dicebot_game w r = Some g \<and> status g = playing \<and> dice_player_of u g = Some p"
  then have ne: "\<not> isEliminated p" using find_Some_holds[of _ "players g" p] by blast
  from next_round_ok[of w r g u p a b] a ne
  show "\<exists>res w' g' p'. dice_startNextRound r a b w = (res, w') \<and>
         dicebot_game w' r = Some g' \<and> status g' = playing \<and> botTarget g' \<noteq> None \<and>
         dice_player_of u g' = Some p' \<and>
         hasImmunity p' = (earnedImmunity p \<or> hasImmunity p) \<and>
         \<not> earnedImmunity p' \<and> \<not> hasRolled p'"
    by (auto simp: next_round_fields)
next
  fix r u a b and w :: world and g :: dice_game and t p
  assume a: "dicebot_game w r = Some g \<and> status g = playing \<and> botTarget g = Some t \<and>
      dice_player_of u g = Some p \<and> \<not> hasRolled p \<and> hasImmunity p"
  from roll_ok[of w r g t u p a b] a
  show "\<exists>ok w' g' p'. dice_rollPlayerDice r u a b w = (Inr ok, w') \<and> roll_isIn ok \<and>
         dicebot_game w' r = Some g' \<and> status g' = playing \<and>
         dice_player_of u g' = Some p' \<and> isIn p' = Some True \<and>
         earnedImmunity p' = (earnedImmunity p \<or> (a = 6 \<and> b = 6))"
    by (auto simp: apply_roll_fields)
next
  fix r and u v :: uid and a b and w :: world and g :: dice_game
  assume "dicebot_game w r = Some g \<and> v \<noteq> u"
  then show "\<exists>g'. dicebot_game (snd (dice_rollPlayerDice r v a b w)) r = Some g' \<and>
         status g' = status g \<and> botTarget g' = botTarget g \<and>
         dice_player_of u g' = dice_player_of u g"
    using other_roll_frame by blast
qed

theorem double_six_immunity_witness:
  "(\<exists>g t p. (dicebot_game dice_round1 7 = Some g \<and> status g = playing \<and>
      botTarget g = Some t \<and> target_total t \<le> 12 \<and> dice_player_of 1 g = Some p \<and>
      \<not> hasRolled p) \<and>
      (\<exists>ok w' g' p'. dice_rollPlayerDice 7 1 6 6 dice_round1 = (Inr ok, w') \<and> roll_isIn ok \<and>
         gotDoubleSix ok \<and> dicebot_game w' 7 = Some g' \<and> status g' = playing \<and>
         dice_player_of 1 g' = Some p' \<and> isIn p' = Some True \<and> earnedImmunity p')) \<and>
   (\<exists>g. (dicebot_game dice_begun 7 = Some g \<and> status g = playing \<and>
      (4::nat) \<le> 6 \<and> (5::nat) \<le> 6) \<and>
      (\<exists>n t w' g'. dice_startNextRound 7 4 5 dice_begun = (Some (n, t), w') \<and>
         dicebot_game w' 7 = Some g' \<and> botTarget g' = Some t \<and> target_total t \<le> 12)) \<and>
   (\<exists>g p. (dicebot_game dice_round1_rolled 7 = Some g \<and> status g = playing \<and>
      dice_player_of 1 g = Some p \<and> isIn p = Some True) \<and> earnedImmunity p \<and>
      (\<exists>res w' g' p'. dice_tallyRound 60000 7 dice_round1_rolled = (res, w') \<and>
         dicebot_game w' 7 = Some g' \<and> dice_player_of 1 g' = Some p' \<and>
         earnedImmunity p' = earnedImmunity p \<and> \<not> hasImmunity p')) \<and>
   (\<exists>g. (dicebot_game dice_round2_rolled 7 = Some g \<and> status g = playing) \<and>
      (\<exists>res w' g'. dice_tallyRound 90000 7 dice_round2_rolled = (res, w') \<and>
         dicebot_game w' 7 = Some g' \<and>
         list_all (\<lambda>q. isEliminated q \<or> \<not> hasImmunity q) (players g'))) \<and>
   (\<exists>g p. (dicebot_game (snd (dice_tallyRound 60000 7 dice_round1_rolled)) 7 = Some g \<and>
      status g = playing \<and> dice_player_of 1 g = Some p) \<and> earnedImmunity p \<and>
      \<not> hasImmunity p \<and>
      (\<exists>res w' g' p'.
         dice_startNextRound 7 6 6 (snd (dice_tallyRound 60000 7 dice_round1_rolled)) = (res, w') \<and>
         dicebot_game w' 7 = Some g' \<and> status g' = playing \<and> botTarget g' \<noteq> None \<and>
         dice_player_of 1 g' = Some p' \<and>
         hasImmunity p' = (earnedImmunity p \<or> hasImmunity p) \<and>
         \<not> earnedImmunity p' \<and> \<not> hasRolled p')) \<and>
   (\<exists>g t p. (dicebot_game dice_round2 7 = Some g \<and> status g = playing \<and>
      botTarget g = Some t \<and> dice_player_of 1 g = Some p \<and> \<not> hasRolled p \<and>
      hasImmunity p) \<and> target_total t = 12 \<and> \<not> earnedImmunity p \<and>
      (\<exists>ok w' g' p'. dice_rollPlayerDice 7 1 1 2 dice_round2 = (Inr ok, w') \<and> roll_isIn ok \<and>
         dicebot_game w' 7 = Some g' \<and> status g' = playing \<and>
         dice_player_of 1 g' = Some p' \<and> isIn p' = Some True \<and>
         earnedImmunity p' = (earnedImmunity p \<or> ((1::nat) = 6 \<and> (2::nat) = 6)))) \<and>
   (\<exists>g. (dicebot_game dice_round1 7 = Some g \<and> (2::nat) \<noteq> 1) \<and>
      (\<exists>g'. dicebot_game (snd (dice_rollPlayerDice 7 2 5 5 dice_round1)) 7 = Some g' \<and>
         status g' = status g \<and> botTarget g' = botTarget g \<and>
         dice_player_of 1 g' = dice_player_of 1 g)) \<and>
   dice_flags dice_round1_rolled =
     [(1, False, Some True, True, False, True), (2, False, Some True, True, False, False),
      (3, False, Some False, True, False, False)] \<and>
   dice_flags dice_round2 =
     [(1, False, None, False, True, False), (2, False, None, False, False, False),
      (3, True, Some False, True, False, False)] \<and>
   dice_flags dice_round2_rolled =
     [(1, False, Some True, True, True, False), (2, False, Some True, True, False, True),
      (3, True, Some False, True, False, False)] \<and>
   dice_flags dice_round3 =
     [(1, False, None, False, False, False), (2, False, None, False, True, False),
      (3, True, Some False, True, False, False)] \<and>
   dice_flags dice_round3_rolled =
     [(1, False, Some False, True, False, False), (2, False, Some True, True, True, False),
      (3, True, Some False, True, False, False)]"
proof -
  note T = double_six_immunity
  note T1 = T[THEN conjunct1, rule_format]
  note T2 = T[THEN conjunct2, THEN conjunct1, rule_format]
  note T3 = T[THEN conjunct2, THEN conjunct2, THEN conjunct1, rule_format]
  note T4 = T[THEN conjunct2, THEN conjunct2, THEN conjunct2, THEN conjunct1, rule_format]
  note T5 = T[THEN conjunct2, THEN conjunct2, THEN conjunct2, THEN conjunct2, THEN conjunct1,
              rule_format]
  note T6 = T[THEN conjunct2, THEN conjunct2, THEN conjunct2, THEN conjunct2, THEN conjunct2,
              THEN conjunct1, rule_format]
  note T7 = T[THEN conjunct2, THEN conjunct2, THEN conjunct2, THEN conjunct2, THEN conjunct2,
              THEN conjunct2, rule_format]
  have c1: "\<exists>g t p. (dicebot_game dice_round1 7 = Some g \<and> status g = playing \<and>
      botTarget g = Some t \<and> target_total t \<le> 12 \<and> dice_player_of 1 g = Some p \<and>
      \<not> hasRolled p) \<and>
      (\<exists>ok w' g' p'. dice_rollPlayerDice 7 1 6 6 dice_round1 = (Inr ok, w') \<and> roll_isIn ok \<and>
         gotDoubleSix ok \<and> dicebot_game w' 7 = Some g' \<and> status g' = playing \<and>
         dice_player_of 1 g' = Some p' \<and> isIn p' = Some True \<and> earnedImmunity p')"
  proof -
    from c6_hyp1 obtain g t p where h: "dicebot_game dice_round1 7 = Some g \<and> status g = playing \<and>
      botTarget g = Some t \<and> target_total t \<le> 12 \<and> dice_player_of 1 g = Some p \<and>
      \<not> hasRolled p" by blast
    from T1[OF h] h show ?thesis by blast
  qed
  have c2: "\<exists>g. (dicebot_game dice_begun 7 = Some g \<and> status g = playing \<and>
      (4::nat) \<le> 6 \<and> (5::nat) \<le> 6) \<and>
      (\<exists>n t w' g'. dice_startNextRound 7 4 5 dice_begun = (Some (n, t), w') \<and>
         dicebot_game w' 7 = Some g' \<and> botTarget g' = Some t \<and> target_total t \<le> 12)"
  proof -
    from c6_hyp2 obtain g where h: "dicebot_game dice_begun 7 = Some g \<and> status g = playing \<and>
      (4::nat) \<le> 6 \<and> (5::nat) \<le> 6" by blast
    from T2[OF h] h show ?thesis by blast
  qed
  have c3: "\<exists>g p. (dicebot_game dice_round1_rolled 7 = Some g \<and> status g = playing \<and>
      dice_player_of 1 g = Some p \<and> isIn p = Some True) \<and> earnedImmunity p \<and>
      (\<exists>res w' g' p'. dice_tallyRound 60000 7 dice_round1_rolled = (res, w') \<and>
         dicebot_game w' 7 = Some g' \<and> dice_player_of 1 g' = Some p' \<and>
         earnedImmunity p' = earnedImmunity p \<and> \<not> hasImmunity p')"
  proof -
    from c6_hyp3 obtain g p where h: "dicebot_game dice_round1_rolled 7 = Some g \<and>
      status g = playing \<and> dice_player_of 1 g = Some p \<and> isIn p = Some True"
      and e: "earnedImmunity p" by blast
    from T3[OF h, of 60000] h e show ?thesis by blast
  qed
  have c4: "\<exists>g. (dicebot_game dice_round2_rolled 7 = Some g \<and> status g = playing) \<and>
      (\<exists>res w' g'. dice_tallyRound 90000 7 dice_round2_rolled = (res, w') \<and>
         dicebot_game w' 7 = Some g' \<and>
         list_all (\<lambda>q. isEliminated q \<or> \<not> hasImmunity q) (players g'))"
  proof -
    from c6_hyp4 obtain g where h: "dicebot_game dice_round2_rolled 7 = Some g \<and> status g = playing"
      by blast
    from T4[OF h, of 90000] h show ?thesis unfolding list_all_iff by blast
  qed
  have c5: "\<exists>g p. (dicebot_game (snd (dice_tallyRound 60000 7 dice_round1_rolled)) 7 = Some g \<and>
      status g = playing \<and> dice_player_of 1 g = Some p) \<and> earnedImmunity p \<and>
      \<not> hasImmunity p \<and>
      (\<exists>res w' g' p'.
         dice_startNextRound 7 6 6 (snd (dice_tallyRound 60000 7 dice_round1_rolled)) = (res, w') \<and>
         dicebot_game w' 7 = Some g' \<and> status g' = playing \<and> botTarget g' \<noteq> None \<and>
         dice_player_of 1 g' = Some p' \<and>
         hasImmunity p' = (earnedImmunity p \<or> hasImmunity p) \<and>
         \<not> earnedImmunity p' \<and> \<not> hasRolled p')"
  proof -
    from c6_hyp5 obtain g p where
      h: "dicebot_game (snd (dice_tallyRound 60000 7 dice_round1_rolled)) 7 = Some g \<and>
          status g = playing \<and> dice_player_of 1 g = Some p"
      and e: "earnedImmunity p" "\<not> hasImmunity p" by blast
    from T5[OF h, of 6 6] h e show ?thesis by blast
  qed
  have c6: "\<exists>g t p. (dicebot_game dice_round2 7 = Some g \<and> status g = playing \<and>
      botTarget g = Some t \<and> dice_player_of 1 g = Some p \<and> \<not> hasRolled p \<and>
      hasImmunity p) \<and> target_total t = 12 \<and> \<not> earnedImmunity p \<and>
      (\<exists>ok w' g' p'. dice_rollPlayerDice 7 1 1 2 dice_round2 = (Inr ok, w') \<and> roll_isIn ok \<and>
         dicebot_game w' 7 = Some g' \<and> status g' = playing \<and>
         dice_player_of 1 g' = Some p' \<and> isIn p' = Some True \<and>
         earnedImmunity p' = (earnedImmunity p \<or> ((1::nat) = 6 \<and> (2::nat) = 6)))"
  proof -
    from c6_hyp6 obtain g t p where h: "dicebot_game dice_round2 7 = Some g \<and> status g = playing \<and>
      botTarget g = Some t \<and> dice_player_of 1 g = Some p \<and> \<not> hasRolled p \<and>
      hasImmunity p" and e: "target_total t = 12" "\<not> earnedImmunity p" by blast
    from T6[OF h, of 1 2] h e show ?thesis by blast
  qed
  have c7: "\<exists>g. (dicebot_game dice_round1 7 = Some g \<and> (2::nat) \<noteq> 1) \<and>
      (\<exists>g'. dicebot_game (snd (dice_rollPlayerDice 7 2 5 5 dice_round1)) 7 = Some g' \<and>
         status g' = status g \<and> botTarget g' = botTarget g \<and>
         dice_player_of 1 g' = dice_player_of 1 g)"
  proof -
    from c6_hyp7 obtain g where h: "dicebot_game dice_round1 7 = Some g \<and> (2::nat) \<noteq> 1" by blast
    from T7[OF h, of 5 5] h show ?thesis by blast
  qed
  show ?thesis
    using c1 c2 c3 c4 c5 c6 c7 dice_round1_rolled_flags dice_round2_flags dice_round2_rolled_flags dice_round3_flags dice_round3_rolled_flags by blast
qed

section \<open>Card rounds\<close>

lemma filter_sub_singleton:
  assumes "filter Q xs = [x]" "P x" "\<And>y. P y \<Longrightarrow> Q y"
  shows "filter P xs = [x]"
proof -
  have "filter P xs = filter P (filter Q xs)"
    using assms(3) by (auto simp: filter_filter intro!: filter_cong)
  then show ?thesis using assms(1,2) by simp
qed

lemma length1_mem: "length (filter Q xs) = 1 \<Longrightarrow> x \<in> set xs \<Longrightarrow> Q x \<Longrightarrow> filter Q xs = [x]"
proof -
  assume a: "length (filter Q xs) = 1" "x \<in> set xs" "Q x"
  then obtain y where y: "filter Q xs = [y]" by (cases "filter Q xs") auto
  from a(2,3) have "x \<in> set (filter Q xs)" by simp
  with y show ?thesis by simp
qed

lemma strict_highest:
  fixes v :: "'a \<Rightarrow> nat"
  assumes "wn \<in> set xs" "length (filter (\<lambda>q. v wn \<le> v q) xs) = 1"
  shows "Max (set (map v xs)) = v wn \<and> filter (\<lambda>q. v q = v wn) xs = [wn]"
proof -
  have f: "filter (\<lambda>q. v wn \<le> v q) xs = [wn]"
    by (rule length1_mem[OF assms(2) assms(1)]) simp
  have le: "v q \<le> v wn" if "q \<in> set xs" for q
  proof (rule ccontr)
    assume "\<not> v q \<le> v wn"
    then have "q \<in> set (filter (\<lambda>q. v wn \<le> v q) xs)" using that by simp
    with f have "q = wn" by simp
    with \<open>\<not> v q \<le> v wn\<close> show False by simp
  qed
  have "Max (set (map v xs)) = v wn"
    by (rule Max_eqI) (use assms(1) le in auto)
  moreover have "filter (\<lambda>q. v q = v wn) xs = [wn]"
    by (rule filter_sub_singleton[OF f]) simp_all
  ultimately show ?thesis by simp
qed

lemma lowest_value:
  fixes v :: "'a \<Rightarrow> nat"
  assumes "lo \<in> set xs" "filter (\<lambda>q. v q < v lo) xs = []"
  shows "Min (set (map v xs)) = v lo"
proof (rule Min_eqI)
  show "finite (set (map v xs))" by simp
  show "v lo \<in> set (map v xs)" using assms(1) by simp
  fix y assume "y \<in> set (map v xs)"
  then obtain q where q: "q \<in> set xs" "y = v q" by auto
  show "v lo \<le> y"
  proof (rule ccontr)
    assume "\<not> v lo \<le> y"
    with q have "q \<in> set (filter (\<lambda>q. v q < v lo) xs)" by simp
    with assms(2) show False by simp
  qed
qed

lemma update_first_distinct:
  assumes "distinct (map userId ps)"
  shows "update_first (\<lambda>p. userId p = i) f ps = map (\<lambda>p. if userId p = i then f p else p) ps"
  using assms
proof (induction ps)
  case Nil
  then show ?case by simp
next
  case (Cons a ps)
  show ?case
  proof (cases "userId a = i")
    case True
    with Cons.prems have "\<forall>p \<in> set ps. userId p \<noteq> i" by (force simp: image_iff)
    then have "map (\<lambda>p. if userId p = i then f p else p) ps = ps"
      by (induction ps) auto
    with True show ?thesis by simp
  next
    case False
    with Cons show ?thesis by simp
  qed
qed

lemma eliminate_ids_distinct:
  "distinct (map userId ps) \<Longrightarrow>
     eliminate_ids ids ps =
       map (\<lambda>p. if userId p \<in> set ids then p\<lparr>isEliminated := True\<rparr> else p) ps"
proof (induction ids arbitrary: ps)
  case Nil
  then show ?case by simp
next
  case (Cons i ids)
  let ?ps1 = "map (\<lambda>p. if userId p = i then p\<lparr>isEliminated := True\<rparr> else p) ps"
  have m: "map userId ?ps1 = map userId ps" by (induction ps) auto
  have d: "distinct (map userId ?ps1)" unfolding m using Cons.prems .
  show ?case
    using Cons.IH[OF d] update_first_distinct[OF Cons.prems, of i]
    by (auto intro!: map_cong)
qed

lemma lowcard_payout_credit:
  assumes "users_credits w (userId wn) = Some bal"
  shows "\<exists>w'. lowcard_payout r wn g w =
            (LcGameOver (userId wn) (pot g - lowcard_commission (pot g)) (bal + (pot g - lowcard_commission (pot g))), w') \<and>
          users_credits w' = (users_credits w)(userId wn \<mapsto> bal + (pot g - lowcard_commission (pot g))) \<and>
          lowcard_game w' = (lowcard_game w)(r := None) \<and>
          lowcard_deck w' = (lowcard_deck w)(r := None) \<and>
          dicebot_game w' = dicebot_game w \<and> tagged w' = tagged w"
  using assms
  by (simp add: lowcard_payout_def addCredits_def logGameTransaction_def Let_def)

lemma winners_strict:
  assumes "wn \<in> set A" "length (filter (\<lambda>q. cardValue wn \<le> cardValue q) A) = 1"
  shows "winners A = [wn]"
  using strict_highest[OF assms] by (simp add: winners_def highestValue_def)

lemma losers_eq:
  assumes "lo \<in> set A" "filter (\<lambda>q. cardValue q < cardValue lo) A = []"
  shows "losers A = filter (\<lambda>q. cardValue q = cardValue lo) A"
  using lowest_value[OF assms] by (simp add: losers_def lowestValue_def)

lemma losers_eq_le:
  assumes "lo \<in> set A" "filter (\<lambda>q. cardValue q < cardValue lo) A = []"
  shows "losers A = filter (\<lambda>q. cardValue q \<le> cardValue lo) A"
proof -
  have "filter (\<lambda>q. cardValue q = cardValue lo) A = filter (\<lambda>q. cardValue q \<le> cardValue lo) A"
  proof (rule filter_cong[OF refl])
    fix q assume "q \<in> set A"
    with assms(2) have "\<not> cardValue q < cardValue lo" by (auto simp: filter_empty_conv)
    then show "(cardValue q = cardValue lo) = (cardValue q \<le> cardValue lo)" by auto
  qed
  with losers_eq[OF assms] show ?thesis by simp
qed

lemma losers_sub: "set (losers A) \<subseteq> set A"
  by (auto simp: losers_def)

lemma id_mem_distinct:
  assumes "distinct (map userId ps)" "set L \<subseteq> set ps" "p \<in> set ps"
  shows "(userId p \<in> set (map userId L)) = (p \<in> set L)"
proof -
  from assms(1) have inj: "inj_on userId (set ps)" by (simp add: distinct_map)
  show ?thesis
  proof
    assume "userId p \<in> set (map userId L)"
    then obtain l where l: "l \<in> set L" "userId l = userId p" by auto
    with assms(2) have "l \<in> set ps" by auto
    with inj assms(3) l(2) have "l = p" by (auto dest: inj_onD)
    with l(1) show "p \<in> set L" by simp
  next
    assume "p \<in> set L" then show "userId p \<in> set (map userId L)" by simp
  qed
qed

lemma reset_tied_distinct:
  assumes "distinct (map userId ps)" "set L \<subseteq> set ps" "\<forall>l \<in> set L. \<not> isEliminated l"
  shows "map (reset_tied L) ps = map (\<lambda>p. if p \<in> set L then reset_draw p else p) ps"
proof (rule map_cong[OF refl])
  fix p assume p: "p \<in> set ps"
  have "(find (\<lambda>l. userId l = userId p) L \<noteq> None) = (userId p \<in> set (map userId L))"
    by (induction L) auto
  also have "\<dots> = (p \<in> set L)" by (rule id_mem_distinct[OF assms(1,2) p])
  finally show "reset_tied L p = (if p \<in> set L then reset_draw p else p)"
    using assms(3) by (auto simp: reset_tied_def)
qed

lemma eliminate_distinct:
  assumes "distinct (map userId ps)" "set L \<subseteq> set ps"
  shows "eliminate_ids (map userId L) ps =
           map (\<lambda>p. if p \<in> set L then p\<lparr>isEliminated := True\<rparr> else p) ps"
proof -
  have "map (\<lambda>p. if userId p \<in> set (map userId L) then p\<lparr>isEliminated := True\<rparr> else p) ps =
        map (\<lambda>p. if p \<in> set L then p\<lparr>isEliminated := True\<rparr> else p) ps"
    by (rule map_cong[OF refl]) (simp only: id_mem_distinct[OF assms])
  with eliminate_ids_distinct[OF assms(1), of "map userId L"] show ?thesis by simp
qed

lemma remaining_after:
  "filter (\<lambda>p. \<not> isEliminated p)
     (map (\<lambda>p. if p \<in> set L then p\<lparr>isEliminated := True\<rparr> else p) ps) =
   filter (\<lambda>p. p \<notin> set L) (filter (\<lambda>p. \<not> isEliminated p) ps)"
  by (induction ps) auto

lemma tally_three_win:
  assumes "lowcard_game w r = Some g" "length (holders g) = 3" "wn \<in> set (holders g)"
    "length (filter (\<lambda>q. cardValue wn \<le> cardValue q) (holders g)) = 1"
  shows "lowcard_tallyRound now r False w = lowcard_payout r wn g w"
  using assms(1,2) winners_strict[OF assms(3,4)]
  by (auto simp: lowcard_tallyRound_def Let_def)

lemma tally_to_lowest:
  assumes "lowcard_game w r = Some g" "holders g \<noteq> []"
    "\<not> (length (holders g) = 3 \<and> \<not> isTimedOut \<and> length (winners (holders g)) = 1)"
  shows "lowcard_tallyRound now r isTimedOut w =
           lowcard_tally_lowest now r isTimedOut g (holders g) w"
  using assms by (auto simp: lowcard_tallyRound_def Let_def)

lemma lowest_tie:
  assumes "1 < length (losers A)" "length (losers A) < length A"
    "\<not> (isTimedOut \<and> (case previousTiedLosers g of None \<Rightarrow> False | Some prev \<Rightarrow> length prev > 0))"
  shows "lowcard_tally_lowest now r isTimedOut g A w =
           (LcTie (map userId (losers A)),
            w\<lparr>lowcard_game := (lowcard_game w)(r \<mapsto>
                 g\<lparr>previousTiedLosers := Some (map userId (losers A)),
                   players := map (reset_tied (losers A)) (players g)\<rparr>)\<rparr>)"
  using assms by (auto simp: lowcard_tally_lowest_def Let_def)

lemma lowest_tiebreak:
  assumes "1 < length (losers A)" "length (losers A) < length A"
    "previousTiedLosers g = Some prev" "prev \<noteq> []"
  shows "lowcard_tally_lowest now r True g A w =
           lowcard_after_elimination now r prev
             (g\<lparr>players := eliminate_ids prev (players g), previousTiedLosers := None\<rparr>) w"
  using assms by (simp add: lowcard_tally_lowest_def Let_def)

lemma lowest_normal:
  assumes "\<not> (1 < length (losers A) \<and> length (losers A) < length A)"
  shows "lowcard_tally_lowest now r isTimedOut g A w =
           lowcard_after_elimination now r (map userId (losers A))
             (g\<lparr>players := eliminate_ids (map userId (losers A)) (players g),
                previousTiedLosers := None\<rparr>) w"
  using assms by (auto simp: lowcard_tally_lowest_def Let_def)

lemma after_elimination_continue:
  assumes "length (remaining g1) \<noteq> 1"
  shows "\<exists>w' g'. lowcard_after_elimination now r out g1 w =
             (LcEliminated out (length (remaining g1)) (currentRound g1 + 1), w') \<and>
           lowcard_game w' r = Some g' \<and>
           players g' = map reset_survivor (players g1) \<and>
           previousTiedLosers g' = previousTiedLosers g1 \<and>
           currentRound g' = currentRound g1 + 1 \<and> status g' = status g1 \<and>
           pot g' = pot g1 \<and> users_credits w' = users_credits w \<and>
           lowcard_deck w' = lowcard_deck w"
  using assms by (simp add: lowcard_after_elimination_def Let_def)

lemma after_elimination_win:
  assumes "remaining g1 = [wn]"
  shows "lowcard_after_elimination now r out g1 w = lowcard_payout r wn g1 w"
  using assms by (simp add: lowcard_after_elimination_def Let_def)


lemma lowestValue_le:
  assumes "q \<in> set A"
  shows "lowestValue A \<le> cardValue q"
  unfolding lowestValue_def using assms by (intro Min_le) auto

lemma lowestValue_mem:
  assumes "A \<noteq> []"
  shows "\<exists>lo \<in> set A. cardValue lo = lowestValue A"
proof -
  have "Min (set (map cardValue A)) \<in> set (map cardValue A)"
    by (rule Min_in) (use assms in auto)
  then show ?thesis unfolding lowestValue_def by auto
qed

lemma highestValue_ge:
  assumes "q \<in> set A"
  shows "cardValue q \<le> highestValue A"
  unfolding highestValue_def using assms by (intro Max_ge) auto

lemma losers_set:
  assumes "A \<noteq> []"
  shows "set (losers A) = {p \<in> set A. \<forall>q \<in> set A. cardValue p \<le> cardValue q}"
proof -
  from lowestValue_mem[OF assms] obtain lo where lo: "lo \<in> set A" "cardValue lo = lowestValue A"
    by blast
  show ?thesis
    unfolding losers_def using lo lowestValue_le[of _ A] by (auto simp: le_antisym)
qed

lemma length_filter_split:
  "length (filter P xs) + length (filter (\<lambda>x. \<not> P x) xs) = length xs"
  by (rule sum_length_filter_compl)

lemma rest_not_single:
  assumes "\<forall>q \<in> set A. length (filter (\<lambda>q'. cardValue q \<le> cardValue q') A) \<noteq> 1"
  shows "length (filter (\<lambda>q. cardValue q \<noteq> lowestValue A) A) \<noteq> 1"
proof
  assume "length (filter (\<lambda>q. cardValue q \<noteq> lowestValue A) A) = 1"
  then obtain x where x: "filter (\<lambda>q. cardValue q \<noteq> lowestValue A) A = [x]"
    by (cases "filter (\<lambda>q. cardValue q \<noteq> lowestValue A) A") auto
  then have "x \<in> set (filter (\<lambda>q. cardValue q \<noteq> lowestValue A) A)" by simp
  then have xA: "x \<in> set A" and xv: "cardValue x \<noteq> lowestValue A" by auto
  have gt: "lowestValue A < cardValue x" using lowestValue_le[OF xA] xv by simp
  have "filter (\<lambda>q'. cardValue x \<le> cardValue q') A = [x]"
    by (rule filter_sub_singleton[OF x]) (use gt in auto)
  with assms xA show False by auto
qed

lemma winners_not_single:
  assumes "\<forall>q \<in> set A. length (filter (\<lambda>q'. cardValue q \<le> cardValue q') A) \<noteq> 1"
  shows "length (winners A) \<noteq> 1"
proof
  assume "length (winners A) = 1"
  then obtain x where x: "winners A = [x]" by (cases "winners A") auto
  then have "x \<in> set (winners A)" by simp
  then have xA: "x \<in> set A" and xv: "cardValue x = highestValue A" by (auto simp: winners_def)
  have "filter (\<lambda>q'. cardValue x \<le> cardValue q') A = winners A"
    unfolding winners_def
    by (rule filter_cong[OF refl]) (use highestValue_ge[of _ A] xv in \<open>auto simp: le_antisym\<close>)
  with x assms xA show False by auto
qed

lemma normal_elimination_continue:
  assumes g: "lowcard_game w r = Some g" and d: "distinct (map userId (players g))"
    and rh: "remaining g = holders g" and ne: "holders g \<noteq> []"
    and no3: "\<not> (length (holders g) = 3 \<and> \<not> isTimedOut \<and> length (winners (holders g)) = 1)"
    and nl: "\<not> (1 < length (losers (holders g)) \<and>
                length (losers (holders g)) < length (holders g))"
    and r1: "length (filter (\<lambda>q. cardValue q \<noteq> lowestValue (holders g)) (holders g)) \<noteq> 1"
  shows "\<exists>w' g'. lowcard_tallyRound now r isTimedOut w =
           (LcEliminated (map userId (losers (holders g)))
              (length (filter (\<lambda>q. cardValue q \<noteq> lowestValue (holders g)) (holders g)))
              (currentRound g + 1), w') \<and>
           lowcard_game w' r = Some g' \<and>
           players g' = map (\<lambda>p. if p \<in> set (losers (holders g))
                                  then p\<lparr>isEliminated := True\<rparr> else reset_survivor p)
                          (players g) \<and>
           previousTiedLosers g' = None \<and> currentRound g' = currentRound g + 1 \<and>
           status g' = status g \<and> pot g' = pot g \<and> users_credits w' = users_credits w"
proof -
  let ?A = "holders g"
  let ?L = "losers ?A"
  let ?R = "filter (\<lambda>q. cardValue q \<noteq> lowestValue ?A) ?A"
  have sub: "set ?L \<subseteq> set (players g)" using losers_sub[of ?A] by auto
  let ?g1 = "g\<lparr>players := eliminate_ids (map userId ?L) (players g), previousTiedLosers := None\<rparr>"
  have el: "eliminate_ids (map userId ?L) (players g) =
              map (\<lambda>p. if p \<in> set ?L then p\<lparr>isEliminated := True\<rparr> else p) (players g)"
    by (rule eliminate_distinct[OF d sub])
  have pg1: "players ?g1 =
              map (\<lambda>p. if p \<in> set ?L then p\<lparr>isEliminated := True\<rparr> else p) (players g)"
    using el by simp
  have "remaining ?g1 = filter (\<lambda>p. p \<notin> set ?L) (remaining g)"
    unfolding pg1 by (rule remaining_after)
  also have "\<dots> = filter (\<lambda>p. p \<notin> set ?L) ?A" by (simp only: rh)
  also have "\<dots> = ?R"
    by (rule filter_cong[OF refl]) (auto simp: losers_def)
  finally have rem: "remaining ?g1 = ?R" .
  have t: "lowcard_tallyRound now r isTimedOut w =
             lowcard_after_elimination now r (map userId ?L) ?g1 w"
    using tally_to_lowest[OF g ne no3, of now] lowest_normal[OF nl, of now r isTimedOut g w]
    by simp
  have mm: "map reset_survivor (players ?g1) =
            map (\<lambda>p. if p \<in> set ?L then p\<lparr>isEliminated := True\<rparr> else reset_survivor p)
              (players g)"
    unfolding pg1 by (auto simp: reset_survivor_def)
  have "length (remaining ?g1) \<noteq> 1" unfolding rem by (rule r1)
  from after_elimination_continue[OF this, of now r "map userId ?L" w]
  obtain w' g' where ae:
    "lowcard_after_elimination now r (map userId ?L) ?g1 w =
       (LcEliminated (map userId ?L) (length (remaining ?g1)) (currentRound ?g1 + 1), w')"
    "lowcard_game w' r = Some g'" "players g' = map reset_survivor (players ?g1)"
    "previousTiedLosers g' = previousTiedLosers ?g1" "currentRound g' = currentRound ?g1 + 1"
    "status g' = status ?g1" "pot g' = pot ?g1" "users_credits w' = users_credits w"
    by blast
  have res: "lowcard_tallyRound now r isTimedOut w =
               (LcEliminated (map userId ?L) (length ?R) (currentRound g + 1), w')"
    unfolding t ae(1) rem by simp
  have flds: "previousTiedLosers g' = None" "currentRound g' = currentRound g + 1"
    "status g' = status g" "pot g' = pot g"
    using ae(4,5,6,7) by simp_all
  show ?thesis
    using res ae(2) ae(3)[unfolded mm] flds ae(8) by blast
qed

lemma tie_highest_three:
  assumes g: "lowcard_game w r = Some g" and d: "distinct (map userId (players g))"
    and rh: "remaining g = holders g" and three: "length (holders g) = 3"
    and nohigh: "\<forall>q \<in> set (holders g).
                   length (filter (\<lambda>q'. cardValue q \<le> cardValue q') (holders g)) \<noteq> 1"
  shows "\<exists>w' g'. lowcard_tallyRound now r False w =
           (LcEliminated (map userId (losers (holders g)))
              (length (filter (\<lambda>q. cardValue q \<noteq> lowestValue (holders g)) (holders g)))
              (currentRound g + 1), w') \<and>
           lowcard_game w' r = Some g' \<and>
           players g' = map (\<lambda>p. if p \<in> set (losers (holders g))
                                  then p\<lparr>isEliminated := True\<rparr> else reset_survivor p)
                          (players g) \<and>
           previousTiedLosers g' = None \<and> currentRound g' = currentRound g + 1 \<and>
           status g' = status g \<and> pot g' = pot g \<and> users_credits w' = users_credits w"
proof -
  let ?A = "holders g"
  let ?L = "losers ?A"
  let ?R = "filter (\<lambda>q. cardValue q \<noteq> lowestValue ?A) ?A"
  have ne: "?A \<noteq> []" using three by auto
  have r1: "length ?R \<noteq> 1" by (rule rest_not_single[OF nohigh])
  have w1: "length (winners ?A) \<noteq> 1" by (rule winners_not_single[OF nohigh])
  have split: "length ?L + length ?R = length ?A"
    unfolding losers_def by (rule length_filter_split)
  have nl: "\<not> (1 < length ?L \<and> length ?L < length ?A)" using split r1 three by linarith
  show ?thesis
    by (rule normal_elimination_continue[OF g d rh ne _ nl r1]) (use w1 in simp)
qed

lemma tied_lowest:
  assumes "ta \<in> set A" "filter (\<lambda>q. cardValue q < cardValue ta) A = []"
    "length (filter (\<lambda>q. cardValue q \<le> cardValue ta) A) = n"
  shows "losers A = filter (\<lambda>q. cardValue q = cardValue ta) A \<and> length (losers A) = n"
  using losers_eq[OF assms(1,2)] losers_eq_le[OF assms(1,2)] assms(3) by simp

lemma first_tie_four:
  assumes g: "lowcard_game w r = Some g" and d: "distinct (map userId (players g))"
    and four: "length (holders g) = 4" and ta: "ta \<in> set (holders g)"
    and low: "filter (\<lambda>q. cardValue q < cardValue ta) (holders g) = []"
    and two: "length (filter (\<lambda>q. cardValue q \<le> cardValue ta) (holders g)) = 2"
  shows "\<exists>w' g'. lowcard_tallyRound now r False w =
           (LcTie (map userId (filter (\<lambda>q. cardValue q = cardValue ta) (holders g))), w') \<and>
           lowcard_game w' r = Some g' \<and>
           players g' =
             map (\<lambda>p. if p \<in> set (filter (\<lambda>q. cardValue q = cardValue ta) (holders g))
                       then p\<lparr>hasDrawn := False, currentCard := None\<rparr> else p) (players g) \<and>
           previousTiedLosers g' =
             Some (map userId (filter (\<lambda>q. cardValue q = cardValue ta) (holders g))) \<and>
           length (filter (\<lambda>q. cardValue q = cardValue ta) (holders g)) = 2 \<and>
           currentRound g' = currentRound g \<and> status g' = status g \<and> pot g' = pot g \<and>
           users_credits w' = users_credits w \<and> lowcard_deck w' = lowcard_deck w"
proof -
  define A where "A = holders g"
  define T where "T = filter (\<lambda>q. cardValue q = cardValue ta) A"
  note hyps = four[folded A_def] ta[folded A_def] low[folded A_def] two[folded A_def]
  from tied_lowest[OF hyps(2,3,4)] have L: "losers A = T" "length T = 2"
    unfolding T_def by metis+
  have ne: "A \<noteq> []" using hyps(1) by auto
  have t1: "lowcard_tallyRound now r False w = lowcard_tally_lowest now r False g A w"
    unfolding A_def by (rule tally_to_lowest[OF g ne[unfolded A_def]]) (use four in simp)
  have t2: "lowcard_tally_lowest now r False g A w =
           (LcTie (map userId (losers A)),
            w\<lparr>lowcard_game := (lowcard_game w)(r \<mapsto>
                 g\<lparr>previousTiedLosers := Some (map userId (losers A)),
                   players := map (reset_tied (losers A)) (players g)\<rparr>)\<rparr>)"
    by (rule lowest_tie) (use L hyps(1) in simp_all)
  have sub: "set T \<subseteq> set (players g)" unfolding T_def A_def by auto
  have nel: "\<forall>l \<in> set T. \<not> isEliminated l" unfolding T_def A_def by simp
  have rt: "map (reset_tied T) (players g) =
            map (\<lambda>p. if p \<in> set T then p\<lparr>hasDrawn := False, currentCard := None\<rparr> else p)
              (players g)"
    using reset_tied_distinct[OF d sub nel] by (simp add: reset_draw_def)
  have "\<exists>w' g'. lowcard_tallyRound now r False w = (LcTie (map userId T), w') \<and>
           lowcard_game w' r = Some g' \<and>
           players g' =
             map (\<lambda>p. if p \<in> set T
                       then p\<lparr>hasDrawn := False, currentCard := None\<rparr> else p) (players g) \<and>
           previousTiedLosers g' = Some (map userId T) \<and> length T = 2 \<and>
           currentRound g' = currentRound g \<and> status g' = status g \<and> pot g' = pot g \<and>
           users_credits w' = users_credits w \<and> lowcard_deck w' = lowcard_deck w"
    unfolding t1 t2 L(1) using L(2) by (simp add: rt)
  then show ?thesis unfolding T_def A_def .
qed

lemma second_tie_timeout_four:
  assumes g: "lowcard_game w r = Some g" and d: "distinct (map userId (players g))"
    and rh: "remaining g = holders g"
    and four: "length (holders g) = 4" and ta: "ta \<in> set (holders g)"
    and low: "filter (\<lambda>q. cardValue q < cardValue ta) (holders g) = []"
    and two: "length (filter (\<lambda>q. cardValue q \<le> cardValue ta) (holders g)) = 2"
    and prev: "previousTiedLosers g =
                 Some (map userId (filter (\<lambda>q. cardValue q = cardValue ta) (holders g)))"
  shows "\<exists>w' g'. lowcard_tallyRound now r True w =
           (LcEliminated (map userId (filter (\<lambda>q. cardValue q = cardValue ta) (holders g)))
              2 (currentRound g + 1), w') \<and>
           lowcard_game w' r = Some g' \<and>
           players g' =
             map (\<lambda>p. if p \<in> set (filter (\<lambda>q. cardValue q = cardValue ta) (holders g))
                       then p\<lparr>isEliminated := True\<rparr> else reset_survivor p) (players g) \<and>
           previousTiedLosers g' = None \<and> currentRound g' = currentRound g + 1 \<and>
           status g' = status g \<and> pot g' = pot g \<and> users_credits w' = users_credits w"
proof -
  define A where "A = holders g"
  define T where "T = filter (\<lambda>q. cardValue q = cardValue ta) A"
  define R where "R = filter (\<lambda>q. \<not> cardValue q = cardValue ta) A"
  note hyps = four[folded A_def] ta[folded A_def] low[folded A_def] two[folded A_def]
  from tied_lowest[OF hyps(2,3,4)] have L: "losers A = T" "length T = 2"
    unfolding T_def by metis+
  have ne: "A \<noteq> []" using hyps(1) by auto
  have pne: "map userId T \<noteq> []" using L(2) by auto
  have prev': "previousTiedLosers g = Some (map userId T)"
    unfolding T_def A_def by (rule prev)
  have t1: "lowcard_tallyRound now r True w = lowcard_tally_lowest now r True g A w"
    unfolding A_def by (rule tally_to_lowest[OF g ne[unfolded A_def]]) simp
  define g1 where
    "g1 = g\<lparr>players := eliminate_ids (map userId T) (players g), previousTiedLosers := None\<rparr>"
  have t2: "lowcard_tally_lowest now r True g A w =
              lowcard_after_elimination now r (map userId T) g1 w"
    unfolding g1_def by (rule lowest_tiebreak[OF _ _ prev' pne]) (use L hyps(1) in simp_all)
  have sub: "set T \<subseteq> set (players g)" unfolding T_def A_def by auto
  have pg1: "players g1 =
              map (\<lambda>p. if p \<in> set T then p\<lparr>isEliminated := True\<rparr> else p) (players g)"
    unfolding g1_def using eliminate_distinct[OF d sub] by simp
  have "remaining g1 = filter (\<lambda>p. p \<notin> set T) (remaining g)"
    unfolding pg1 by (rule remaining_after)
  also have "\<dots> = filter (\<lambda>p. p \<notin> set T) A" unfolding A_def by (simp only: rh)
  also have "\<dots> = R" unfolding R_def T_def by (rule filter_cong[OF refl]) auto
  finally have rem: "remaining g1 = R" .
  have "length T + length R = length A" unfolding T_def R_def by (rule length_filter_split)
  with L(2) hyps(1) have lr: "length R = 2" by simp
  have mm: "map reset_survivor (players g1) =
            map (\<lambda>p. if p \<in> set T then p\<lparr>isEliminated := True\<rparr> else reset_survivor p)
              (players g)"
    unfolding pg1 by (auto simp: reset_survivor_def)
  have "length (remaining g1) \<noteq> 1" unfolding rem lr by simp
  from after_elimination_continue[OF this, of now r "map userId T" w]
  obtain w' g' where ae:
    "lowcard_after_elimination now r (map userId T) g1 w =
       (LcEliminated (map userId T) (length (remaining g1)) (currentRound g1 + 1), w')"
    "lowcard_game w' r = Some g'" "players g' = map reset_survivor (players g1)"
    "previousTiedLosers g' = previousTiedLosers g1" "currentRound g' = currentRound g1 + 1"
    "status g' = status g1" "pot g' = pot g1" "users_credits w' = users_credits w"
    by blast
  have g1f: "previousTiedLosers g1 = None" "currentRound g1 = currentRound g"
    "status g1 = status g" "pot g1 = pot g"
    unfolding g1_def by simp_all
  have res: "lowcard_tallyRound now r True w =
               (LcEliminated (map userId T) 2 (currentRound g + 1), w')"
    unfolding t1 t2 ae(1) rem lr g1f by simp
  have flds: "previousTiedLosers g' = None" "currentRound g' = currentRound g + 1"
    "status g' = status g" "pot g' = pot g"
    using ae(4,5,6,7) g1f by simp_all
  have "\<exists>w' g'. lowcard_tallyRound now r True w =
           (LcEliminated (map userId T) 2 (currentRound g + 1), w') \<and>
           lowcard_game w' r = Some g' \<and>
           players g' =
             map (\<lambda>p. if p \<in> set T then p\<lparr>isEliminated := True\<rparr> else reset_survivor p)
               (players g) \<and>
           previousTiedLosers g' = None \<and> currentRound g' = currentRound g + 1 \<and>
           status g' = status g \<and> pot g' = pot g \<and> users_credits w' = users_credits w"
    using res ae(2) ae(3)[unfolded mm] flds ae(8) by blast
  then show ?thesis unfolding T_def A_def .
qed

lemmas lowcard_round_defs =
  drawCardFromDeck_def lowcard_drawCardForPlayer_def lowcard_autoDrawForTimeout_def
  lowcard_tallyRound_def lowcard_tally_lowest_def lowcard_after_elimination_def
  lowcard_payout_def lowcard_commission_div highestValue_def winners_def lowestValue_def
  losers_def cardValue_def reset_tied_def reset_survivor_def
  unshuffled_deck_def CARD_SUITS_def CARD_VALUES_def

lemmas lowcard_run_defs =
  sample_top_def sample_deck_def lowcard4_begun_def draws_def lowcard4_drawn_def
  lowcard4_tie_def lowcard4_redrawn_def lowcard4_tiebreak_def lowcard4_duel_def

lemmas lowcard_eval_defs =
  lowcard_cards_def lowcard_run_defs lowcard_round_defs sample_defs lowcard_defs ledger_defs

lemma sample_deck_length: "length sample_deck = 52 \<and> set sample_deck \<subseteq> set unshuffled_deck \<and> distinct sample_deck"
  by (simp add: sample_deck_def sample_top_def unshuffled_deck_def CARD_SUITS_def CARD_VALUES_def)

lemma lowcard4_drawn_cards: "lowcard_cards lowcard4_drawn =
   [(1, False, True, Some 9), (2, False, True, Some 5), (3, False, True, Some 5),
    (4, False, True, Some 12)]"
  by (simp add: lowcard_eval_defs)

lemma lowcard4_drawn_tally: "fst (lowcard_tallyRound 50000 7 False lowcard4_drawn) = LcTie [2, 3]"
  by (simp add: lowcard_eval_defs)

lemma lowcard4_tie_cards: "lowcard_cards lowcard4_tie =
   [(1, False, True, Some 9), (2, False, False, None), (3, False, False, None),
    (4, False, True, Some 12)]"
  by (simp add: lowcard_eval_defs)

lemma lowcard4_redrawn_cards: "lowcard_cards lowcard4_redrawn =
   [(1, False, True, Some 9), (2, False, True, Some 7), (3, False, True, Some 7),
    (4, False, True, Some 12)]"
  by (simp add: lowcard_eval_defs)

lemma lowcard4_redrawn_tally: "fst (lowcard_tallyRound 80000 7 True lowcard4_redrawn) = LcEliminated [2, 3] 2 2"
  by (simp add: lowcard_eval_defs)

lemma lowcard4_duel_cards: "lowcard_cards lowcard4_duel =
   [(1, False, True, Some 3), (2, True, True, Some 7), (3, True, True, Some 7),
    (4, False, True, Some 8)]"
  by (simp add: lowcard_eval_defs)

lemma lowcard4_duel_tally: "fst (lowcard_tallyRound 100000 7 False lowcard4_duel) = LcGameOver 4 190 1140"
  by (simp add: lowcard_eval_defs)

lemmas lowcard_eval_defs2 =
  sample_player_def lowcard3_drawn_def lowcard3_tied_def lowcard_eval_defs

lemma c7_hyp1:
  "lowcard_game lowcard3_drawn 7 = Some (sample_game lowcard3_drawn) \<and>
   length (holders (sample_game lowcard3_drawn)) = 3 \<and>
   sample_player 1 lowcard3_drawn \<in> set (holders (sample_game lowcard3_drawn)) \<and>
   length (filter (\<lambda>q. cardValue (sample_player 1 lowcard3_drawn) \<le> cardValue q)
             (holders (sample_game lowcard3_drawn))) = 1 \<and>
   users_credits lowcard3_drawn (userId (sample_player 1 lowcard3_drawn)) = Some 950"
  by (simp add: sample_game_def lowcard_eval_defs2)

lemma c7_val1:
  "userId (sample_player 1 lowcard3_drawn) = 1 \<and> pot (sample_game lowcard3_drawn) = 150 \<and>
   map cardValue (holders (sample_game lowcard3_drawn)) = [14, 13, 12]"
  by (simp add: sample_game_def lowcard_eval_defs2)

lemma c7_hyp2:
  "lowcard_game lowcard3_tied 7 = Some (sample_game lowcard3_tied) \<and>
   distinct (map userId (players (sample_game lowcard3_tied))) \<and>
   remaining (sample_game lowcard3_tied) = holders (sample_game lowcard3_tied) \<and>
   length (holders (sample_game lowcard3_tied)) = 3 \<and>
   (\<forall>q \<in> set (holders (sample_game lowcard3_tied)).
      length (filter (\<lambda>q'. cardValue q \<le> cardValue q') (holders (sample_game lowcard3_tied)))
        \<noteq> 1)"
  by (simp add: sample_game_def lowcard_eval_defs2)

lemma c7_val2:
  "map cardValue (holders (sample_game lowcard3_tied)) = [13, 13, 5] \<and>
   map userId (losers (holders (sample_game lowcard3_tied))) = [3] \<and>
   currentRound (sample_game lowcard3_tied) = 1"
  by (simp add: sample_game_def lowcard_eval_defs2)

section \<open>C7: three players left\<close>

text \<open>
  C7. When exactly three players are active (not eliminated and holding a card) and the
  round did not time out, a player whose rank is strictly the highest (the only active
  player whose rank is at least that player's own) wins at once: the tally reports that
  player as winner, credits the pot minus the commission and deletes the session; the
  commission is \<^verbatim>\<open>Math.floor(game.pot * 0.05)\<close>, which is \<open>\<lfloor>pot \<times> 0.05\<rfloor>\<close> for every pot
  from 0 to \<open>2\<^sup>4\<^sup>9\<close>. When nobody is strictly highest among the three remaining players, there is
  no winner: the tally eliminates the holders of the lowest rank (\<open>losers\<close>), credits
  nobody and the session goes on.
\<close>

theorem three_player_endgame:
  "(\<forall>now r w g wn bal.
      lowcard_game w r = Some g \<and> length (holders g) = 3 \<and> wn \<in> set (holders g) \<and>
      length (filter (\<lambda>q. cardValue wn \<le> cardValue q) (holders g)) = 1 \<and>
      users_credits w (userId wn) = Some bal \<longrightarrow>
      (\<exists>w'. lowcard_tallyRound now r False w =
              (LcGameOver (userId wn) (pot g - lowcard_commission (pot g))
                 (bal + (pot g - lowcard_commission (pot g))), w') \<and>
            users_credits w' =
              (users_credits w)(userId wn \<mapsto> bal + (pot g - lowcard_commission (pot g))) \<and>
            lowcard_game w' r = None \<and>
            (0 \<le> pot g \<and> pot g < 2 ^ 49 \<longrightarrow>
               lowcard_commission (pot g) = \<lfloor>rat_of_int (pot g) * 0.05\<rfloor>))) \<and>
   (\<forall>now r w g.
      lowcard_game w r = Some g \<and> distinct (map userId (players g)) \<and>
      remaining g = holders g \<and> length (holders g) = 3 \<and>
      (\<forall>q \<in> set (holders g).
         length (filter (\<lambda>q'. cardValue q \<le> cardValue q') (holders g)) \<noteq> 1) \<longrightarrow>
      (\<exists>n w' g'. lowcard_tallyRound now r False w =
              (LcEliminated (map userId (losers (holders g))) n (currentRound g + 1), w') \<and>
            n \<noteq> 1 \<and> lowcard_game w' r = Some g' \<and>
            players g' = map (\<lambda>p. if p \<in> set (losers (holders g))
                                   then p\<lparr>isEliminated := True\<rparr> else reset_survivor p)
                           (players g) \<and>
            status g' = status g \<and> pot g' = pot g \<and> users_credits w' = users_credits w)) \<and>
   (\<forall>A. A \<noteq> [] \<longrightarrow>
      set (losers A) = {p \<in> set A. \<forall>q \<in> set A. cardValue p \<le> cardValue q})"
proof (intro conjI allI impI)
  fix now r and w :: world and g :: lowcard_game and wn bal
  assume a: "lowcard_game w r = Some g \<and> length (holders g) = 3 \<and> wn \<in> set (holders g) \<and>
      length (filter (\<lambda>q. cardValue wn \<le> cardValue q) (holders g)) = 1 \<and>
      users_credits w (userId wn) = Some bal"
  then have t: "lowcard_tallyRound now r False w = lowcard_payout r wn g w"
    using tally_three_win[of w r g wn now] by blast
  from a lowcard_payout_credit[of w wn bal r g]
  show "\<exists>w'. lowcard_tallyRound now r False w =
              (LcGameOver (userId wn) (pot g - lowcard_commission (pot g))
                 (bal + (pot g - lowcard_commission (pot g))), w') \<and>
            users_credits w' =
              (users_credits w)(userId wn \<mapsto> bal + (pot g - lowcard_commission (pot g))) \<and>
            lowcard_game w' r = None \<and>
            (0 \<le> pot g \<and> pot g < 2 ^ 49 \<longrightarrow>
               lowcard_commission (pot g) = \<lfloor>rat_of_int (pot g) * 0.05\<rfloor>)"
    unfolding t by (auto simp: lowcard_commission_floor)
next
  fix now r and w :: world and g :: lowcard_game
  assume a: "lowcard_game w r = Some g \<and> distinct (map userId (players g)) \<and>
      remaining g = holders g \<and> length (holders g) = 3 \<and>
      (\<forall>q \<in> set (holders g).
         length (filter (\<lambda>q'. cardValue q \<le> cardValue q') (holders g)) \<noteq> 1)"
  then have r1: "length (filter (\<lambda>q. cardValue q \<noteq> lowestValue (holders g)) (holders g)) \<noteq> 1"
    using rest_not_single[of "holders g"] by blast
  from a tie_highest_three[of w r g now] r1
  show "\<exists>n w' g'. lowcard_tallyRound now r False w =
              (LcEliminated (map userId (losers (holders g))) n (currentRound g + 1), w') \<and>
            n \<noteq> 1 \<and> lowcard_game w' r = Some g' \<and>
            players g' = map (\<lambda>p. if p \<in> set (losers (holders g))
                                   then p\<lparr>isEliminated := True\<rparr> else reset_survivor p)
                           (players g) \<and>
            status g' = status g \<and> pot g' = pot g \<and> users_credits w' = users_credits w"
    by blast
next
  fix A :: "lowcard_player list"
  assume "A \<noteq> []"
  then show "set (losers A) = {p \<in> set A. \<forall>q \<in> set A. cardValue p \<le> cardValue q}"
    by (rule losers_set)
qed

theorem three_player_endgame_witness:
  "lowcard_game lowcard3_drawn 7 = Some (sample_game lowcard3_drawn) \<and>
   length (holders (sample_game lowcard3_drawn)) = 3 \<and>
   sample_player 1 lowcard3_drawn \<in> set (holders (sample_game lowcard3_drawn)) \<and>
   length (filter (\<lambda>q. cardValue (sample_player 1 lowcard3_drawn) \<le> cardValue q)
             (holders (sample_game lowcard3_drawn))) = 1 \<and>
   users_credits lowcard3_drawn (userId (sample_player 1 lowcard3_drawn)) = Some 950 \<and>
   map cardValue (holders (sample_game lowcard3_drawn)) = [14, 13, 12] \<and>
   (\<exists>w'. lowcard_tallyRound 50000 7 False lowcard3_drawn = (LcGameOver 1 143 1093, w') \<and>
         users_credits w' 1 = Some 1093 \<and> lowcard_game w' 7 = None) \<and>
   lowcard_commission (pot (sample_game lowcard3_drawn)) =
     \<lfloor>rat_of_int (pot (sample_game lowcard3_drawn)) * 0.05\<rfloor> \<and>
   lowcard_game lowcard3_tied 7 = Some (sample_game lowcard3_tied) \<and>
   distinct (map userId (players (sample_game lowcard3_tied))) \<and>
   remaining (sample_game lowcard3_tied) = holders (sample_game lowcard3_tied) \<and>
   length (holders (sample_game lowcard3_tied)) = 3 \<and>
   list_all (\<lambda>q. length (filter (\<lambda>q'. cardValue q \<le> cardValue q')
                      (holders (sample_game lowcard3_tied))) \<noteq> 1)
     (holders (sample_game lowcard3_tied)) \<and>
   map cardValue (holders (sample_game lowcard3_tied)) = [13, 13, 5] \<and>
   (\<exists>n w' g'. lowcard_tallyRound 50000 7 False lowcard3_tied = (LcEliminated [3] n 2, w') \<and>
         n \<noteq> 1 \<and> lowcard_game w' 7 = Some g' \<and>
         status g' = status (sample_game lowcard3_tied) \<and>
         users_credits w' = users_credits lowcard3_tied) \<and>
   set (losers [sample_player 1 lowcard3_drawn]) =
     {p \<in> set [sample_player 1 lowcard3_drawn].
        \<forall>q \<in> set [sample_player 1 lowcard3_drawn]. cardValue p \<le> cardValue q}"
proof -
  note T = three_player_endgame
  note T1 = T[THEN conjunct1, rule_format]
  note T2 = T[THEN conjunct2, THEN conjunct1, rule_format]
  note T3 = T[THEN conjunct2, THEN conjunct2, rule_format]
  have win: "pot (sample_game lowcard3_drawn) -
               lowcard_commission (pot (sample_game lowcard3_drawn)) = 143"
    using c7_val1 by (simp add: lowcard_commission_div)
  have uid: "userId (sample_player 1 lowcard3_drawn) = 1" using c7_val1 by simp
  have a: "\<exists>w'. lowcard_tallyRound 50000 7 False lowcard3_drawn = (LcGameOver 1 143 1093, w') \<and>
         users_credits w' 1 = Some 1093 \<and> lowcard_game w' 7 = None"
    using T1[OF c7_hyp1, of 50000, unfolded win uid] by auto
  have bound: "0 \<le> pot (sample_game lowcard3_drawn) \<and> pot (sample_game lowcard3_drawn) < 2 ^ 49"
    using c7_val1 by simp
  have e: "lowcard_commission (pot (sample_game lowcard3_drawn)) =
             \<lfloor>rat_of_int (pot (sample_game lowcard3_drawn)) * 0.05\<rfloor>"
    using T1[OF c7_hyp1, of 50000] bound by blast
  have b: "\<exists>n w' g'. lowcard_tallyRound 50000 7 False lowcard3_tied = (LcEliminated [3] n 2, w') \<and>
         n \<noteq> 1 \<and> lowcard_game w' 7 = Some g' \<and>
         status g' = status (sample_game lowcard3_tied) \<and>
         users_credits w' = users_credits lowcard3_tied"
    using T2[OF c7_hyp2, of 50000] c7_val2 by auto
  have c: "set (losers [sample_player 1 lowcard3_drawn]) =
     {p \<in> set [sample_player 1 lowcard3_drawn].
        \<forall>q \<in> set [sample_player 1 lowcard3_drawn]. cardValue p \<le> cardValue q}"
    by (rule T3) simp
  have h2: "list_all (\<lambda>q. length (filter (\<lambda>q'. cardValue q \<le> cardValue q')
                      (holders (sample_game lowcard3_tied))) \<noteq> 1)
     (holders (sample_game lowcard3_tied))"
    unfolding list_all_iff using c7_hyp2 by blast
  show ?thesis
    using a b c e h2 c7_hyp1 c7_hyp2 c7_val1 c7_val2 by blast
qed

section \<open>C8: two of four tie for lowest\<close>

lemmas lowcard_sample_defs = sample_game_def lowcard_eval_defs2

lemma lowcard4_drawn_game:
  "lowcard_game lowcard4_drawn 7 = Some (sample_game lowcard4_drawn)"
  by (simp add: lowcard_sample_defs)

lemma lowcard4_drawn_players:
  "players (sample_game lowcard4_drawn) =
     [\<lparr>userId = 1, username = ''ann'', isEliminated = False, hasDrawn = True,
       currentCard = Some \<lparr>value' = 9, suit = suit_h\<rparr>\<rparr>,
      \<lparr>userId = 2, username = ''bob'', isEliminated = False, hasDrawn = True,
       currentCard = Some \<lparr>value' = 5, suit = suit_h\<rparr>\<rparr>,
      \<lparr>userId = 3, username = ''cy'', isEliminated = False, hasDrawn = True,
       currentCard = Some \<lparr>value' = 5, suit = suit_d\<rparr>\<rparr>,
      \<lparr>userId = 4, username = ''dee'', isEliminated = False, hasDrawn = True,
       currentCard = Some \<lparr>value' = 12, suit = suit_h\<rparr>\<rparr>]"
  by (simp add: lowcard_sample_defs)

lemma lowcard4_drawn_player2:
  "sample_player 2 lowcard4_drawn =
     \<lparr>userId = 2, username = ''bob'', isEliminated = False, hasDrawn = True,
      currentCard = Some \<lparr>value' = 5, suit = suit_h\<rparr>\<rparr>"
  using lowcard4_drawn_players by (simp add: sample_player_def sample_game_def)

lemma lowcard4_redrawn_game:
  "lowcard_game lowcard4_redrawn 7 = Some (sample_game lowcard4_redrawn)"
  by (simp add: lowcard_sample_defs)

lemma lowcard4_redrawn_players:
  "players (sample_game lowcard4_redrawn) =
     [\<lparr>userId = 1, username = ''ann'', isEliminated = False, hasDrawn = True,
       currentCard = Some \<lparr>value' = 9, suit = suit_h\<rparr>\<rparr>,
      \<lparr>userId = 2, username = ''bob'', isEliminated = False, hasDrawn = True,
       currentCard = Some \<lparr>value' = 7, suit = suit_c\<rparr>\<rparr>,
      \<lparr>userId = 3, username = ''cy'', isEliminated = False, hasDrawn = True,
       currentCard = Some \<lparr>value' = 7, suit = suit_d\<rparr>\<rparr>,
      \<lparr>userId = 4, username = ''dee'', isEliminated = False, hasDrawn = True,
       currentCard = Some \<lparr>value' = 12, suit = suit_h\<rparr>\<rparr>]"
  by (simp add: lowcard_sample_defs)

lemma lowcard4_redrawn_player2:
  "sample_player 2 lowcard4_redrawn =
     \<lparr>userId = 2, username = ''bob'', isEliminated = False, hasDrawn = True,
      currentCard = Some \<lparr>value' = 7, suit = suit_c\<rparr>\<rparr>"
  using lowcard4_redrawn_players by (simp add: sample_player_def sample_game_def)

lemma lowcard4_redrawn_fields:
  "previousTiedLosers (sample_game lowcard4_redrawn) = Some [2, 3] \<and>
   currentRound (sample_game lowcard4_redrawn) = 1"
  by (simp add: lowcard_sample_defs)

lemma c8_hyp1:
  "lowcard_game lowcard4_drawn 7 = Some (sample_game lowcard4_drawn) \<and>
   distinct (map userId (players (sample_game lowcard4_drawn))) \<and>
   length (holders (sample_game lowcard4_drawn)) = 4 \<and>
   sample_player 2 lowcard4_drawn \<in> set (holders (sample_game lowcard4_drawn)) \<and>
   filter (\<lambda>q. cardValue q < cardValue (sample_player 2 lowcard4_drawn))
     (holders (sample_game lowcard4_drawn)) = [] \<and>
   length (filter (\<lambda>q. cardValue q \<le> cardValue (sample_player 2 lowcard4_drawn))
             (holders (sample_game lowcard4_drawn))) = 2"
  by (simp add: lowcard4_drawn_game lowcard4_drawn_players lowcard4_drawn_player2 cardValue_def)

lemma c8_val1:
  "map userId (filter (\<lambda>q. cardValue q = cardValue (sample_player 2 lowcard4_drawn))
                 (holders (sample_game lowcard4_drawn))) = [2, 3]"
  by (simp add: lowcard4_drawn_players lowcard4_drawn_player2 cardValue_def)

lemma c8_hyp2:
  "lowcard_game lowcard4_redrawn 7 = Some (sample_game lowcard4_redrawn) \<and>
   distinct (map userId (players (sample_game lowcard4_redrawn))) \<and>
   remaining (sample_game lowcard4_redrawn) = holders (sample_game lowcard4_redrawn) \<and>
   length (holders (sample_game lowcard4_redrawn)) = 4 \<and>
   sample_player 2 lowcard4_redrawn \<in> set (holders (sample_game lowcard4_redrawn)) \<and>
   filter (\<lambda>q. cardValue q < cardValue (sample_player 2 lowcard4_redrawn))
     (holders (sample_game lowcard4_redrawn)) = [] \<and>
   length (filter (\<lambda>q. cardValue q \<le> cardValue (sample_player 2 lowcard4_redrawn))
             (holders (sample_game lowcard4_redrawn))) = 2 \<and>
   previousTiedLosers (sample_game lowcard4_redrawn) =
     Some (map userId (filter (\<lambda>q. cardValue q = cardValue (sample_player 2 lowcard4_redrawn))
                         (holders (sample_game lowcard4_redrawn))))"
  by (simp add: lowcard4_redrawn_game lowcard4_redrawn_players lowcard4_redrawn_player2
        lowcard4_redrawn_fields cardValue_def)

lemma c8_val2:
  "map userId (filter (\<lambda>q. cardValue q = cardValue (sample_player 2 lowcard4_redrawn))
                 (holders (sample_game lowcard4_redrawn))) = [2, 3] \<and>
   currentRound (sample_game lowcard4_redrawn) = 1"
  by (simp add: lowcard4_redrawn_players lowcard4_redrawn_player2 lowcard4_redrawn_fields
        cardValue_def)

lemma lowcard4_tiebreak_cards:
  "lowcard_cards lowcard4_tiebreak =
     [(1, False, False, None), (2, True, True, Some 7), (3, True, True, Some 7),
      (4, False, False, None)]"
  by (simp add: lowcard_sample_defs)

text \<open>
  C8. Four players are active, exactly two of them share the lowest rank, and the round
  did not time out: the tally reports the tie, names those two (in player order) as the
  tied players and stores their ids as \<open>previousTiedLosers\<close>; only their \<open>hasDrawn\<close> and
  \<open>currentCard\<close> are reset, every other player record is left exactly as it was (not
  eliminated, not asked to draw), and nobody is credited. When the four are again the
  active players, the same two again share the lowest rank and the round timed out, the
  tally eliminates both of them at once, the other two survive and the next round
  begins.
\<close>

theorem tie_redraw_then_joint_elimination:
  "(\<forall>now r w g ta.
      lowcard_game w r = Some g \<and> distinct (map userId (players g)) \<and>
      length (holders g) = 4 \<and> ta \<in> set (holders g) \<and>
      filter (\<lambda>q. cardValue q < cardValue ta) (holders g) = [] \<and>
      length (filter (\<lambda>q. cardValue q \<le> cardValue ta) (holders g)) = 2 \<longrightarrow>
      (\<exists>w' g'. lowcard_tallyRound now r False w =
           (LcTie (map userId (filter (\<lambda>q. cardValue q = cardValue ta) (holders g))), w') \<and>
           lowcard_game w' r = Some g' \<and>
           players g' =
             map (\<lambda>p. if p \<in> set (filter (\<lambda>q. cardValue q = cardValue ta) (holders g))
                       then p\<lparr>hasDrawn := False, currentCard := None\<rparr> else p) (players g) \<and>
           previousTiedLosers g' =
             Some (map userId (filter (\<lambda>q. cardValue q = cardValue ta) (holders g))) \<and>
           length (filter (\<lambda>q. cardValue q = cardValue ta) (holders g)) = 2 \<and>
           currentRound g' = currentRound g \<and> status g' = status g \<and> pot g' = pot g \<and>
           users_credits w' = users_credits w \<and> lowcard_deck w' = lowcard_deck w)) \<and>
   (\<forall>now r w g ta.
      lowcard_game w r = Some g \<and> distinct (map userId (players g)) \<and>
      remaining g = holders g \<and> length (holders g) = 4 \<and> ta \<in> set (holders g) \<and>
      filter (\<lambda>q. cardValue q < cardValue ta) (holders g) = [] \<and>
      length (filter (\<lambda>q. cardValue q \<le> cardValue ta) (holders g)) = 2 \<and>
      previousTiedLosers g =
        Some (map userId (filter (\<lambda>q. cardValue q = cardValue ta) (holders g))) \<longrightarrow>
      (\<exists>w' g'. lowcard_tallyRound now r True w =
           (LcEliminated (map userId (filter (\<lambda>q. cardValue q = cardValue ta) (holders g)))
              2 (currentRound g + 1), w') \<and>
           lowcard_game w' r = Some g' \<and>
           players g' =
             map (\<lambda>p. if p \<in> set (filter (\<lambda>q. cardValue q = cardValue ta) (holders g))
                       then p\<lparr>isEliminated := True\<rparr> else reset_survivor p) (players g) \<and>
           previousTiedLosers g' = None \<and> currentRound g' = currentRound g + 1 \<and>
           status g' = status g \<and> pot g' = pot g \<and> users_credits w' = users_credits w))"
proof (intro conjI allI impI)
  fix now r and w :: world and g :: lowcard_game and ta
  assume a: "lowcard_game w r = Some g \<and> distinct (map userId (players g)) \<and>
      length (holders g) = 4 \<and> ta \<in> set (holders g) \<and>
      filter (\<lambda>q. cardValue q < cardValue ta) (holders g) = [] \<and>
      length (filter (\<lambda>q. cardValue q \<le> cardValue ta) (holders g)) = 2"
  show "\<exists>w' g'. lowcard_tallyRound now r False w =
           (LcTie (map userId (filter (\<lambda>q. cardValue q = cardValue ta) (holders g))), w') \<and>
           lowcard_game w' r = Some g' \<and>
           players g' =
             map (\<lambda>p. if p \<in> set (filter (\<lambda>q. cardValue q = cardValue ta) (holders g))
                       then p\<lparr>hasDrawn := False, currentCard := None\<rparr> else p) (players g) \<and>
           previousTiedLosers g' =
             Some (map userId (filter (\<lambda>q. cardValue q = cardValue ta) (holders g))) \<and>
           length (filter (\<lambda>q. cardValue q = cardValue ta) (holders g)) = 2 \<and>
           currentRound g' = currentRound g \<and> status g' = status g \<and> pot g' = pot g \<and>
           users_credits w' = users_credits w \<and> lowcard_deck w' = lowcard_deck w"
    by (rule first_tie_four) (use a in blast)+
next
  fix now r and w :: world and g :: lowcard_game and ta
  assume a: "lowcard_game w r = Some g \<and> distinct (map userId (players g)) \<and>
      remaining g = holders g \<and> length (holders g) = 4 \<and> ta \<in> set (holders g) \<and>
      filter (\<lambda>q. cardValue q < cardValue ta) (holders g) = [] \<and>
      length (filter (\<lambda>q. cardValue q \<le> cardValue ta) (holders g)) = 2 \<and>
      previousTiedLosers g =
        Some (map userId (filter (\<lambda>q. cardValue q = cardValue ta) (holders g)))"
  show "\<exists>w' g'. lowcard_tallyRound now r True w =
           (LcEliminated (map userId (filter (\<lambda>q. cardValue q = cardValue ta) (holders g)))
              2 (currentRound g + 1), w') \<and>
           lowcard_game w' r = Some g' \<and>
           players g' =
             map (\<lambda>p. if p \<in> set (filter (\<lambda>q. cardValue q = cardValue ta) (holders g))
                       then p\<lparr>isEliminated := True\<rparr> else reset_survivor p) (players g) \<and>
           previousTiedLosers g' = None \<and> currentRound g' = currentRound g + 1 \<and>
           status g' = status g \<and> pot g' = pot g \<and> users_credits w' = users_credits w"
    by (rule second_tie_timeout_four) (use a in blast)+
qed

theorem tie_redraw_then_joint_elimination_witness:
  "lowcard_game lowcard4_drawn 7 = Some (sample_game lowcard4_drawn) \<and>
   distinct (map userId (players (sample_game lowcard4_drawn))) \<and>
   length (holders (sample_game lowcard4_drawn)) = 4 \<and>
   sample_player 2 lowcard4_drawn \<in> set (holders (sample_game lowcard4_drawn)) \<and>
   filter (\<lambda>q. cardValue q < cardValue (sample_player 2 lowcard4_drawn))
     (holders (sample_game lowcard4_drawn)) = [] \<and>
   length (filter (\<lambda>q. cardValue q \<le> cardValue (sample_player 2 lowcard4_drawn))
             (holders (sample_game lowcard4_drawn))) = 2 \<and>
   (\<exists>w' g'. lowcard_tallyRound 50000 7 False lowcard4_drawn = (LcTie [2, 3], w') \<and>
      lowcard_game w' 7 = Some g' \<and> previousTiedLosers g' = Some [2, 3] \<and>
      currentRound g' = currentRound (sample_game lowcard4_drawn) \<and>
      users_credits w' = users_credits lowcard4_drawn) \<and>
   lowcard_cards lowcard4_drawn =
     [(1, False, True, Some 9), (2, False, True, Some 5), (3, False, True, Some 5),
      (4, False, True, Some 12)] \<and>
   lowcard_cards lowcard4_tie =
     [(1, False, True, Some 9), (2, False, False, None), (3, False, False, None),
      (4, False, True, Some 12)] \<and>
   lowcard_game lowcard4_redrawn 7 = Some (sample_game lowcard4_redrawn) \<and>
   distinct (map userId (players (sample_game lowcard4_redrawn))) \<and>
   remaining (sample_game lowcard4_redrawn) = holders (sample_game lowcard4_redrawn) \<and>
   length (holders (sample_game lowcard4_redrawn)) = 4 \<and>
   sample_player 2 lowcard4_redrawn \<in> set (holders (sample_game lowcard4_redrawn)) \<and>
   filter (\<lambda>q. cardValue q < cardValue (sample_player 2 lowcard4_redrawn))
     (holders (sample_game lowcard4_redrawn)) = [] \<and>
   length (filter (\<lambda>q. cardValue q \<le> cardValue (sample_player 2 lowcard4_redrawn))
             (holders (sample_game lowcard4_redrawn))) = 2 \<and>
   previousTiedLosers (sample_game lowcard4_redrawn) =
     Some (map userId (filter (\<lambda>q. cardValue q = cardValue (sample_player 2 lowcard4_redrawn))
                         (holders (sample_game lowcard4_redrawn)))) \<and>
   (\<exists>w' g'. lowcard_tallyRound 80000 7 True lowcard4_redrawn = (LcEliminated [2, 3] 2 2, w') \<and>
      lowcard_game w' 7 = Some g' \<and> previousTiedLosers g' = None \<and>
      users_credits w' = users_credits lowcard4_redrawn) \<and>
   lowcard_cards lowcard4_redrawn =
     [(1, False, True, Some 9), (2, False, True, Some 7), (3, False, True, Some 7),
      (4, False, True, Some 12)] \<and>
   lowcard_cards lowcard4_tiebreak =
     [(1, False, False, None), (2, True, True, Some 7), (3, True, True, Some 7),
      (4, False, False, None)]"
proof -
  note T = tie_redraw_then_joint_elimination
  note T1 = T[THEN conjunct1, rule_format]
  note T2 = T[THEN conjunct2, rule_format]
  have a: "\<exists>w' g'. lowcard_tallyRound 50000 7 False lowcard4_drawn = (LcTie [2, 3], w') \<and>
      lowcard_game w' 7 = Some g' \<and> previousTiedLosers g' = Some [2, 3] \<and>
      currentRound g' = currentRound (sample_game lowcard4_drawn) \<and>
      users_credits w' = users_credits lowcard4_drawn"
    using T1[OF c8_hyp1, of 50000, unfolded c8_val1] by blast
  have b: "\<exists>w' g'. lowcard_tallyRound 80000 7 True lowcard4_redrawn =
        (LcEliminated [2, 3] 2 2, w') \<and>
      lowcard_game w' 7 = Some g' \<and> previousTiedLosers g' = None \<and>
      users_credits w' = users_credits lowcard4_redrawn"
    using T2[OF c8_hyp2, of 80000] c8_val2 by auto
  show ?thesis
    using a b lowcard4_tiebreak_cards c8_hyp1 c8_hyp2 lowcard4_drawn_cards lowcard4_tie_cards lowcard4_redrawn_cards
    by blast
qed

section \<open>Payout\<close>

lemma dice_finalize_single:
  assumes "dicebot_game w r = Some g" "filter (\<lambda>p. \<not> isEliminated p) (players g) = [wn]"
    "users_credits w (userId wn) = Some bal"
  shows "\<exists>w' g'. dice_finalizeGame now r w =
             (GameOver (userId wn) (pot g) (pot g - dice_house_fee (pot g)) (dice_house_fee (pot g))
                (bal + (pot g - dice_house_fee (pot g))), w') \<and>
           users_credits w' = (users_credits w)(userId wn \<mapsto> bal + (pot g - dice_house_fee (pot g))) \<and>
           dicebot_game w' r = Some g' \<and> status g' = finished \<and> pot g' = pot g \<and>
           winnerId g' = Some (userId wn) \<and>
           winnings g' = Some (pot g - dice_house_fee (pot g)) \<and>
           houseFee g' = Some (dice_house_fee (pot g))"
proof -
  have ne: "filter (\<lambda>p. \<not> isEliminated p) (players g) \<noteq> []" using assms(2) by simp
  have f: "find (\<lambda>p. \<not> isEliminated p) (players g) = Some wn"
    using find_hd_filter[OF ne] assms(2) by simp
  show ?thesis
    using assms(1,3) f
    by (simp add: dice_finalizeGame_def addCredits_def logGameTransaction_def Let_def
          HOUSE_FEE_PERCENT_def)
qed

lemma dice_tally_finalize:
  assumes "dicebot_game w r = Some g" "status g = playing"
    "filter (\<lambda>p. isIn p = Some True) (filter (\<lambda>p. \<not> isEliminated p) (players g)) \<noteq> []"
    "length (filter (\<lambda>p. \<not> isEliminated p)
       (map eliminate_out (map clear_immunity (players g)))) = 1"
  shows "dice_tallyRound now r w =
           dice_finalizeGame now r
             (w\<lparr>dicebot_game := (dicebot_game w)(r \<mapsto>
                g\<lparr>players := map eliminate_out (map clear_immunity (players g))\<rparr>)\<rparr>)"
  using assms by (simp add: dice_tallyRound_def Let_def)

lemma dice_tally_last:
  assumes g: "dicebot_game w r = Some g" and st: "status g = playing"
    and one: "filter (\<lambda>p. \<not> isEliminated p \<and> isIn p \<noteq> Some False) (players g) = [wn]"
    and inn: "isIn wn = Some True"
    and bal: "users_credits w (userId wn) = Some bal"
  shows "\<exists>w' g'. dice_tallyRound now r w =
             (GameOver (userId wn) (pot g) (pot g - dice_house_fee (pot g)) (dice_house_fee (pot g))
                (bal + (pot g - dice_house_fee (pot g))), w') \<and>
           users_credits w' = (users_credits w)(userId wn \<mapsto> bal + (pot g - dice_house_fee (pot g))) \<and>
           dicebot_game w' r = Some g' \<and> status g' = finished"
proof -
  define h where "h = eliminate_out \<circ> clear_immunity"
  have "wn \<in> set (filter (\<lambda>p. \<not> isEliminated p \<and> isIn p \<noteq> Some False) (players g))"
    using one by simp
  then have wn: "wn \<in> set (players g)" "\<not> isEliminated wn" by simp_all
  have sv: "filter (\<lambda>p. isIn p = Some True) (filter (\<lambda>p. \<not> isEliminated p) (players g)) \<noteq> []"
    using wn inn by (auto simp: filter_empty_conv)
  define g1 where "g1 = g\<lparr>players := map eliminate_out (map clear_immunity (players g))\<rparr>"
  define w1 where "w1 = w\<lparr>dicebot_game := (dicebot_game w)(r \<mapsto> g1)\<rparr>"
  have pg1: "players g1 = map h (players g)" unfolding g1_def h_def by simp
  have "(\<lambda>p. \<not> isEliminated p) \<circ> h = (\<lambda>p. \<not> isEliminated p \<and> isIn p \<noteq> Some False)"
    unfolding h_def by (auto simp: fun_eq_iff clear_immunity_def eliminate_out_def)
  then have rem: "filter (\<lambda>p. \<not> isEliminated p) (players g1) = [h wn]"
    unfolding pg1 filter_map using one by simp
  have hw: "userId (h wn) = userId wn" unfolding h_def using tally_fields by simp
  have l1: "length (filter (\<lambda>p. \<not> isEliminated p)
       (map eliminate_out (map clear_immunity (players g)))) = 1"
    using rem unfolding g1_def by simp
  have t: "dice_tallyRound now r w = dice_finalizeGame now r w1"
    unfolding w1_def g1_def by (rule dice_tally_finalize[OF g st sv l1])
  have gw1: "dicebot_game w1 r = Some g1" unfolding w1_def by simp
  have bw1: "users_credits w1 (userId (h wn)) = Some bal" unfolding w1_def hw using bal by simp
  have pp: "pot g1 = pot g" "users_credits w1 = users_credits w" unfolding g1_def w1_def by simp_all
  from dice_finalize_single[OF gw1 rem bw1, of now] show ?thesis
    unfolding t hw pp by blast
qed

lemma lowcard_payout_any:
  assumes "lowcard_payout r wn g w = (res, w')"
  shows "\<exists>nb. res = LcGameOver (userId wn) (pot g - lowcard_commission (pot g)) nb \<and>
           lowcard_game w' r = None \<and>
           (\<forall>bal. users_credits w (userId wn) = Some bal \<longrightarrow>
              nb = bal + (pot g - lowcard_commission (pot g)) \<and>
              users_credits w' = (users_credits w)(userId wn \<mapsto> bal + (pot g - lowcard_commission (pot g))))"
  using assms
  by (auto simp: lowcard_payout_def addCredits_def logGameTransaction_def
        Let_def split: option.splits if_splits)

lemma after_elimination_gameover:
  assumes "lowcard_after_elimination now r out g1 w = (LcGameOver wid win nb, w')"
  shows "\<exists>wn. lowcard_payout r wn g1 w = (LcGameOver wid win nb, w')"
  using assms by (auto simp: lowcard_after_elimination_def Let_def split: if_splits)

lemma tally_lowest_gameover:
  assumes "lowcard_tally_lowest now r to g A w = (LcGameOver wid win nb, w')"
  shows "\<exists>wn g1. pot g1 = pot g \<and> lowcard_payout r wn g1 w = (LcGameOver wid win nb, w')"
proof -
  from assms consider
    (a) prev where "lowcard_after_elimination now r prev
           (g\<lparr>players := eliminate_ids prev (players g), previousTiedLosers := None\<rparr>) w =
         (LcGameOver wid win nb, w')"
  | (b) "lowcard_after_elimination now r (map userId (losers A))
           (g\<lparr>players := eliminate_ids (map userId (losers A)) (players g),
              previousTiedLosers := None\<rparr>) w = (LcGameOver wid win nb, w')"
    by (auto simp: lowcard_tally_lowest_def Let_def split: if_splits)
  then show ?thesis
  proof cases
    case a
    from after_elimination_gameover[OF a] obtain wn where
      p: "lowcard_payout r wn
            (g\<lparr>players := eliminate_ids prev (players g), previousTiedLosers := None\<rparr>) w =
          (LcGameOver wid win nb, w')" by blast
    have "pot (g\<lparr>players := eliminate_ids prev (players g), previousTiedLosers := None\<rparr>) =
          pot g" by simp
    with p show ?thesis by blast
  next
    case b
    from after_elimination_gameover[OF b] obtain wn where
      p: "lowcard_payout r wn
            (g\<lparr>players := eliminate_ids (map userId (losers A)) (players g),
               previousTiedLosers := None\<rparr>) w =
          (LcGameOver wid win nb, w')" by blast
    have "pot (g\<lparr>players := eliminate_ids (map userId (losers A)) (players g),
                 previousTiedLosers := None\<rparr>) = pot g" by simp
    with p show ?thesis by blast
  qed
qed

lemma tally_gameover:
  assumes "lowcard_game w r = Some g"
    "lowcard_tallyRound now r to w = (LcGameOver wid win nb, w')"
  shows "\<exists>wn g1. pot g1 = pot g \<and> lowcard_payout r wn g1 w = (LcGameOver wid win nb, w')"
proof -
  from assms consider
    (a) wn where "lowcard_payout r wn g w = (LcGameOver wid win nb, w')"
  | (b) A where "lowcard_tally_lowest now r to g A w = (LcGameOver wid win nb, w')"
    by (auto simp: lowcard_tallyRound_def Let_def split: if_splits)
  then show ?thesis
  proof cases
    case a
    then show ?thesis by blast
  next
    case b
    from tally_lowest_gameover[OF b] show ?thesis .
  qed
qed

lemma tally_gameover_amount:
  assumes "lowcard_game w r = Some g"
    "lowcard_tallyRound now r to w = (LcGameOver wid win nb, w')"
    "users_credits w wid = Some bal"
  shows "win = pot g - lowcard_commission (pot g) \<and> nb = bal + win \<and>
         users_credits w' = (users_credits w)(wid \<mapsto> bal + win) \<and> lowcard_game w' r = None"
proof -
  from tally_gameover[OF assms(1,2)] obtain wn g1 where
    p: "pot g1 = pot g" "lowcard_payout r wn g1 w = (LcGameOver wid win nb, w')" by blast
  from lowcard_payout_any[OF p(2)] assms(3) p(1) show ?thesis by auto
qed

lemma final_duel:
  assumes g: "lowcard_game w r = Some g" and d: "distinct (map userId (players g))"
    and rh: "remaining g = holders g" and two: "length (holders g) = 2"
    and lo: "lo \<in> set (holders g)" and wn: "wn \<in> set (holders g)"
    and lt: "cardValue lo < cardValue wn"
    and bal: "users_credits w (userId wn) = Some bal"
  shows "\<exists>w'. lowcard_tallyRound now r to w =
            (LcGameOver (userId wn) (pot g - lowcard_commission (pot g)) (bal + (pot g - lowcard_commission (pot g))), w') \<and>
          users_credits w' = (users_credits w)(userId wn \<mapsto> bal + (pot g - lowcard_commission (pot g))) \<and>
          lowcard_game w' r = None"
proof -
  define A where "A = holders g"
  note hyps = two[folded A_def] lo[folded A_def] wn[folded A_def]
  from hyps(1) obtain x y where A: "A = [x, y]"
    by (cases A; cases "tl A") auto
  have ne: "lo \<noteq> wn" using lt by auto
  from hyps(2,3) ne A have xy: "(x = lo \<and> y = wn) \<or> (x = wn \<and> y = lo)" by auto
  have low: "filter (\<lambda>q. cardValue q < cardValue lo) A = []" using xy A lt by auto
  have cnt: "length (filter (\<lambda>q. cardValue q \<le> cardValue lo) A) = 1" using xy A lt by auto
  from tied_lowest[OF hyps(2) low cnt] have L: "losers A = filter (\<lambda>q. cardValue q = cardValue lo) A"
    "length (losers A) = 1" by blast+
  have L1: "losers A = [lo]" using L(1) xy A lt by auto
  have aN: "A \<noteq> []" using A by simp
  have t1: "lowcard_tallyRound now r to w = lowcard_tally_lowest now r to g A w"
    unfolding A_def by (rule tally_to_lowest[OF g aN[unfolded A_def]]) (use two in simp)
  define g1 where
    "g1 = g\<lparr>players := eliminate_ids (map userId (losers A)) (players g),
            previousTiedLosers := None\<rparr>"
  have t2: "lowcard_tally_lowest now r to g A w =
              lowcard_after_elimination now r (map userId (losers A)) g1 w"
    unfolding g1_def by (rule lowest_normal) (use L(2) in simp)
  have sub: "set (losers A) \<subseteq> set (players g)" using losers_sub[of A] unfolding A_def by auto
  have pg1: "players g1 =
              map (\<lambda>p. if p \<in> set (losers A) then p\<lparr>isEliminated := True\<rparr> else p) (players g)"
    unfolding g1_def using eliminate_distinct[OF d sub] by simp
  have "remaining g1 = filter (\<lambda>p. p \<notin> set (losers A)) (remaining g)"
    unfolding pg1 by (rule remaining_after)
  also have "\<dots> = filter (\<lambda>p. p \<notin> set (losers A)) A" unfolding A_def by (simp only: rh)
  also have "\<dots> = [wn]" unfolding L1 using xy A ne by auto
  finally have rem: "remaining g1 = [wn]" .
  have t3: "lowcard_after_elimination now r (map userId (losers A)) g1 w =
              lowcard_payout r wn g1 w"
    by (rule after_elimination_win[OF rem])
  have pp: "pot g1 = pot g" unfolding g1_def by simp
  from lowcard_payout_credit[OF bal, of r g1] show ?thesis
    unfolding t1 t2 t3 pp by auto
qed

lemma dice_round3_rolled_game:
  "dicebot_game dice_round3_rolled 7 = Some (sample_dice_game dice_round3_rolled) \<and>
   status (sample_dice_game dice_round3_rolled) = playing \<and>
   pot (sample_dice_game dice_round3_rolled) = 300 \<and>
   users_credits dice_round3_rolled 2 = Some 900"
  by (simp add: sample_dice_game_def dice_eval_defs)

lemma dice_round3_rolled_players:
  "players (sample_dice_game dice_round3_rolled) =
     [\<lparr>userId = 1, username = ''ann'', isEliminated = False, hasRolled = True,
       die1 = Some 1, die2 = Some 2, total' = Some 3, isIn = Some False,
       hasImmunity = False, earnedImmunity = False\<rparr>,
      \<lparr>userId = 2, username = ''bob'', isEliminated = False, hasRolled = True,
       die1 = Some 1, die2 = Some 1, total' = Some 2, isIn = Some True,
       hasImmunity = True, earnedImmunity = False\<rparr>,
      \<lparr>userId = 3, username = ''cy'', isEliminated = True, hasRolled = True,
       die1 = Some 2, die2 = Some 3, total' = Some 5, isIn = Some False,
       hasImmunity = False, earnedImmunity = False\<rparr>]"
  by (simp add: sample_dice_game_def dice_eval_defs)

lemma dice_round3_rolled_player2:
  "sample_dice_player 2 dice_round3_rolled =
     \<lparr>userId = 2, username = ''bob'', isEliminated = False, hasRolled = True,
       die1 = Some 1, die2 = Some 1, total' = Some 2, isIn = Some True,
       hasImmunity = True, earnedImmunity = False\<rparr>"
  by (simp add: sample_dice_player_def dice_round3_rolled_players)

lemma c9_hyp2:
  "dicebot_game dice_round3_rolled 7 = Some (sample_dice_game dice_round3_rolled) \<and>
   status (sample_dice_game dice_round3_rolled) = playing \<and>
   filter (\<lambda>p. \<not> isEliminated p \<and> isIn p \<noteq> Some False)
     (players (sample_dice_game dice_round3_rolled)) = [sample_dice_player 2 dice_round3_rolled] \<and>
   isIn (sample_dice_player 2 dice_round3_rolled) = Some True \<and>
   users_credits dice_round3_rolled (userId (sample_dice_player 2 dice_round3_rolled)) = Some 900 \<and>
   0 \<le> pot (sample_dice_game dice_round3_rolled) \<and>
   pot (sample_dice_game dice_round3_rolled) < 2 ^ 49"
  using dice_round3_rolled_game
  by (simp add: dice_round3_rolled_players dice_round3_rolled_player2)

lemma c9_hyp1:
  "dicebot_game dice_round3_eliminated 7 =
     Some ((sample_dice_game dice_round3_rolled)\<lparr>players :=
          map eliminate_out (map clear_immunity (players (sample_dice_game dice_round3_rolled)))\<rparr>) \<and>
   filter (\<lambda>p. \<not> isEliminated p)
     (players ((sample_dice_game dice_round3_rolled)\<lparr>players :=
          map eliminate_out (map clear_immunity (players (sample_dice_game dice_round3_rolled)))\<rparr>)) =
     [(sample_dice_player 2 dice_round3_rolled)\<lparr>hasImmunity := False\<rparr>] \<and>
   users_credits dice_round3_eliminated
     (userId ((sample_dice_player 2 dice_round3_rolled)\<lparr>hasImmunity := False\<rparr>)) = Some 900 \<and>
   0 \<le> pot ((sample_dice_game dice_round3_rolled)\<lparr>players :=
          map eliminate_out (map clear_immunity (players (sample_dice_game dice_round3_rolled)))\<rparr>) \<and>
   pot ((sample_dice_game dice_round3_rolled)\<lparr>players :=
          map eliminate_out (map clear_immunity (players (sample_dice_game dice_round3_rolled)))\<rparr>)
     < 2 ^ 49"
  using dice_round3_rolled_game
  by (simp add: dice_round3_eliminated_def dice_round3_rolled_players dice_round3_rolled_player2
        eliminate_out_def clear_immunity_def)

lemma lowcard4_duel_game:
  "lowcard_game lowcard4_duel 7 = Some (sample_game lowcard4_duel) \<and>
   pot (sample_game lowcard4_duel) = 200 \<and> users_credits lowcard4_duel 4 = Some 950"
  by (simp add: lowcard_sample_defs)

lemma lowcard4_duel_players:
  "players (sample_game lowcard4_duel) =
     [\<lparr>userId = 1, username = ''ann'', isEliminated = False, hasDrawn = True,
       currentCard = Some \<lparr>value' = 3, suit = suit_s\<rparr>\<rparr>,
      \<lparr>userId = 2, username = ''bob'', isEliminated = True, hasDrawn = True,
       currentCard = Some \<lparr>value' = 7, suit = suit_c\<rparr>\<rparr>,
      \<lparr>userId = 3, username = ''cy'', isEliminated = True, hasDrawn = True,
       currentCard = Some \<lparr>value' = 7, suit = suit_d\<rparr>\<rparr>,
      \<lparr>userId = 4, username = ''dee'', isEliminated = False, hasDrawn = True,
       currentCard = Some \<lparr>value' = 8, suit = suit_s\<rparr>\<rparr>]"
  by (simp add: lowcard_sample_defs)

lemma lowcard4_duel_player14:
  "sample_player 1 lowcard4_duel =
     \<lparr>userId = 1, username = ''ann'', isEliminated = False, hasDrawn = True,
       currentCard = Some \<lparr>value' = 3, suit = suit_s\<rparr>\<rparr> \<and>
   sample_player 4 lowcard4_duel =
     \<lparr>userId = 4, username = ''dee'', isEliminated = False, hasDrawn = True,
       currentCard = Some \<lparr>value' = 8, suit = suit_s\<rparr>\<rparr>"
  using lowcard4_duel_players by (simp add: sample_player_def sample_game_def)

lemma c9_hyp4:
  "lowcard_game lowcard4_duel 7 = Some (sample_game lowcard4_duel) \<and>
   distinct (map userId (players (sample_game lowcard4_duel))) \<and>
   remaining (sample_game lowcard4_duel) = holders (sample_game lowcard4_duel) \<and>
   length (holders (sample_game lowcard4_duel)) = 2 \<and>
   sample_player 1 lowcard4_duel \<in> set (holders (sample_game lowcard4_duel)) \<and>
   sample_player 4 lowcard4_duel \<in> set (holders (sample_game lowcard4_duel)) \<and>
   cardValue (sample_player 1 lowcard4_duel) < cardValue (sample_player 4 lowcard4_duel) \<and>
   users_credits lowcard4_duel (userId (sample_player 4 lowcard4_duel)) = Some 950 \<and>
   0 \<le> pot (sample_game lowcard4_duel) \<and> pot (sample_game lowcard4_duel) < 2 ^ 49"
  using lowcard4_duel_game
  by (simp add: lowcard4_duel_players lowcard4_duel_player14 cardValue_def del: One_nat_def)

lemma c9_hyp3:
  "lowcard_game lowcard4_duel 7 = Some (sample_game lowcard4_duel) \<and>
   lowcard_tallyRound 100000 7 False lowcard4_duel =
     (LcGameOver 4 190 1140, snd (lowcard_tallyRound 100000 7 False lowcard4_duel)) \<and>
   users_credits lowcard4_duel 4 = Some 950 \<and>
   0 \<le> pot (sample_game lowcard4_duel) \<and> pot (sample_game lowcard4_duel) < 2 ^ 49"
  using lowcard4_duel_game lowcard4_duel_tally by (simp add: prod_eq_iff)

lemma dice_finalize_bounded:
  assumes "dicebot_game w r = Some g" "filter (\<lambda>p. \<not> isEliminated p) (players g) = [wn]"
    "users_credits w (userId wn) = Some bal" "0 \<le> pot g" "pot g < 2 ^ 49"
  shows "\<exists>w' g'. dice_finalizeGame now r w =
           (GameOver (userId wn) (pot g) (pot g - \<lfloor>rat_of_int (pot g) * 10 / 100\<rfloor>)
              \<lfloor>rat_of_int (pot g) * 10 / 100\<rfloor>
              (bal + (pot g - \<lfloor>rat_of_int (pot g) * 10 / 100\<rfloor>)), w') \<and>
         users_credits w' =
           (users_credits w)(userId wn \<mapsto> bal + (pot g - \<lfloor>rat_of_int (pot g) * 10 / 100\<rfloor>)) \<and>
         dicebot_game w' r = Some g' \<and> status g' = finished \<and>
         winnings g' = Some (pot g - pot g * 10 div 100) \<and>
         houseFee g' = Some (pot g * 10 div 100) \<and>
         (pot g = 300 \<longrightarrow> winnings g' = Some 270 \<and> houseFee g' = Some 30)"
proof -
  have fee: "dice_house_fee (pot g) = pot g * 10 div 100"
    by (rule dice_house_fee_div[OF assms(4,5)])
  from dice_finalize_single[OF assms(1,2,3), of now] show ?thesis
    unfolding floor_fee fee by auto
qed

lemma dice_tally_bounded:
  assumes "dicebot_game w r = Some g" "status g = playing"
    "filter (\<lambda>p. \<not> isEliminated p \<and> isIn p \<noteq> Some False) (players g) = [wn]"
    "isIn wn = Some True" "users_credits w (userId wn) = Some bal"
    "0 \<le> pot g" "pot g < 2 ^ 49"
  shows "\<exists>w' g'. dice_tallyRound now r w =
           (GameOver (userId wn) (pot g) (pot g - \<lfloor>rat_of_int (pot g) * 10 / 100\<rfloor>)
              \<lfloor>rat_of_int (pot g) * 10 / 100\<rfloor>
              (bal + (pot g - \<lfloor>rat_of_int (pot g) * 10 / 100\<rfloor>)), w') \<and>
         users_credits w' =
           (users_credits w)(userId wn \<mapsto> bal + (pot g - \<lfloor>rat_of_int (pot g) * 10 / 100\<rfloor>)) \<and>
         dicebot_game w' r = Some g' \<and> status g' = finished"
proof -
  have fee: "dice_house_fee (pot g) = pot g * 10 div 100"
    by (rule dice_house_fee_div[OF assms(6,7)])
  from dice_tally_last[OF assms(1,2,3,4,5), of now] show ?thesis
    unfolding floor_fee fee by blast
qed

lemma lowcard_gameover_bounded:
  assumes "lowcard_game w r = Some g"
    "lowcard_tallyRound now r to w = (LcGameOver wid win nb, w')"
    "users_credits w wid = Some bal" "0 \<le> pot g" "pot g < 2 ^ 49"
  shows "win = pot g - \<lfloor>rat_of_int (pot g) * 0.05\<rfloor> \<and> win = pot g - pot g div 20 \<and>
         nb = bal + win \<and> users_credits w' = (users_credits w)(wid \<mapsto> bal + win) \<and>
         lowcard_game w' r = None"
proof -
  have fee: "lowcard_commission (pot g) = pot g div 20"
    by (rule lowcard_commission_div[OF assms(4,5)])
  from tally_gameover_amount[OF assms(1,2,3)] show ?thesis
    unfolding floor_commission fee by blast
qed

lemma final_duel_bounded:
  assumes "lowcard_game w r = Some g" "distinct (map userId (players g))"
    "remaining g = holders g" "length (holders g) = 2"
    "lo \<in> set (holders g)" "wn \<in> set (holders g)" "cardValue lo < cardValue wn"
    "users_credits w (userId wn) = Some bal" "0 \<le> pot g" "pot g < 2 ^ 49"
  shows "\<exists>w'. lowcard_tallyRound now r to w =
            (LcGameOver (userId wn) (pot g - \<lfloor>rat_of_int (pot g) * 0.05\<rfloor>)
               (bal + (pot g - \<lfloor>rat_of_int (pot g) * 0.05\<rfloor>)), w') \<and>
          users_credits w' =
            (users_credits w)(userId wn \<mapsto> bal + (pot g - \<lfloor>rat_of_int (pot g) * 0.05\<rfloor>)) \<and>
          lowcard_game w' r = None"
proof -
  have fee: "lowcard_commission (pot g) = pot g div 20"
    by (rule lowcard_commission_div[OF assms(9,10)])
  from final_duel[OF assms(1,2,3,4,5,6,7,8), of now "to"] show ?thesis
    unfolding floor_commission fee .
qed

lemma lowcard_commission_large:
  "lowcard_commission 6800000000000019 = 340000000000001 \<and>
   \<lfloor>rat_of_int 6800000000000019 * 0.05\<rfloor> = (340000000000000::int)"
  using floor_commission[of 6800000000000019]
  by (simp add: lowcard_commission_def floor_double_defs)

lemma dice_house_fee_large:
  "dice_house_fee 3602879701896410 = 360287970189640 \<and>
   \<lfloor>rat_of_int 3602879701896410 * 10 / 100\<rfloor> = (360287970189641::int)"
  using floor_fee[of 3602879701896410]
  by (simp add: dice_house_fee_def HOUSE_FEE_PERCENT_def floor_double_defs)

lemma lowcard_big_drawn_game:
  "big_game big_world 7 \<and>
   lowcard_game lowcard_big_drawn 7 = Some (sample_game lowcard_big_drawn) \<and>
   status (sample_game lowcard_big_drawn) = playing \<and>
   entryAmount (sample_game lowcard_big_drawn) = 2266666666666673 \<and>
   pot (sample_game lowcard_big_drawn) = 6800000000000019 \<and>
   map userId (remaining (sample_game lowcard_big_drawn)) = [1, 2, 3] \<and>
   map cardValue (holders (sample_game lowcard_big_drawn)) = [14, 13, 12] \<and>
   users_credits lowcard_big_drawn 1 = Some 733333333333327"
  by (simp add: big_world_def lowcard_big_drawn_def lowcard_sample_defs)

lemma lowcard_big_drawn_tally:
  "fst (lowcard_tallyRound 50000 7 False lowcard_big_drawn) =
     LcGameOver 1 6460000000000018 7193333333333345"
  by (simp add: big_world_def lowcard_big_drawn_def lowcard_sample_defs
        lowcard_commission_def floor_double_defs)


section \<open>C9: the winner's payout\<close>

text \<open>
  C9. The winner is credited the pot minus a fee rounded down, for every pot from 0 to
  \<open>2\<^sup>4\<^sup>9\<close>. Dice: when exactly one player is not eliminated, \<^verbatim>\<open>finalizeGame\<close> withholds
  \<open>\<lfloor>pot * 10 / 100\<rfloor>\<close>, credits the rest to that player and records both amounts on the
  finished session; a pot of 300 pays 270 and withholds 30. The same holds for the
  \<^verbatim>\<open>tallyRound\<close> that leaves one player in. Card: every tally that ends the game pays
  \<open>pot - \<lfloor>pot * 0.05\<rfloor>\<close> to the winner and deletes the session, and the tally of the last two
  card holders ends the game in favour of the higher card. The fees are computed on
  Numbers; below \<open>2\<^sup>4\<^sup>9\<close> the rounding of the product and of the quotient does not reach
  the floor.
\<close>

theorem winner_gets_pot_minus_fee:
  "(\<forall>now r w g wn bal.
      dicebot_game w r = Some g \<and> filter (\<lambda>p. \<not> isEliminated p) (players g) = [wn] \<and>
      users_credits w (userId wn) = Some bal \<and> 0 \<le> pot g \<and> pot g < 2 ^ 49 \<longrightarrow>
      (\<exists>w' g'. dice_finalizeGame now r w =
           (GameOver (userId wn) (pot g) (pot g - \<lfloor>rat_of_int (pot g) * 10 / 100\<rfloor>)
              \<lfloor>rat_of_int (pot g) * 10 / 100\<rfloor>
              (bal + (pot g - \<lfloor>rat_of_int (pot g) * 10 / 100\<rfloor>)), w') \<and>
         users_credits w' =
           (users_credits w)(userId wn \<mapsto> bal + (pot g - \<lfloor>rat_of_int (pot g) * 10 / 100\<rfloor>)) \<and>
         dicebot_game w' r = Some g' \<and> status g' = finished \<and>
         winnings g' = Some (pot g - pot g * 10 div 100) \<and>
         houseFee g' = Some (pot g * 10 div 100) \<and>
         (pot g = 300 \<longrightarrow> winnings g' = Some 270 \<and> houseFee g' = Some 30))) \<and>
   (\<forall>now r w g wn bal.
      dicebot_game w r = Some g \<and> status g = playing \<and>
      filter (\<lambda>p. \<not> isEliminated p \<and> isIn p \<noteq> Some False) (players g) = [wn] \<and>
      isIn wn = Some True \<and> users_credits w (userId wn) = Some bal \<and>
      0 \<le> pot g \<and> pot g < 2 ^ 49 \<longrightarrow>
      (\<exists>w' g'. dice_tallyRound now r w =
           (GameOver (userId wn) (pot g) (pot g - \<lfloor>rat_of_int (pot g) * 10 / 100\<rfloor>)
              \<lfloor>rat_of_int (pot g) * 10 / 100\<rfloor>
              (bal + (pot g - \<lfloor>rat_of_int (pot g) * 10 / 100\<rfloor>)), w') \<and>
         users_credits w' =
           (users_credits w)(userId wn \<mapsto> bal + (pot g - \<lfloor>rat_of_int (pot g) * 10 / 100\<rfloor>)) \<and>
         dicebot_game w' r = Some g' \<and> status g' = finished)) \<and>
   (\<forall>now r to w g wid win nb w' bal.
      lowcard_game w r = Some g \<and>
      lowcard_tallyRound now r to w = (LcGameOver wid win nb, w') \<and>
      users_credits w wid = Some bal \<and> 0 \<le> pot g \<and> pot g < 2 ^ 49 \<longrightarrow>
      win = pot g - \<lfloor>rat_of_int (pot g) * 0.05\<rfloor> \<and> win = pot g - pot g div 20 \<and>
      nb = bal + win \<and> users_credits w' = (users_credits w)(wid \<mapsto> bal + win) \<and>
      lowcard_game w' r = None) \<and>
   (\<forall>now r to w g lo wn bal.
      lowcard_game w r = Some g \<and> distinct (map userId (players g)) \<and>
      remaining g = holders g \<and> length (holders g) = 2 \<and>
      lo \<in> set (holders g) \<and> wn \<in> set (holders g) \<and> cardValue lo < cardValue wn \<and>
      users_credits w (userId wn) = Some bal \<and> 0 \<le> pot g \<and> pot g < 2 ^ 49 \<longrightarrow>
      (\<exists>w'. lowcard_tallyRound now r to w =
            (LcGameOver (userId wn) (pot g - \<lfloor>rat_of_int (pot g) * 0.05\<rfloor>)
               (bal + (pot g - \<lfloor>rat_of_int (pot g) * 0.05\<rfloor>)), w') \<and>
          users_credits w' =
            (users_credits w)(userId wn \<mapsto> bal + (pot g - \<lfloor>rat_of_int (pot g) * 0.05\<rfloor>)) \<and>
          lowcard_game w' r = None))"
proof (intro conjI allI impI)
  fix now r and w :: world and g :: dice_game and wn bal
  assume a: "dicebot_game w r = Some g \<and> filter (\<lambda>p. \<not> isEliminated p) (players g) = [wn] \<and>
      users_credits w (userId wn) = Some bal \<and> 0 \<le> pot g \<and> pot g < 2 ^ 49"
  show "\<exists>w' g'. dice_finalizeGame now r w =
           (GameOver (userId wn) (pot g) (pot g - \<lfloor>rat_of_int (pot g) * 10 / 100\<rfloor>)
              \<lfloor>rat_of_int (pot g) * 10 / 100\<rfloor>
              (bal + (pot g - \<lfloor>rat_of_int (pot g) * 10 / 100\<rfloor>)), w') \<and>
         users_credits w' =
           (users_credits w)(userId wn \<mapsto> bal + (pot g - \<lfloor>rat_of_int (pot g) * 10 / 100\<rfloor>)) \<and>
         dicebot_game w' r = Some g' \<and> status g' = finished \<and>
         winnings g' = Some (pot g - pot g * 10 div 100) \<and>
         houseFee g' = Some (pot g * 10 div 100) \<and>
         (pot g = 300 \<longrightarrow> winnings g' = Some 270 \<and> houseFee g' = Some 30)"
    by (rule dice_finalize_bounded) (use a in blast)+
next
  fix now r and w :: world and g :: dice_game and wn bal
  assume a: "dicebot_game w r = Some g \<and> status g = playing \<and>
      filter (\<lambda>p. \<not> isEliminated p \<and> isIn p \<noteq> Some False) (players g) = [wn] \<and>
      isIn wn = Some True \<and> users_credits w (userId wn) = Some bal \<and>
      0 \<le> pot g \<and> pot g < 2 ^ 49"
  show "\<exists>w' g'. dice_tallyRound now r w =
           (GameOver (userId wn) (pot g) (pot g - \<lfloor>rat_of_int (pot g) * 10 / 100\<rfloor>)
              \<lfloor>rat_of_int (pot g) * 10 / 100\<rfloor>
              (bal + (pot g - \<lfloor>rat_of_int (pot g) * 10 / 100\<rfloor>)), w') \<and>
         users_credits w' =
           (users_credits w)(userId wn \<mapsto> bal + (pot g - \<lfloor>rat_of_int (pot g) * 10 / 100\<rfloor>)) \<and>
         dicebot_game w' r = Some g' \<and> status g' = finished"
    by (rule dice_tally_bounded) (use a in blast)+
next
  fix now r "to" and w :: world and g :: lowcard_game and wid win nb w' bal
  assume a: "lowcard_game w r = Some g \<and>
      lowcard_tallyRound now r to w = (LcGameOver wid win nb, w') \<and>
      users_credits w wid = Some bal \<and> 0 \<le> pot g \<and> pot g < 2 ^ 49"
  have all: "win = pot g - \<lfloor>rat_of_int (pot g) * 0.05\<rfloor> \<and> win = pot g - pot g div 20 \<and>
      nb = bal + win \<and> users_credits w' = (users_credits w)(wid \<mapsto> bal + win) \<and>
      lowcard_game w' r = None"
    by (rule lowcard_gameover_bounded) (use a in blast)+
  from all show "win = pot g - \<lfloor>rat_of_int (pot g) * 0.05\<rfloor>" by blast
  from all show "win = pot g - pot g div 20" by blast
  from all show "nb = bal + win" by blast
  from all show "users_credits w' = (users_credits w)(wid \<mapsto> bal + win)" by blast
  from all show "lowcard_game w' r = None" by blast
next
  fix now r "to" and w :: world and g :: lowcard_game and lo wn bal
  assume a: "lowcard_game w r = Some g \<and> distinct (map userId (players g)) \<and>
      remaining g = holders g \<and> length (holders g) = 2 \<and>
      lo \<in> set (holders g) \<and> wn \<in> set (holders g) \<and> cardValue lo < cardValue wn \<and>
      users_credits w (userId wn) = Some bal \<and> 0 \<le> pot g \<and> pot g < 2 ^ 49"
  show "\<exists>w'. lowcard_tallyRound now r to w =
            (LcGameOver (userId wn) (pot g - \<lfloor>rat_of_int (pot g) * 0.05\<rfloor>)
               (bal + (pot g - \<lfloor>rat_of_int (pot g) * 0.05\<rfloor>)), w') \<and>
          users_credits w' =
            (users_credits w)(userId wn \<mapsto> bal + (pot g - \<lfloor>rat_of_int (pot g) * 0.05\<rfloor>)) \<and>
          lowcard_game w' r = None"
    by (rule final_duel_bounded) (use a in blast)+
qed

theorem winner_gets_pot_minus_fee_witness:
  "(\<exists>w'. dice_finalizeGame 130000 7 dice_round3_eliminated = (GameOver 2 300 270 30 1170, w') \<and>
      users_credits w' 2 = Some 1170 \<and>
      map_option winnings (dicebot_game w' 7) = Some (Some 270) \<and>
      map_option houseFee (dicebot_game w' 7) = Some (Some 30)) \<and>
   (\<exists>w'. dice_tallyRound 130000 7 dice_round3_rolled = (GameOver 2 300 270 30 1170, w') \<and>
      users_credits w' 2 = Some 1170 \<and>
      map_option status (dicebot_game w' 7) = Some finished) \<and>
   lowcard_tallyRound 100000 7 False lowcard4_duel =
     (LcGameOver 4 190 1140, snd (lowcard_tallyRound 100000 7 False lowcard4_duel)) \<and>
   (190::int) = 200 - \<lfloor>rat_of_int 200 * 0.05\<rfloor> \<and>
   users_credits (snd (lowcard_tallyRound 100000 7 False lowcard4_duel)) 4 = Some 1140 \<and>
   lowcard_game (snd (lowcard_tallyRound 100000 7 False lowcard4_duel)) 7 = None \<and>
   (\<exists>w'. lowcard_tallyRound 100000 7 True lowcard4_duel = (LcGameOver 4 190 1140, w') \<and>
      users_credits w' 4 = Some 1140 \<and> lowcard_game w' 7 = None)"
proof -
  have p2: "userId (sample_dice_player 2 dice_round3_rolled) = 2"
    by (simp add: dice_round3_rolled_player2)
  have pot: "pot (sample_dice_game dice_round3_rolled) = 300"
    using dice_round3_rolled_game by simp
  have fee: "\<lfloor>rat_of_int 300 * 10 / 100\<rfloor> = (30::int)" by simp
  have fee2: "\<lfloor>rat_of_int 200 * 0.05\<rfloor> = (10::int)" by simp
  have lpot: "pot (sample_game lowcard4_duel) = 200"
    using lowcard4_duel_game by simp
  have p4: "userId (sample_player 4 lowcard4_duel) = 4"
    by (simp add: lowcard4_duel_player14)
  from winner_gets_pot_minus_fee[THEN conjunct1, rule_format, OF c9_hyp1, of 130000]
  have A: "\<exists>w'. dice_finalizeGame 130000 7 dice_round3_eliminated = (GameOver 2 300 270 30 1170, w') \<and>
      users_credits w' 2 = Some 1170 \<and>
      map_option winnings (dicebot_game w' 7) = Some (Some 270) \<and>
      map_option houseFee (dicebot_game w' 7) = Some (Some 30)"
    unfolding p2 pot fee by (auto simp: p2 pot)
  from winner_gets_pot_minus_fee[THEN conjunct2, THEN conjunct1, rule_format, OF c9_hyp2, of 130000]
  have B: "\<exists>w'. dice_tallyRound 130000 7 dice_round3_rolled = (GameOver 2 300 270 30 1170, w') \<and>
      users_credits w' 2 = Some 1170 \<and>
      map_option status (dicebot_game w' 7) = Some finished"
    unfolding p2 pot fee by auto
  from winner_gets_pot_minus_fee[THEN conjunct2, THEN conjunct2, THEN conjunct1, rule_format,
      OF c9_hyp3]
  have C: "(190::int) = 200 - \<lfloor>rat_of_int 200 * 0.05\<rfloor> \<and>
      users_credits (snd (lowcard_tallyRound 100000 7 False lowcard4_duel)) 4 = Some 1140 \<and>
      lowcard_game (snd (lowcard_tallyRound 100000 7 False lowcard4_duel)) 7 = None"
    unfolding lpot by simp
  from winner_gets_pot_minus_fee[THEN conjunct2, THEN conjunct2, THEN conjunct2, rule_format,
      OF c9_hyp4, of 100000 True]
  have D: "\<exists>w'. lowcard_tallyRound 100000 7 True lowcard4_duel = (LcGameOver 4 190 1140, w') \<and>
      users_credits w' 4 = Some 1140 \<and> lowcard_game w' 7 = None"
    unfolding p4 lpot fee2 by auto
  from c9_hyp3 have E: "lowcard_tallyRound 100000 7 False lowcard4_duel =
     (LcGameOver 4 190 1140, snd (lowcard_tallyRound 100000 7 False lowcard4_duel))" by blast
  from A B C D E show ?thesis by blast
qed

text \<open>
  Without the bound the amounts differ. In the Big Game room of the sample, three players
  enter with 2266666666666673 coins each; the pot is 6800000000000019, the three-player
  rule ends the game and the winner is credited 6460000000000018, because the rounded
  product \<^verbatim>\<open>game.pot * 0.05\<close> is 340000000000001, while
  \<open>pot - \<lfloor>pot * 0.05\<rfloor> = 6460000000000019\<close>. For the dice fee the two roundings give
  360287970189640 at the pot 3602879701896410, where \<open>\<lfloor>pot * 10 / 100\<rfloor> = 360287970189641\<close>.
\<close>

theorem winner_gets_pot_minus_fee_counterexample:
  "big_game big_world 7 \<and>
   lowcard_game lowcard_big_drawn 7 = Some (sample_game lowcard_big_drawn) \<and>
   status (sample_game lowcard_big_drawn) = playing \<and>
   entryAmount (sample_game lowcard_big_drawn) = 2266666666666673 \<and>
   pot (sample_game lowcard_big_drawn) = 6800000000000019 \<and>
   map userId (remaining (sample_game lowcard_big_drawn)) = [1, 2, 3] \<and>
   map cardValue (holders (sample_game lowcard_big_drawn)) = [14, 13, 12] \<and>
   users_credits lowcard_big_drawn 1 = Some 733333333333327 \<and>
   fst (lowcard_tallyRound 50000 7 False lowcard_big_drawn) =
     LcGameOver 1 6460000000000018 7193333333333345 \<and>
   6800000000000019 - \<lfloor>rat_of_int 6800000000000019 * 0.05\<rfloor> = (6460000000000019::int) \<and>
   lowcard_commission 6800000000000019 = 340000000000001 \<and>
   dice_house_fee 3602879701896410 = 360287970189640 \<and>
   \<lfloor>rat_of_int 3602879701896410 * 10 / 100\<rfloor> = (360287970189641::int)"
proof -
  have "6800000000000019 - \<lfloor>rat_of_int 6800000000000019 * 0.05\<rfloor> = (6460000000000019::int)"
    using lowcard_commission_large by simp
  then show ?thesis
    using lowcard_big_drawn_game lowcard_big_drawn_tally lowcard_commission_large
      dice_house_fee_large by blast
qed

section \<open>Card holders\<close>

lemma filter_only:
  "distinct xs \<Longrightarrow> x \<in> set xs \<Longrightarrow> \<forall>y \<in> set xs. P y = (y = x) \<Longrightarrow> filter P xs = [x]"
  by (induction xs) (auto simp: filter_empty_conv)

lemma length_filter_other:
  assumes "distinct xs" "x \<in> set xs"
  shows "length (filter (\<lambda>p. p \<notin> set [x]) xs) = length xs - 1"
proof -
  have a: "filter (\<lambda>p. \<not> p \<notin> set [x]) xs = [x]"
    by (rule filter_only[OF assms]) simp
  from sum_length_filter_compl[of "\<lambda>p. p \<notin> set [x]" xs] a show ?thesis by simp
qed

lemma distinct_players: "distinct (map userId ps) \<Longrightarrow> distinct ps"
  by (simp add: distinct_map)

lemma holders_after_reset:
  "filter (\<lambda>p. \<not> isEliminated p \<and> currentCard p \<noteq> None)
     (map (\<lambda>p. if p \<in> set T then p\<lparr>hasDrawn := False, currentCard := None\<rparr> else p) ps) =
   filter (\<lambda>p. p \<notin> set T) (filter (\<lambda>p. \<not> isEliminated p \<and> currentCard p \<noteq> None) ps)"
  by (induction ps) auto

lemma tie_retains:
  assumes g: "lowcard_game w r = Some g" and d: "distinct (map userId (players g))"
    and ta: "ta \<in> set (holders g)"
    and low: "filter (\<lambda>q. cardValue q < cardValue ta) (holders g) = []"
    and n1: "1 < length (filter (\<lambda>q. cardValue q = cardValue ta) (holders g))"
    and n2: "length (filter (\<lambda>q. cardValue q = cardValue ta) (holders g)) < length (holders g)"
    and n3: "length (holders g) \<noteq> 3 \<or> isTimedOut"
    and nt: "\<not> isTimedOut \<or> previousTiedLosers g = None \<or> previousTiedLosers g = Some []"
  shows "\<exists>w' g'. lowcard_tallyRound now r isTimedOut w =
           (LcTie (map userId (filter (\<lambda>q. cardValue q = cardValue ta) (holders g))), w') \<and>
           lowcard_game w' r = Some g' \<and>
           players g' =
             map (\<lambda>p. if p \<in> set (filter (\<lambda>q. cardValue q = cardValue ta) (holders g))
                       then p\<lparr>hasDrawn := False, currentCard := None\<rparr> else p) (players g) \<and>
           holders g' =
             filter (\<lambda>p. p \<notin> set (filter (\<lambda>q. cardValue q = cardValue ta) (holders g)))
               (holders g) \<and>
           previousTiedLosers g' =
             Some (map userId (filter (\<lambda>q. cardValue q = cardValue ta) (holders g))) \<and>
           currentRound g' = currentRound g \<and> status g' = status g \<and> pot g' = pot g \<and>
           users_credits w' = users_credits w \<and> lowcard_deck w' = lowcard_deck w"
proof -
  define A where "A = holders g"
  define T where "T = filter (\<lambda>q. cardValue q = cardValue ta) A"
  note hyps = ta[folded A_def] low[folded A_def] n1[folded A_def, folded T_def]
    n2[folded A_def, folded T_def]
  from losers_eq[OF hyps(1,2)] have L: "losers A = T" unfolding T_def .
  have ne: "A \<noteq> []" using hyps(1) by auto
  have t1: "lowcard_tallyRound now r isTimedOut w = lowcard_tally_lowest now r isTimedOut g A w"
    unfolding A_def by (rule tally_to_lowest[OF g ne[unfolded A_def]]) (use n3 in auto)
  have nt': "\<not> (isTimedOut \<and>
      (case previousTiedLosers g of None \<Rightarrow> False | Some prev \<Rightarrow> length prev > 0))"
    using nt by auto
  have t2: "lowcard_tally_lowest now r isTimedOut g A w =
           (LcTie (map userId (losers A)),
            w\<lparr>lowcard_game := (lowcard_game w)(r \<mapsto>
                 g\<lparr>previousTiedLosers := Some (map userId (losers A)),
                   players := map (reset_tied (losers A)) (players g)\<rparr>)\<rparr>)"
    by (rule lowest_tie[OF _ _ nt']) (use L hyps(3,4) in simp_all)
  have sub: "set T \<subseteq> set (players g)" unfolding T_def A_def by auto
  have nel: "\<forall>l \<in> set T. \<not> isEliminated l" unfolding T_def A_def by simp
  have rt: "map (reset_tied T) (players g) =
            map (\<lambda>p. if p \<in> set T then p\<lparr>hasDrawn := False, currentCard := None\<rparr> else p)
              (players g)"
    using reset_tied_distinct[OF d sub nel] by (simp add: reset_draw_def)
  have hr: "filter (\<lambda>p. \<not> isEliminated p \<and> currentCard p \<noteq> None)
              (map (\<lambda>p. if p \<in> set T then p\<lparr>hasDrawn := False, currentCard := None\<rparr> else p)
                 (players g)) = filter (\<lambda>p. p \<notin> set T) A"
    unfolding A_def by (rule holders_after_reset)
  have "\<exists>w' g'. lowcard_tallyRound now r isTimedOut w = (LcTie (map userId T), w') \<and>
           lowcard_game w' r = Some g' \<and>
           players g' =
             map (\<lambda>p. if p \<in> set T
                       then p\<lparr>hasDrawn := False, currentCard := None\<rparr> else p) (players g) \<and>
           holders g' = filter (\<lambda>p. p \<notin> set T) A \<and>
           previousTiedLosers g' = Some (map userId T) \<and>
           currentRound g' = currentRound g \<and> status g' = status g \<and> pot g' = pot g \<and>
           users_credits w' = users_credits w \<and> lowcard_deck w' = lowcard_deck w"
    unfolding t1 t2 L using hr by (simp add: rt del: not_None_eq)
  then show ?thesis unfolding T_def A_def .
qed

lemma unique_lowest_eliminated:
  assumes g: "lowcard_game w r = Some g" and d: "distinct (map userId (players g))"
    and lo: "lo \<in> set (holders g)"
    and ul: "\<forall>q \<in> set (holders g). q \<noteq> lo \<longrightarrow> cardValue lo < cardValue q"
    and n3: "length (holders g) \<noteq> 3 \<or> isTimedOut"
    and r2: "length (remaining g) \<noteq> 2"
  shows "\<exists>w' g'. lowcard_tallyRound now r isTimedOut w =
           (LcEliminated [userId lo] (length (remaining g) - 1) (currentRound g + 1), w') \<and>
           lowcard_game w' r = Some g' \<and>
           players g' = map (\<lambda>p. if p = lo then p\<lparr>isEliminated := True\<rparr> else reset_survivor p)
                          (players g) \<and>
           previousTiedLosers g' = None \<and> currentRound g' = currentRound g + 1 \<and>
           status g' = status g \<and> pot g' = pot g \<and> users_credits w' = users_credits w"
proof -
  define A where "A = holders g"
  define R where "R = remaining g"
  have dp: "distinct (players g)" by (rule distinct_players[OF d])
  have dA: "distinct A" unfolding A_def using dp by simp
  have dR: "distinct R" unfolding R_def using dp by simp
  note loA = lo[folded A_def]
  have loR: "lo \<in> set R" using lo unfolding R_def by simp
  have low: "filter (\<lambda>q. cardValue q < cardValue lo) A = []"
    using ul unfolding A_def by (auto simp: filter_empty_conv)
  have "filter (\<lambda>q. cardValue q = cardValue lo) A = [lo]"
    by (rule filter_only[OF dA loA]) (use ul[folded A_def] in auto)
  with losers_eq[OF loA low] have L: "losers A = [lo]" by simp
  have ne: "A \<noteq> []" using loA by auto
  have t1: "lowcard_tallyRound now r isTimedOut w = lowcard_tally_lowest now r isTimedOut g A w"
    unfolding A_def by (rule tally_to_lowest[OF g ne[unfolded A_def]]) (use n3 in auto)
  define g1 where
    "g1 = g\<lparr>players := eliminate_ids (map userId (losers A)) (players g),
            previousTiedLosers := None\<rparr>"
  have t2: "lowcard_tally_lowest now r isTimedOut g A w =
              lowcard_after_elimination now r (map userId (losers A)) g1 w"
    unfolding g1_def by (rule lowest_normal) (use L in simp)
  have sub: "set [lo] \<subseteq> set (players g)" using lo by simp
  have pg1: "players g1 =
              map (\<lambda>p. if p \<in> set [lo] then p\<lparr>isEliminated := True\<rparr> else p) (players g)"
    unfolding g1_def L using eliminate_distinct[OF d sub] by simp
  have "remaining g1 = filter (\<lambda>p. p \<notin> set [lo]) (remaining g)"
    unfolding pg1 by (rule remaining_after)
  then have rem: "remaining g1 = filter (\<lambda>p. p \<notin> set [lo]) R" unfolding R_def .
  have lr: "length (remaining g1) = length R - 1"
    unfolding rem by (rule length_filter_other[OF dR loR])
  have mm: "map reset_survivor (players g1) =
            map (\<lambda>p. if p = lo then p\<lparr>isEliminated := True\<rparr> else reset_survivor p)
              (players g)"
    unfolding pg1 by (auto simp: reset_survivor_def)
  have Rpos: "0 < length R" using loR by (cases R) auto
  have "length (remaining g1) \<noteq> 1" unfolding lr using r2[folded R_def] Rpos by linarith
  from after_elimination_continue[OF this, of now r "map userId (losers A)" w]
  obtain w' g' where ae:
    "lowcard_after_elimination now r (map userId (losers A)) g1 w =
       (LcEliminated (map userId (losers A)) (length (remaining g1)) (currentRound g1 + 1), w')"
    "lowcard_game w' r = Some g'" "players g' = map reset_survivor (players g1)"
    "previousTiedLosers g' = previousTiedLosers g1" "currentRound g' = currentRound g1 + 1"
    "status g' = status g1" "pot g' = pot g1" "users_credits w' = users_credits w"
    by blast
  have g1f: "previousTiedLosers g1 = None" "currentRound g1 = currentRound g"
    "status g1 = status g" "pot g1 = pot g"
    unfolding g1_def by simp_all
  have res: "lowcard_tallyRound now r isTimedOut w =
               (LcEliminated [userId lo] (length R - 1) (currentRound g + 1), w')"
    using ae(1) unfolding t1 t2 lr g1f L by simp
  have flds: "previousTiedLosers g' = None" "currentRound g' = currentRound g + 1"
    "status g' = status g" "pot g' = pot g"
    using ae(4,5,6,7) g1f by simp_all
  show ?thesis
    using res[unfolded R_def] ae(2) ae(3)[unfolded mm] flds ae(8) by blast
qed

lemma three_holders_win:
  assumes g: "lowcard_game w r = Some g" and three: "length (holders g) = 3"
    and wn: "wn \<in> set (holders g)"
    and hi: "length (filter (\<lambda>q. cardValue wn \<le> cardValue q) (holders g)) = 1"
    and bal: "users_credits w (userId wn) = Some bal"
  shows "\<exists>w'. lowcard_tallyRound now r False w =
            (LcGameOver (userId wn) (pot g - lowcard_commission (pot g))
               (bal + (pot g - lowcard_commission (pot g))), w') \<and>
          users_credits w' =
            (users_credits w)(userId wn \<mapsto> bal + (pot g - lowcard_commission (pot g))) \<and>
          lowcard_game w' r = None \<and>
          (0 \<le> pot g \<and> pot g < 2 ^ 49 \<longrightarrow> lowcard_commission (pot g) = pot g div 20)"
  using lowcard_payout_credit[OF bal, of r g] unfolding tally_three_win[OF g three wn hi, of now]
  by (auto simp: lowcard_commission_div)

lemma two_holders_of_three:
  assumes g: "lowcard_game w r = Some g" and d: "distinct (map userId (players g))"
    and three: "length (remaining g) = 3" and two: "length (holders g) = 2"
    and lo: "lo \<in> set (holders g)" and hi: "hi \<in> set (holders g)"
    and lt: "cardValue lo < cardValue hi"
  shows "\<exists>w' g'. lowcard_tallyRound now r isTimedOut w =
           (LcEliminated [userId lo] 2 (currentRound g + 1), w') \<and>
           lowcard_game w' r = Some g' \<and>
           players g' = map (\<lambda>p. if p = lo then p\<lparr>isEliminated := True\<rparr> else reset_survivor p)
                          (players g) \<and>
           status g' = status g \<and> pot g' = pot g \<and> users_credits w' = users_credits w"
proof -
  define A where "A = holders g"
  note hyps = two[folded A_def] lo[folded A_def] hi[folded A_def]
  from hyps(1) obtain x y where A: "A = [x, y]"
    by (cases A; cases "tl A") auto
  have ne: "lo \<noteq> hi" using lt by auto
  from hyps(2,3) ne A have xy: "(x = lo \<and> y = hi) \<or> (x = hi \<and> y = lo)" by auto
  have ul: "\<forall>q \<in> set (holders g). q \<noteq> lo \<longrightarrow> cardValue lo < cardValue q"
    unfolding A_def[symmetric] A using xy lt by auto
  from unique_lowest_eliminated[OF g d lo ul, of isTimedOut now] two three
  show ?thesis by auto
qed

lemma payout_not_error: "fst (lowcard_payout r wn g w) \<noteq> LcError"
  by (simp add: lowcard_payout_def Let_def split: prod.splits)

lemma after_elimination_not_error: "fst (lowcard_after_elimination now r out g w) \<noteq> LcError"
  using payout_not_error by (simp add: lowcard_after_elimination_def Let_def)

lemma tally_lowest_not_error: "fst (lowcard_tally_lowest now r to g A w) \<noteq> LcError"
  using after_elimination_not_error by (simp add: lowcard_tally_lowest_def Let_def)

lemma error_iff_no_holder:
  assumes "lowcard_game w r = Some g"
  shows "(fst (lowcard_tallyRound now r to w) = LcError) = (holders g = [])"
  using assms payout_not_error tally_lowest_not_error
  by (simp add: lowcard_tallyRound_def Let_def del: not_None_eq)

lemma draw_refused_after_draw:
  assumes g: "lowcard_game w r = Some g" and d: "distinct (map userId (players g))"
    and p: "p \<in> set (remaining g)" and hd: "hasDrawn p"
  shows "\<exists>e. lowcard_drawCardForPlayer now fresh r (userId p) w = (Inl e, w)"
proof -
  have "find (\<lambda>q. userId q = userId p \<and> \<not> isEliminated q) (players g) \<noteq> None"
    using p by (auto simp: find_None_iff)
  then obtain q where q: "find (\<lambda>q. userId q = userId p \<and> \<not> isEliminated q) (players g) = Some q"
    by auto
  then have qq: "q \<in> set (players g)" "userId q = userId p"
    by (auto simp: find_Some_iff)
  from d have inj: "inj_on userId (set (players g))" by (simp add: distinct_map)
  with qq p have "q = p" by (auto dest: inj_onD)
  with q hd g show ?thesis
    by (simp add: lowcard_drawCardForPlayer_def split: option.splits)
qed

lemma auto_draw_keeps:
  "list_all2 (\<lambda>p p'. userId p' = userId p \<and> isEliminated p' = isEliminated p \<and>
                      (isEliminated p \<or> hasDrawn p \<longrightarrow> p' = p))
     ps (fst (auto_draw gen r k ps w))"
proof (induction ps arbitrary: k w)
  case Nil
  then show ?case by simp
next
  case (Cons a ps)
  show ?case
    using Cons.IH[of "Suc k" "snd (drawCardFromDeck (gen k) r w)"] Cons.IH[of k w]
    by (auto split: prod.splits)
qed

lemmas lowcard_partial_defs =
  lowcard4_mixed_def lowcard4_partial_def lowcard3_partial_def lowcard_sample_defs

lemma lowcard4_tie_game:
  "lowcard_game lowcard4_tie 7 = Some (sample_game lowcard4_tie) \<and>
   status (sample_game lowcard4_tie) = playing"
  by (simp add: lowcard_sample_defs)

lemma lowcard4_tie_players:
  "players (sample_game lowcard4_tie) =
     [\<lparr>userId = 1, username = ''ann'', isEliminated = False, hasDrawn = True,
       currentCard = Some \<lparr>value' = 9, suit = suit_h\<rparr>\<rparr>,
      \<lparr>userId = 2, username = ''bob'', isEliminated = False, hasDrawn = False,
       currentCard = None\<rparr>,
      \<lparr>userId = 3, username = ''cy'', isEliminated = False, hasDrawn = False,
       currentCard = None\<rparr>,
      \<lparr>userId = 4, username = ''dee'', isEliminated = False, hasDrawn = True,
       currentCard = Some \<lparr>value' = 12, suit = suit_h\<rparr>\<rparr>]"
  by (simp add: lowcard_sample_defs)

lemma lowcard4_mixed_game:
  "lowcard_game lowcard4_mixed 7 = Some (sample_game lowcard4_mixed)"
  by (simp add: lowcard_partial_defs)

lemma lowcard4_mixed_players:
  "players (sample_game lowcard4_mixed) =
     [\<lparr>userId = 1, username = ''ann'', isEliminated = False, hasDrawn = True,
       currentCard = Some \<lparr>value' = 9, suit = suit_h\<rparr>\<rparr>,
      \<lparr>userId = 2, username = ''bob'', isEliminated = False, hasDrawn = True,
       currentCard = Some \<lparr>value' = 10, suit = suit_d\<rparr>\<rparr>,
      \<lparr>userId = 3, username = ''cy'', isEliminated = False, hasDrawn = True,
       currentCard = Some \<lparr>value' = 11, suit = suit_d\<rparr>\<rparr>,
      \<lparr>userId = 4, username = ''dee'', isEliminated = False, hasDrawn = True,
       currentCard = Some \<lparr>value' = 12, suit = suit_h\<rparr>\<rparr>]"
  by (simp add: lowcard_partial_defs)

lemma lowcard4_partial_game:
  "lowcard_game lowcard4_partial 7 = Some (sample_game lowcard4_partial) \<and>
   pot (sample_game lowcard4_partial) = 200 \<and> users_credits lowcard4_partial 4 = Some 950"
  by (simp add: lowcard_partial_defs)

lemma lowcard4_partial_players:
  "players (sample_game lowcard4_partial) =
     [\<lparr>userId = 1, username = ''ann'', isEliminated = False, hasDrawn = True,
       currentCard = Some \<lparr>value' = 9, suit = suit_h\<rparr>\<rparr>,
      \<lparr>userId = 2, username = ''bob'', isEliminated = False, hasDrawn = True,
       currentCard = Some \<lparr>value' = 7, suit = suit_c\<rparr>\<rparr>,
      \<lparr>userId = 3, username = ''cy'', isEliminated = False, hasDrawn = False,
       currentCard = None\<rparr>,
      \<lparr>userId = 4, username = ''dee'', isEliminated = False, hasDrawn = True,
       currentCard = Some \<lparr>value' = 12, suit = suit_h\<rparr>\<rparr>]"
  by (simp add: lowcard_partial_defs)

lemma lowcard3_partial_game:
  "lowcard_game lowcard3_partial 7 = Some (sample_game lowcard3_partial) \<and>
   currentRound (sample_game lowcard3_partial) = 1"
  by (simp add: lowcard_partial_defs)

lemma lowcard3_partial_players:
  "players (sample_game lowcard3_partial) =
     [\<lparr>userId = 1, username = ''ann'', isEliminated = False, hasDrawn = True,
       currentCard = Some \<lparr>value' = 14, suit = suit_s\<rparr>\<rparr>,
      \<lparr>userId = 2, username = ''bob'', isEliminated = False, hasDrawn = True,
       currentCard = Some \<lparr>value' = 13, suit = suit_s\<rparr>\<rparr>,
      \<lparr>userId = 3, username = ''cy'', isEliminated = False, hasDrawn = False,
       currentCard = None\<rparr>]"
  by (simp add: lowcard_partial_defs)

lemma lowcard4_begun_game:
  "lowcard_game lowcard4_begun 7 = Some (sample_game lowcard4_begun) \<and>
   holders (sample_game lowcard4_begun) = []"
  by (simp add: lowcard_sample_defs)

lemma lowcard4_mixed_fields:
  "currentRound (sample_game lowcard4_mixed) = 1"
  by (simp add: lowcard_partial_defs)

lemma autoDraw_keeps:
  assumes "lowcard_game w r = Some g"
  shows "\<exists>g'. lowcard_game (snd (lowcard_autoDrawForTimeout gen r w)) r = Some g' \<and>
           list_all2 (\<lambda>p p'. userId p' = userId p \<and> isEliminated p' = isEliminated p \<and>
                              (isEliminated p \<or> hasDrawn p \<longrightarrow> p' = p))
             (players g) (players g')"
  using assms auto_draw_keeps[of "players g" gen r 0 w]
  by (auto simp: lowcard_autoDrawForTimeout_def split: prod.splits)

lemma lowcard4_drawn_player1:
  "sample_player 1 lowcard4_drawn =
     \<lparr>userId = 1, username = ''ann'', isEliminated = False, hasDrawn = True,
       currentCard = Some \<lparr>value' = 9, suit = suit_h\<rparr>\<rparr>"
  using lowcard4_drawn_players by (simp add: sample_player_def sample_game_def)

lemma lowcard4_tie_player1:
  "sample_player 1 lowcard4_tie =
     \<lparr>userId = 1, username = ''ann'', isEliminated = False, hasDrawn = True,
       currentCard = Some \<lparr>value' = 9, suit = suit_h\<rparr>\<rparr>"
  using lowcard4_tie_players by (simp add: sample_player_def sample_game_def)

lemma lowcard4_mixed_player1:
  "sample_player 1 lowcard4_mixed =
     \<lparr>userId = 1, username = ''ann'', isEliminated = False, hasDrawn = True,
       currentCard = Some \<lparr>value' = 9, suit = suit_h\<rparr>\<rparr>"
  using lowcard4_mixed_players by (simp add: sample_player_def sample_game_def)

lemma lowcard4_partial_player4:
  "sample_player 4 lowcard4_partial =
     \<lparr>userId = 4, username = ''dee'', isEliminated = False, hasDrawn = True,
       currentCard = Some \<lparr>value' = 12, suit = suit_h\<rparr>\<rparr>"
  using lowcard4_partial_players by (simp add: sample_player_def sample_game_def)

lemma lowcard3_partial_player12:
  "sample_player 1 lowcard3_partial =
     \<lparr>userId = 1, username = ''ann'', isEliminated = False, hasDrawn = True,
       currentCard = Some \<lparr>value' = 14, suit = suit_s\<rparr>\<rparr> \<and>
   sample_player 2 lowcard3_partial =
     \<lparr>userId = 2, username = ''bob'', isEliminated = False, hasDrawn = True,
       currentCard = Some \<lparr>value' = 13, suit = suit_s\<rparr>\<rparr>"
  using lowcard3_partial_players by (simp add: sample_player_def sample_game_def)

lemma c10_hyp1:
  "lowcard_game lowcard4_drawn 7 = Some (sample_game lowcard4_drawn) \<and>
   distinct (map userId (players (sample_game lowcard4_drawn))) \<and>
   sample_player 2 lowcard4_drawn \<in> set (holders (sample_game lowcard4_drawn)) \<and>
   filter (\<lambda>q. cardValue q < cardValue (sample_player 2 lowcard4_drawn))
     (holders (sample_game lowcard4_drawn)) = [] \<and>
   1 < length (filter (\<lambda>q. cardValue q = cardValue (sample_player 2 lowcard4_drawn))
                 (holders (sample_game lowcard4_drawn))) \<and>
   length (filter (\<lambda>q. cardValue q = cardValue (sample_player 2 lowcard4_drawn))
             (holders (sample_game lowcard4_drawn))) < length (holders (sample_game lowcard4_drawn)) \<and>
   (length (holders (sample_game lowcard4_drawn)) \<noteq> 3 \<or> False) \<and>
   (\<not> False \<or> previousTiedLosers (sample_game lowcard4_drawn) = None \<or>
    previousTiedLosers (sample_game lowcard4_drawn) = Some [])"
  by (simp add: lowcard4_drawn_game lowcard4_drawn_players lowcard4_drawn_player2 cardValue_def)

lemma c10_val1:
  "map userId (filter (\<lambda>q. cardValue q = cardValue (sample_player 2 lowcard4_drawn))
                 (holders (sample_game lowcard4_drawn))) = [2, 3] \<and>
   map (\<lambda>p. (userId p, map_option value' (currentCard p)))
     (filter (\<lambda>p. p \<notin> set (filter (\<lambda>q. cardValue q = cardValue (sample_player 2 lowcard4_drawn))
                                (holders (sample_game lowcard4_drawn))))
        (holders (sample_game lowcard4_drawn))) = [(1, Some 9), (4, Some 12)]"
  by (simp add: lowcard4_drawn_players lowcard4_drawn_player2 cardValue_def)

lemma c10_hyp2:
  "lowcard_game lowcard4_tie 7 = Some (sample_game lowcard4_tie) \<and>
   distinct (map userId (players (sample_game lowcard4_tie))) \<and>
   sample_player 1 lowcard4_tie \<in> set (remaining (sample_game lowcard4_tie)) \<and>
   hasDrawn (sample_player 1 lowcard4_tie)"
  using lowcard4_tie_game
  by (simp add: lowcard4_tie_players lowcard4_tie_player1 del: One_nat_def)

lemma c10_hyp4:
  "lowcard_game lowcard4_mixed 7 = Some (sample_game lowcard4_mixed) \<and>
   distinct (map userId (players (sample_game lowcard4_mixed))) \<and>
   sample_player 1 lowcard4_mixed \<in> set (holders (sample_game lowcard4_mixed)) \<and>
   list_all (\<lambda>q. q \<noteq> sample_player 1 lowcard4_mixed \<longrightarrow>
                  cardValue (sample_player 1 lowcard4_mixed) < cardValue q)
     (holders (sample_game lowcard4_mixed)) \<and>
   (length (holders (sample_game lowcard4_mixed)) \<noteq> 3 \<or> False) \<and>
   length (remaining (sample_game lowcard4_mixed)) \<noteq> 2"
  using lowcard4_mixed_game
  by (simp add: lowcard4_mixed_players lowcard4_mixed_player1 cardValue_def del: One_nat_def)

lemma c10_hyp5:
  "lowcard_game lowcard4_partial 7 = Some (sample_game lowcard4_partial) \<and>
   length (holders (sample_game lowcard4_partial)) = 3 \<and>
   sample_player 4 lowcard4_partial \<in> set (holders (sample_game lowcard4_partial)) \<and>
   length (filter (\<lambda>q. cardValue (sample_player 4 lowcard4_partial) \<le> cardValue q)
             (holders (sample_game lowcard4_partial))) = 1 \<and>
   users_credits lowcard4_partial (userId (sample_player 4 lowcard4_partial)) = Some 950"
  using lowcard4_partial_game
  by (simp add: lowcard4_partial_players lowcard4_partial_player4 cardValue_def)

lemma c10_val5:
  "length (remaining (sample_game lowcard4_partial)) = 4 \<and>
   pot (sample_game lowcard4_partial) = 200 \<and>
   userId (sample_player 4 lowcard4_partial) = 4"
  using lowcard4_partial_game
  by (simp add: lowcard4_partial_players lowcard4_partial_player4)

lemma c10_hyp6:
  "lowcard_game lowcard3_partial 7 = Some (sample_game lowcard3_partial) \<and>
   distinct (map userId (players (sample_game lowcard3_partial))) \<and>
   length (remaining (sample_game lowcard3_partial)) = 3 \<and>
   length (holders (sample_game lowcard3_partial)) = 2 \<and>
   sample_player 2 lowcard3_partial \<in> set (holders (sample_game lowcard3_partial)) \<and>
   sample_player 1 lowcard3_partial \<in> set (holders (sample_game lowcard3_partial)) \<and>
   cardValue (sample_player 2 lowcard3_partial) < cardValue (sample_player 1 lowcard3_partial)"
  using lowcard3_partial_game
  by (simp add: lowcard3_partial_players lowcard3_partial_player12 cardValue_def del: One_nat_def)

section \<open>C10: retained cards and the active players\<close>

text \<open>
  C10. The tally works on the players who are not eliminated and hold a card.
  \<^item> When several, but not all, of them share the lowest rank (and the tie is not broken by
    a timeout) the tally reports the tie and resets \<open>hasDrawn\<close> and \<open>currentCard\<close> of the
    tied players only: every other record is unchanged, so the card holders of the stored
    session are the holders who were not tied, with the cards they had.
  \<^item> A player who has drawn cannot draw again, and the draw on timeout leaves every player
    who has drawn as they are: the untied players keep their card through the redraw.
  \<^item> A card holder whose rank is strictly lowest among the card holders is eliminated,
    whichever round the card was drawn in.
  \<^item> With exactly three card holders and no timeout the strictly highest card wins, however
    many players are not eliminated, and is credited the pot minus the commission (\<open>pot div
    20\<close> for every pot from 0 to \<open>2\<^sup>4\<^sup>9\<close>); with three players not eliminated of whom two hold a
    card there is no such win and the lower card is eliminated.
  \<^item> The tally reports an error exactly when nobody who is not eliminated holds a card.
\<close>

theorem tally_counts_card_holders:
  "(\<forall>now r isTimedOut w g ta.
      lowcard_game w r = Some g \<and> distinct (map userId (players g)) \<and>
      ta \<in> set (holders g) \<and>
      filter (\<lambda>q. cardValue q < cardValue ta) (holders g) = [] \<and>
      1 < length (filter (\<lambda>q. cardValue q = cardValue ta) (holders g)) \<and>
      length (filter (\<lambda>q. cardValue q = cardValue ta) (holders g)) < length (holders g) \<and>
      (length (holders g) \<noteq> 3 \<or> isTimedOut) \<and>
      (\<not> isTimedOut \<or> previousTiedLosers g = None \<or> previousTiedLosers g = Some []) \<longrightarrow>
      (\<exists>w' g'. lowcard_tallyRound now r isTimedOut w =
           (LcTie (map userId (filter (\<lambda>q. cardValue q = cardValue ta) (holders g))), w') \<and>
           lowcard_game w' r = Some g' \<and>
           players g' =
             map (\<lambda>p. if p \<in> set (filter (\<lambda>q. cardValue q = cardValue ta) (holders g))
                       then p\<lparr>hasDrawn := False, currentCard := None\<rparr> else p) (players g) \<and>
           holders g' =
             filter (\<lambda>p. p \<notin> set (filter (\<lambda>q. cardValue q = cardValue ta) (holders g)))
               (holders g) \<and>
           previousTiedLosers g' =
             Some (map userId (filter (\<lambda>q. cardValue q = cardValue ta) (holders g))) \<and>
           currentRound g' = currentRound g \<and> status g' = status g \<and> pot g' = pot g \<and>
           users_credits w' = users_credits w \<and> lowcard_deck w' = lowcard_deck w)) \<and>
   (\<forall>now fresh r w g p.
      lowcard_game w r = Some g \<and> distinct (map userId (players g)) \<and>
      p \<in> set (remaining g) \<and> hasDrawn p \<longrightarrow>
      (\<exists>e. lowcard_drawCardForPlayer now fresh r (userId p) w = (Inl e, w))) \<and>
   (\<forall>gen r w g.
      lowcard_game w r = Some g \<longrightarrow>
      (\<exists>g'. lowcard_game (snd (lowcard_autoDrawForTimeout gen r w)) r = Some g' \<and>
           list_all2 (\<lambda>p p'. userId p' = userId p \<and> isEliminated p' = isEliminated p \<and>
                              (isEliminated p \<or> hasDrawn p \<longrightarrow> p' = p))
             (players g) (players g'))) \<and>
   (\<forall>now r isTimedOut w g lo.
      lowcard_game w r = Some g \<and> distinct (map userId (players g)) \<and>
      lo \<in> set (holders g) \<and>
      (\<forall>q \<in> set (holders g). q \<noteq> lo \<longrightarrow> cardValue lo < cardValue q) \<and>
      (length (holders g) \<noteq> 3 \<or> isTimedOut) \<and> length (remaining g) \<noteq> 2 \<longrightarrow>
      (\<exists>w' g'. lowcard_tallyRound now r isTimedOut w =
           (LcEliminated [userId lo] (length (remaining g) - 1) (currentRound g + 1), w') \<and>
           lowcard_game w' r = Some g' \<and>
           players g' = map (\<lambda>p. if p = lo then p\<lparr>isEliminated := True\<rparr> else reset_survivor p)
                          (players g) \<and>
           previousTiedLosers g' = None \<and> currentRound g' = currentRound g + 1 \<and>
           status g' = status g \<and> pot g' = pot g \<and> users_credits w' = users_credits w)) \<and>
   (\<forall>now r w g wn bal.
      lowcard_game w r = Some g \<and> length (holders g) = 3 \<and> wn \<in> set (holders g) \<and>
      length (filter (\<lambda>q. cardValue wn \<le> cardValue q) (holders g)) = 1 \<and>
      users_credits w (userId wn) = Some bal \<longrightarrow>
      (\<exists>w'. lowcard_tallyRound now r False w =
            (LcGameOver (userId wn) (pot g - lowcard_commission (pot g))
               (bal + (pot g - lowcard_commission (pot g))), w') \<and>
          users_credits w' =
            (users_credits w)(userId wn \<mapsto> bal + (pot g - lowcard_commission (pot g))) \<and>
          lowcard_game w' r = None \<and>
          (0 \<le> pot g \<and> pot g < 2 ^ 49 \<longrightarrow> lowcard_commission (pot g) = pot g div 20))) \<and>
   (\<forall>now r isTimedOut w g lo hi.
      lowcard_game w r = Some g \<and> distinct (map userId (players g)) \<and>
      length (remaining g) = 3 \<and> length (holders g) = 2 \<and>
      lo \<in> set (holders g) \<and> hi \<in> set (holders g) \<and> cardValue lo < cardValue hi \<longrightarrow>
      (\<exists>w' g'. lowcard_tallyRound now r isTimedOut w =
           (LcEliminated [userId lo] 2 (currentRound g + 1), w') \<and>
           lowcard_game w' r = Some g' \<and>
           players g' = map (\<lambda>p. if p = lo then p\<lparr>isEliminated := True\<rparr> else reset_survivor p)
                          (players g) \<and>
           status g' = status g \<and> pot g' = pot g \<and> users_credits w' = users_credits w)) \<and>
   (\<forall>now r isTimedOut w g.
      lowcard_game w r = Some g \<longrightarrow>
      (fst (lowcard_tallyRound now r isTimedOut w) = LcError) = (holders g = []))"
  apply (intro conjI allI impI; (elim conjE)?)
        apply (rule tie_retains; assumption)
       apply (rule draw_refused_after_draw; assumption)
      apply (rule autoDraw_keeps; assumption)
     apply (rule unique_lowest_eliminated; assumption)
    apply (rule three_holders_win; assumption)
   apply (rule two_holders_of_three; assumption)
  apply (rule error_iff_no_holder; assumption)
  done

theorem tally_counts_card_holders_witness:
  "(\<exists>g'. lowcard_tallyRound 50000 7 False lowcard4_drawn = (LcTie [2, 3], lowcard4_tie) \<and>
      lowcard_game lowcard4_tie 7 = Some g' \<and>
      map (\<lambda>p. (userId p, map_option value' (currentCard p))) (holders g') =
        [(1, Some 9), (4, Some 12)]) \<and>
   (\<exists>e. lowcard_drawCardForPlayer 56000 unshuffled_deck 7 1 lowcard4_tie = (Inl e, lowcard4_tie)) \<and>
   (\<exists>g' a b. lowcard_game lowcard4_redrawn 7 = Some g' \<and>
      players g' = [sample_player 1 lowcard4_drawn, a, b, sample_player 4 lowcard4_drawn]) \<and>
   sample_player 1 lowcard4_mixed = sample_player 1 lowcard4_drawn \<and>
   map (\<lambda>p. (userId p, map_option value' (currentCard p))) (holders (sample_game lowcard4_mixed)) =
     [(1, Some 9), (2, Some 10), (3, Some 11), (4, Some 12)] \<and>
   fst (lowcard_tallyRound 60000 7 False lowcard4_mixed) = LcEliminated [1] 3 2 \<and>
   length (remaining (sample_game lowcard4_partial)) = 4 \<and>
   length (holders (sample_game lowcard4_partial)) = 3 \<and>
   (\<exists>w'. lowcard_tallyRound 60000 7 False lowcard4_partial = (LcGameOver 4 190 1140, w') \<and>
      lowcard_game w' 7 = None) \<and>
   lowcard_commission (pot (sample_game lowcard4_partial)) =
     pot (sample_game lowcard4_partial) div 20 \<and>
   length (remaining (sample_game lowcard3_partial)) = 3 \<and>
   fst (lowcard_tallyRound 50000 7 False lowcard3_partial) = LcEliminated [2] 2 2 \<and>
   holders (sample_game lowcard4_begun) = [] \<and>
   fst (lowcard_tallyRound 50000 7 False lowcard4_begun) = LcError"
proof -
  note T = tally_counts_card_holders
  from T[THEN conjunct1, rule_format, OF c10_hyp1, of 50000]
  obtain w' g' where t1:
    "lowcard_tallyRound 50000 7 False lowcard4_drawn =
       (LcTie (map userId (filter (\<lambda>q. cardValue q = cardValue (sample_player 2 lowcard4_drawn))
                 (holders (sample_game lowcard4_drawn)))), w')"
    "lowcard_game w' 7 = Some g'"
    "holders g' =
       filter (\<lambda>p. p \<notin> set (filter (\<lambda>q. cardValue q = cardValue (sample_player 2 lowcard4_drawn))
                                (holders (sample_game lowcard4_drawn))))
         (holders (sample_game lowcard4_drawn))"
    by blast
  have w': "w' = lowcard4_tie" unfolding lowcard4_tie_def t1(1) by simp
  have A: "\<exists>g'. lowcard_tallyRound 50000 7 False lowcard4_drawn = (LcTie [2, 3], lowcard4_tie) \<and>
      lowcard_game lowcard4_tie 7 = Some g' \<and>
      map (\<lambda>p. (userId p, map_option value' (currentCard p))) (holders g') =
        [(1, Some 9), (4, Some 12)]"
  proof (intro exI conjI)
    show "lowcard_tallyRound 50000 7 False lowcard4_drawn = (LcTie [2, 3], lowcard4_tie)"
      using t1(1)[unfolded w' c10_val1[THEN conjunct1]] .
    show "lowcard_game lowcard4_tie 7 = Some g'"
      using t1(2)[unfolded w'] .
    show "map (\<lambda>p. (userId p, map_option value' (currentCard p))) (holders g') =
        [(1, Some 9), (4, Some 12)]"
      unfolding t1(3) by (rule c10_val1[THEN conjunct2])
  qed
  have u1: "userId (sample_player 1 lowcard4_tie) = 1"
    by (simp add: lowcard4_tie_player1 del: One_nat_def)
  from T[THEN conjunct2, THEN conjunct1, rule_format, OF c10_hyp2, of 56000 unshuffled_deck]
  have B: "\<exists>e. lowcard_drawCardForPlayer 56000 unshuffled_deck 7 1 lowcard4_tie =
             (Inl e, lowcard4_tie)"
    unfolding u1 .
  have g3: "lowcard_game lowcard4_tie 7 = Some (sample_game lowcard4_tie)"
    using lowcard4_tie_game by simp
  from T[THEN conjunct2, THEN conjunct2, THEN conjunct1, rule_format, OF g3,
      of "\<lambda>k. unshuffled_deck", folded lowcard4_redrawn_def]
  have C: "\<exists>g' a b. lowcard_game lowcard4_redrawn 7 = Some g' \<and>
      players g' = [sample_player 1 lowcard4_drawn, a, b, sample_player 4 lowcard4_drawn]"
    unfolding lowcard4_tie_players lowcard4_drawn_player1
    using lowcard4_drawn_players
    by (auto simp: list_all2_Cons1 sample_player_def sample_game_def)
  have D1: "sample_player 1 lowcard4_mixed = sample_player 1 lowcard4_drawn"
    unfolding lowcard4_mixed_player1 lowcard4_drawn_player1 ..
  have D2: "map (\<lambda>p. (userId p, map_option value' (currentCard p)))
              (holders (sample_game lowcard4_mixed)) =
            [(1, Some 9), (2, Some 10), (3, Some 11), (4, Some 12)]"
    by (simp add: lowcard4_mixed_players)
  have h4: "lowcard_game lowcard4_mixed 7 = Some (sample_game lowcard4_mixed) \<and>
   distinct (map userId (players (sample_game lowcard4_mixed))) \<and>
   sample_player 1 lowcard4_mixed \<in> set (holders (sample_game lowcard4_mixed)) \<and>
   (\<forall>q \<in> set (holders (sample_game lowcard4_mixed)). q \<noteq> sample_player 1 lowcard4_mixed \<longrightarrow>
                  cardValue (sample_player 1 lowcard4_mixed) < cardValue q) \<and>
   (length (holders (sample_game lowcard4_mixed)) \<noteq> 3 \<or> False) \<and>
   length (remaining (sample_game lowcard4_mixed)) \<noteq> 2"
    using c10_hyp4 unfolding list_all_iff by blast
  have v4: "userId (sample_player 1 lowcard4_mixed) = 1"
    "length (remaining (sample_game lowcard4_mixed)) - 1 = 3"
    "currentRound (sample_game lowcard4_mixed) + 1 = 2"
    using lowcard4_mixed_fields
    by (simp_all add: lowcard4_mixed_player1 lowcard4_mixed_players del: One_nat_def)
  from T[THEN conjunct2, THEN conjunct2, THEN conjunct2, THEN conjunct1, rule_format, OF h4,
      of 60000]
  have D3: "fst (lowcard_tallyRound 60000 7 False lowcard4_mixed) = LcEliminated [1] 3 2"
    unfolding v4 by auto
  have v5: "pot (sample_game lowcard4_partial) = 200"
    "userId (sample_player 4 lowcard4_partial) = 4"
    using c10_val5 by simp_all
  from T[THEN conjunct2, THEN conjunct2, THEN conjunct2, THEN conjunct2, THEN conjunct1,
      rule_format, OF c10_hyp5, of 60000]
  have E: "\<exists>w'. lowcard_tallyRound 60000 7 False lowcard4_partial = (LcGameOver 4 190 1140, w') \<and>
      lowcard_game w' 7 = None"
    unfolding v5 by auto
  have bound: "0 \<le> pot (sample_game lowcard4_partial) \<and> pot (sample_game lowcard4_partial) < 2 ^ 49"
    using c10_val5 by simp
  have E1: "lowcard_commission (pot (sample_game lowcard4_partial)) =
              pot (sample_game lowcard4_partial) div 20"
    using T[THEN conjunct2, THEN conjunct2, THEN conjunct2, THEN conjunct2, THEN conjunct1,
        rule_format, OF c10_hyp5, of 60000] bound by blast
  have v6: "userId (sample_player 2 lowcard3_partial) = 2"
    "currentRound (sample_game lowcard3_partial) + 1 = 2"
    using lowcard3_partial_game by (simp_all add: lowcard3_partial_player12)
  from T[THEN conjunct2, THEN conjunct2, THEN conjunct2, THEN conjunct2, THEN conjunct2,
      THEN conjunct1, rule_format, OF c10_hyp6, of 50000 False]
  have F: "fst (lowcard_tallyRound 50000 7 False lowcard3_partial) = LcEliminated [2] 2 2"
    unfolding v6 by auto
  have g7: "lowcard_game lowcard4_begun 7 = Some (sample_game lowcard4_begun)"
    using lowcard4_begun_game by simp
  have G1: "holders (sample_game lowcard4_begun) = []"
    using lowcard4_begun_game by simp
  from T[THEN conjunct2, THEN conjunct2, THEN conjunct2, THEN conjunct2, THEN conjunct2,
      THEN conjunct2, rule_format, OF g7, of 50000 False]
  have G2: "fst (lowcard_tallyRound 50000 7 False lowcard4_begun) = LcError"
    using G1 by simp
  have E0: "length (remaining (sample_game lowcard4_partial)) = 4"
    "length (holders (sample_game lowcard4_partial)) = 3"
    using c10_val5 c10_hyp5 by simp_all
  have F0: "length (remaining (sample_game lowcard3_partial)) = 3"
    using c10_hyp6 by simp
  show ?thesis
    using A B C D1 D2 D3 E0 E E1 F0 F G1 G2 by blast
qed

end
